theory Spec2Isabelle
  imports Main "HOL-Library.AList" "HOL-Library.Multiset"
begin

section \<open>Data model\<close>

text \<open>
  A Go \<^verbatim>\<open>map[string]string\<close> is the list of its entries (distinct keys), looked up with
  \<^const>\<open>map_of\<close>; the nil map is \<^const>\<open>None\<close>. Ranging over a nil map and reading a key
  of a nil map behave as for the empty map, which \<open>entries\<close> and \<open>lookup\<close> write out.
\<close>

type_synonym strmap = "(string \<times> string) list option"

definition entries :: "strmap \<Rightarrow> (string \<times> string) list" where
  "entries m = (case m of None \<Rightarrow> [] | Some al \<Rightarrow> al)"

definition lookup :: "strmap \<Rightarrow> string \<Rightarrow> string option" where
  "lookup m k = map_of (entries m) k"

text \<open>Errors: a status error of the API server with its reason, a plain error made by
  \<^verbatim>\<open>fmt.Errorf\<close>, an error wrapped with \<^verbatim>\<open>%w\<close>, or an error of a library.\<close>

datatype reason = NotFound | Conflict | AlreadyExists | Forbidden | Timeout | Unknown

datatype error =
    StatusError reason string
  | Errorf string
  | Wrap string error
  | LibError string

text \<open>\<^verbatim>\<open>errors.IsNotFound\<close> and \<^verbatim>\<open>errors.IsConflict\<close> read the reason of a status error and
  look through \<^verbatim>\<open>%w\<close> wrapping.\<close>

fun IsNotFound :: "error \<Rightarrow> bool" where
  "IsNotFound (StatusError r _) = (r = NotFound)"
| "IsNotFound (Wrap _ e) = IsNotFound e"
| "IsNotFound _ = False"

fun IsConflict :: "error \<Rightarrow> bool" where
  "IsConflict (StatusError r _) = (r = Conflict)"
| "IsConflict (Wrap _ e) = IsConflict e"
| "IsConflict _ = False"

record PolicyRule =
  Verbs :: "string list"
  APIGroups :: "string list"
  Resources :: "string list"
  ResourceNames :: "string list"
  NonResourceURLs :: "string list"

record Subject =
  subj_Kind :: string
  subj_APIGroup :: string
  subj_Name :: string
  subj_Namespace :: string

record RoleRef =
  ref_APIGroup :: string
  ref_Kind :: string
  ref_Name :: string

record NamespaceSelector =
  NameRegex :: "string option"
  sel_Annotations :: strmap
  sel_Labels :: strmap
  IncludeNamespaces :: "string list"
  ExcludeNamespaces :: "string list"

record Namespace =
  ns_Name :: string
  ns_Labels :: strmap
  ns_Annotations :: strmap

text \<open>\<^verbatim>\<open>metav1.ObjectMeta\<close>, with the fields the code reads or writes. The four RBAC
  kinds and the declaration embed it, as the Go structs do.\<close>

record OwnerReference =
  or_Kind :: string
  or_Name :: string
  or_Controller :: bool

record ObjectMeta =
  om_Name :: string
  om_Namespace :: string
  om_Labels :: strmap
  om_Annotations :: strmap
  om_ResourceVersion :: string
  om_OwnerReferences :: "OwnerReference list"
  om_Finalizers :: "string list"
  om_DeletionTimestamp :: "int option"
  om_Generation :: int

record Role = ObjectMeta +
  role_Rules :: "PolicyRule list"

record ClusterRole = ObjectMeta +
  crole_Rules :: "PolicyRule list"

record RoleBinding = ObjectMeta +
  rb_RoleRef :: RoleRef
  rb_Subjects :: "Subject list"

record ClusterRoleBinding = ObjectMeta +
  crb_RoleRef :: RoleRef
  crb_Subjects :: "Subject list"

record RoleTemplate =
  rt_Name :: string
  rt_Rules :: "PolicyRule list"
  rt_Labels :: strmap
  rt_Annotations :: strmap

record ClusterRoleTemplate =
  crt_Name :: string
  crt_Rules :: "PolicyRule list"
  crt_Labels :: strmap
  crt_Annotations :: strmap

record RoleBindingTemplate =
  rbt_Name :: string
  rbt_RoleRef :: RoleRef
  rbt_Subjects :: "Subject list"
  rbt_Labels :: strmap
  rbt_Annotations :: strmap

record ClusterRoleBindingTemplate =
  crbt_Name :: string
  crbt_RoleRef :: RoleRef
  crbt_Subjects :: "Subject list"
  crbt_Labels :: strmap
  crbt_Annotations :: strmap

record RBACTemplates =
  Roles :: "RoleTemplate list"
  ClusterRoles :: "ClusterRoleTemplate list"
  RoleBindings :: "RoleBindingTemplate list"
  ClusterRoleBindings :: "ClusterRoleBindingTemplate list"

record NamingConfig =
  Prefix :: string
  Suffix :: string
  Separator :: string

record CleanupConfig =
  DeleteOrphanedClusterResources :: "bool option"
  GracePeriodSeconds :: "int option"

text \<open>\<^verbatim>\<open>MergeStrategy\<close> is a string type with three named values; any other string
  reaches the \<^verbatim>\<open>default\<close> branch of the switches over it.\<close>

type_synonym MergeStrategy = string

definition MergeStrategyMerge :: MergeStrategy where
  "MergeStrategyMerge = ''merge''"

definition MergeStrategyReplace :: MergeStrategy where
  "MergeStrategyReplace = ''replace''"

definition MergeStrategyIgnore :: MergeStrategy where
  "MergeStrategyIgnore = ''ignore''"

record NamespaceRBACConfigConfig =
  Naming :: "NamingConfig option"
  MergeStrategy :: "MergeStrategy option"
  TemplateVariables :: strmap
  Cleanup :: "CleanupConfig option"

record NamespaceRBACConfigSpec =
  spec_NamespaceSelector :: NamespaceSelector
  spec_RBACTemplates :: RBACTemplates
  spec_Config :: "NamespaceRBACConfigConfig option"

datatype ConditionStatus = ConditionTrue | ConditionFalse | ConditionUnknown

record Condition =
  cond_Type :: string
  cond_Status :: ConditionStatus
  cond_LastTransitionTime :: int
  cond_Reason :: string
  cond_Message :: string

record NamespaceRBACConfigStatus =
  Conditions :: "Condition list"
  AppliedNamespaces :: "string list"
  ObservedGeneration :: int

record NamespaceRBACConfig = ObjectMeta +
  Spec :: NamespaceRBACConfigSpec
  Status :: NamespaceRBACConfigStatus

record Request =
  req_Namespace :: string
  req_Name :: string

record Result =
  Requeue :: bool
  RequeueAfter :: int

definition Result_empty :: Result where
  "Result_empty = \<lparr>Requeue = False, RequeueAfter = 0\<rparr>"

text \<open>The regular expressions of Go's \<^verbatim>\<open>regexp\<close> package are not part of the repository:
  the two entry points the code calls are parameters.\<close>

record regexp =
  MatchString :: "string \<Rightarrow> string \<Rightarrow> bool \<times> error option"
  Compile :: "string \<Rightarrow> error option"

section \<open>pkg/utils: NamespaceMatches\<close>

text \<open>The two Go results \<^verbatim>\<open>(bool, error)\<close> are a pair. The loops over the exclusion and
  inclusion lists return at the first equal name: list membership. The loop over the
  required entries returns false at the first entry the namespace lacks.\<close>

definition NamespaceMatches ::
  "regexp \<Rightarrow> Namespace \<Rightarrow> NamespaceSelector \<Rightarrow> bool \<times> error option" where
  "NamespaceMatches re ns selector =
    (if ns_Name ns \<in> set (ExcludeNamespaces selector) then (False, None)
     else if length (IncludeNamespaces selector) > 0
             \<and> ns_Name ns \<notin> set (IncludeNamespaces selector) then (False, None)
     else
       (case (case NameRegex selector of
                None \<Rightarrow> (True, None)
              | Some pattern \<Rightarrow>
                  if pattern \<noteq> '''' then MatchString re pattern (ns_Name ns) else (True, None)) of
          (_, Some err) \<Rightarrow> (False, Some err)
        | (False, None) \<Rightarrow> (False, None)
        | (True, None) \<Rightarrow>
            if sel_Annotations selector \<noteq> None \<and> ns_Annotations ns = None then (False, None)
            else if sel_Annotations selector \<noteq> None
                 \<and> \<not> list_all (\<lambda>(key, value). lookup (ns_Annotations ns) key = Some value)
                       (entries (sel_Annotations selector)) then (False, None)
            else if sel_Labels selector \<noteq> None \<and> ns_Labels ns = None then (False, None)
            else if sel_Labels selector \<noteq> None
                 \<and> \<not> list_all (\<lambda>(key, value). lookup (ns_Labels ns) key = Some value)
                       (entries (sel_Labels selector)) then (False, None)
            else (True, None)))"

section \<open>pkg/rbac: merging\<close>

definition OwnerLabel :: string where
  "OwnerLabel = ''rbac.operator.io/owned-by''"

definition ConfigLabel :: string where
  "ConfigLabel = ''rbac.operator.io/config''"

definition NamespaceLabel :: string where
  "NamespaceLabel = ''rbac.operator.io/namespace''"

text \<open>\<^verbatim>\<open>mergeLabels\<close> takes the declaration for its name only. The result is a fresh,
  non-nil map: the template's entries first, then the operator's assignments.\<close>

definition mergeLabels :: "strmap \<Rightarrow> string \<Rightarrow> string \<Rightarrow> strmap" where
  "mergeLabels templateLabels configName targetNamespace =
    (let labels = fold (\<lambda>(k, v) m. AList.update k v m) (entries templateLabels) [];
         labels = AList.update OwnerLabel ''namespace-rbac-operator'' labels;
         labels = AList.update ConfigLabel configName labels;
         labels = (if targetNamespace \<noteq> '''' then AList.update NamespaceLabel targetNamespace labels
                   else labels)
     in Some labels)"

definition mergeRules :: "PolicyRule list \<Rightarrow> PolicyRule list \<Rightarrow> PolicyRule list" where
  "mergeRules existing new = existing @ new"

definition subjectKey :: "Subject \<Rightarrow> string" where
  "subjectKey subject =
     subj_Kind subject @ ''/'' @ subj_APIGroup subject @ ''/'' @ subj_Name subject @ ''/''
       @ subj_Namespace subject"

definition subjectMap :: "Subject list \<Rightarrow> Subject list \<Rightarrow> (string \<times> Subject) list" where
  "subjectMap existing new =
     fold (\<lambda>subject m. AList.update (subjectKey subject) subject m) new
       (fold (\<lambda>subject m. AList.update (subjectKey subject) subject m) existing [])"

text \<open>Go ranges over \<^verbatim>\<open>subjectMap\<close> in an unspecified order. The model lists the values
  in the order their keys were first stored; statements about the result are made up to
  that order, on the multiset of the values.\<close>

definition mergeSubjects :: "Subject list \<Rightarrow> Subject list \<Rightarrow> Subject list" where
  "mergeSubjects existing new = map snd (subjectMap existing new)"

section \<open>The API server, the libraries and the world\<close>

text \<open>
  The cluster's API server is outside the repository. Its client is a record of operations
  on an opaque state \<open>'a\<close>: each takes the state and returns its answer with the new state,
  so that every behaviour of the server (other writers, failures, conflicts) is an
  instance. \<^verbatim>\<open>SetControllerReference\<close> of controller-runtime and the clock are part of it.
\<close>

record 'a client =
  api_GetRole :: "string \<Rightarrow> string \<Rightarrow> 'a \<Rightarrow> (error + Role) \<times> 'a"
  api_CreateRole :: "Role \<Rightarrow> 'a \<Rightarrow> error option \<times> 'a"
  api_UpdateRole :: "Role \<Rightarrow> 'a \<Rightarrow> error option \<times> 'a"
  api_GetClusterRole :: "string \<Rightarrow> 'a \<Rightarrow> (error + ClusterRole) \<times> 'a"
  api_CreateClusterRole :: "ClusterRole \<Rightarrow> 'a \<Rightarrow> error option \<times> 'a"
  api_UpdateClusterRole :: "ClusterRole \<Rightarrow> 'a \<Rightarrow> error option \<times> 'a"
  api_GetRoleBinding :: "string \<Rightarrow> string \<Rightarrow> 'a \<Rightarrow> (error + RoleBinding) \<times> 'a"
  api_CreateRoleBinding :: "RoleBinding \<Rightarrow> 'a \<Rightarrow> error option \<times> 'a"
  api_UpdateRoleBinding :: "RoleBinding \<Rightarrow> 'a \<Rightarrow> error option \<times> 'a"
  api_GetClusterRoleBinding :: "string \<Rightarrow> 'a \<Rightarrow> (error + ClusterRoleBinding) \<times> 'a"
  api_CreateClusterRoleBinding :: "ClusterRoleBinding \<Rightarrow> 'a \<Rightarrow> error option \<times> 'a"
  api_UpdateClusterRoleBinding :: "ClusterRoleBinding \<Rightarrow> 'a \<Rightarrow> error option \<times> 'a"
  api_GetNamespace :: "Request \<Rightarrow> 'a \<Rightarrow> (error + Namespace) \<times> 'a"
  api_ListNamespaces :: "'a \<Rightarrow> (error + Namespace list) \<times> 'a"
  api_GetConfig :: "Request \<Rightarrow> 'a \<Rightarrow> (error + NamespaceRBACConfig) \<times> 'a"
  api_ListConfigs :: "'a \<Rightarrow> (error + NamespaceRBACConfig list) \<times> 'a"
  api_UpdateConfig :: "NamespaceRBACConfig \<Rightarrow> 'a \<Rightarrow> error option \<times> 'a"
  api_UpdateConfigStatus :: "NamespaceRBACConfig \<Rightarrow> 'a \<Rightarrow> error option \<times> 'a"
  api_SetControllerReference ::
    "Namespace \<Rightarrow> OwnerReference list \<Rightarrow> error + OwnerReference list"
  api_Now :: "'a \<Rightarrow> int"

text \<open>The calls a run issues, in order.\<close>

datatype call =
    CallGetRole string string
  | CallCreateRole Role
  | CallUpdateRole Role
  | CallGetClusterRole string
  | CallCreateClusterRole ClusterRole
  | CallUpdateClusterRole ClusterRole
  | CallGetRoleBinding string string
  | CallCreateRoleBinding RoleBinding
  | CallUpdateRoleBinding RoleBinding
  | CallGetClusterRoleBinding string
  | CallCreateClusterRoleBinding ClusterRoleBinding
  | CallUpdateClusterRoleBinding ClusterRoleBinding
  | CallGetNamespace Request
  | CallListNamespaces
  | CallGetConfig Request
  | CallListConfigs
  | CallUpdateConfig NamespaceRBACConfig
  | CallUpdateConfigStatus NamespaceRBACConfig

text \<open>A record of the reconcilers' logger keeps its level, its error and its message; the
  key/value pairs are left out.\<close>

datatype log_entry = LogInfo string | LogError error string

text \<open>\<^verbatim>\<open>health.Checker\<close>: its three atomic fields.\<close>

record Checker =
  ready :: int
  healthy :: int
  lastReconcile :: int

text \<open>
  The world a run acts on: the server's state, the trace of the calls issued so far, the
  log, and the health checker the reconcilers share. The metrics sink is write-only and
  read by nothing in the code: calls to it are left out.
\<close>

record 'a world =
  api :: 'a
  calls :: "call list"
  logs :: "log_entry list"
  health :: Checker

definition invoke :: "call \<Rightarrow> ('a \<Rightarrow> 'r \<times> 'a) \<Rightarrow> 'a world \<Rightarrow> 'r \<times> 'a world" where
  "invoke c f w = (case f (api w) of (r, a) \<Rightarrow> (r, w\<lparr>api := a, calls := calls w @ [c]\<rparr>))"

definition GetRole :: "'a client \<Rightarrow> string \<Rightarrow> string \<Rightarrow> 'a world \<Rightarrow> (error + Role) \<times> 'a world" where
  "GetRole cl namespace name = invoke (CallGetRole namespace name) (api_GetRole cl namespace name)"

definition CreateRole :: "'a client \<Rightarrow> Role \<Rightarrow> 'a world \<Rightarrow> error option \<times> 'a world" where
  "CreateRole cl obj = invoke (CallCreateRole obj) (api_CreateRole cl obj)"

definition UpdateRole :: "'a client \<Rightarrow> Role \<Rightarrow> 'a world \<Rightarrow> error option \<times> 'a world" where
  "UpdateRole cl obj = invoke (CallUpdateRole obj) (api_UpdateRole cl obj)"

definition GetClusterRole ::
  "'a client \<Rightarrow> string \<Rightarrow> 'a world \<Rightarrow> (error + ClusterRole) \<times> 'a world" where
  "GetClusterRole cl name = invoke (CallGetClusterRole name) (api_GetClusterRole cl name)"

definition CreateClusterRole ::
  "'a client \<Rightarrow> ClusterRole \<Rightarrow> 'a world \<Rightarrow> error option \<times> 'a world" where
  "CreateClusterRole cl obj = invoke (CallCreateClusterRole obj) (api_CreateClusterRole cl obj)"

definition UpdateClusterRole ::
  "'a client \<Rightarrow> ClusterRole \<Rightarrow> 'a world \<Rightarrow> error option \<times> 'a world" where
  "UpdateClusterRole cl obj = invoke (CallUpdateClusterRole obj) (api_UpdateClusterRole cl obj)"

definition GetRoleBinding ::
  "'a client \<Rightarrow> string \<Rightarrow> string \<Rightarrow> 'a world \<Rightarrow> (error + RoleBinding) \<times> 'a world" where
  "GetRoleBinding cl namespace name =
     invoke (CallGetRoleBinding namespace name) (api_GetRoleBinding cl namespace name)"

definition CreateRoleBinding ::
  "'a client \<Rightarrow> RoleBinding \<Rightarrow> 'a world \<Rightarrow> error option \<times> 'a world" where
  "CreateRoleBinding cl obj = invoke (CallCreateRoleBinding obj) (api_CreateRoleBinding cl obj)"

definition UpdateRoleBinding ::
  "'a client \<Rightarrow> RoleBinding \<Rightarrow> 'a world \<Rightarrow> error option \<times> 'a world" where
  "UpdateRoleBinding cl obj = invoke (CallUpdateRoleBinding obj) (api_UpdateRoleBinding cl obj)"

definition GetClusterRoleBinding ::
  "'a client \<Rightarrow> string \<Rightarrow> 'a world \<Rightarrow> (error + ClusterRoleBinding) \<times> 'a world" where
  "GetClusterRoleBinding cl name =
     invoke (CallGetClusterRoleBinding name) (api_GetClusterRoleBinding cl name)"

definition CreateClusterRoleBinding ::
  "'a client \<Rightarrow> ClusterRoleBinding \<Rightarrow> 'a world \<Rightarrow> error option \<times> 'a world" where
  "CreateClusterRoleBinding cl obj =
     invoke (CallCreateClusterRoleBinding obj) (api_CreateClusterRoleBinding cl obj)"

definition UpdateClusterRoleBinding ::
  "'a client \<Rightarrow> ClusterRoleBinding \<Rightarrow> 'a world \<Rightarrow> error option \<times> 'a world" where
  "UpdateClusterRoleBinding cl obj =
     invoke (CallUpdateClusterRoleBinding obj) (api_UpdateClusterRoleBinding cl obj)"

definition GetNamespace ::
  "'a client \<Rightarrow> Request \<Rightarrow> 'a world \<Rightarrow> (error + Namespace) \<times> 'a world" where
  "GetNamespace cl key = invoke (CallGetNamespace key) (api_GetNamespace cl key)"

definition ListNamespaces :: "'a client \<Rightarrow> 'a world \<Rightarrow> (error + Namespace list) \<times> 'a world" where
  "ListNamespaces cl = invoke CallListNamespaces (api_ListNamespaces cl)"

definition GetConfig ::
  "'a client \<Rightarrow> Request \<Rightarrow> 'a world \<Rightarrow> (error + NamespaceRBACConfig) \<times> 'a world" where
  "GetConfig cl key = invoke (CallGetConfig key) (api_GetConfig cl key)"

definition ListConfigs ::
  "'a client \<Rightarrow> 'a world \<Rightarrow> (error + NamespaceRBACConfig list) \<times> 'a world" where
  "ListConfigs cl = invoke CallListConfigs (api_ListConfigs cl)"

definition UpdateConfig ::
  "'a client \<Rightarrow> NamespaceRBACConfig \<Rightarrow> 'a world \<Rightarrow> error option \<times> 'a world" where
  "UpdateConfig cl obj = invoke (CallUpdateConfig obj) (api_UpdateConfig cl obj)"

definition UpdateConfigStatus ::
  "'a client \<Rightarrow> NamespaceRBACConfig \<Rightarrow> 'a world \<Rightarrow> error option \<times> 'a world" where
  "UpdateConfigStatus cl obj = invoke (CallUpdateConfigStatus obj) (api_UpdateConfigStatus cl obj)"

definition logInfo :: "string \<Rightarrow> 'a world \<Rightarrow> 'a world" where
  "logInfo msg w = w\<lparr>logs := logs w @ [LogInfo msg]\<rparr>"

definition logError :: "error \<Rightarrow> string \<Rightarrow> 'a world \<Rightarrow> 'a world" where
  "logError err msg w = w\<lparr>logs := logs w @ [LogError err msg]\<rparr>"

section \<open>pkg/health: Checker\<close>

text \<open>The two fields of the checker that the reconcilers write. The checker's own logger is
  a separate sink and is left out; the clock is read from the client record.\<close>

definition SetHealthy :: "'a client \<Rightarrow> bool \<Rightarrow> 'a world \<Rightarrow> 'a world" where
  "SetHealthy cl h w =
     (if h then w\<lparr>health := (health w)\<lparr>healthy := 1, lastReconcile := api_Now cl (api w)\<rparr>\<rparr>
      else w\<lparr>health := (health w)\<lparr>healthy := 0\<rparr>\<rparr>)"

definition RecordReconcile :: "'a client \<Rightarrow> 'a world \<Rightarrow> 'a world" where
  "RecordReconcile cl w =
     w\<lparr>health := (health w)\<lparr>lastReconcile := api_Now cl (api w), healthy := 1\<rparr>\<rparr>"

section \<open>pkg/template: Engine\<close>

record NamespaceContext =
  nc_Name :: string
  nc_Labels :: strmap
  nc_Annotations :: strmap

record CRDContext =
  cc_Name :: string
  cc_Namespace :: string

record NamingContext =
  nm_Prefix :: string
  nm_Suffix :: string
  nm_Separator :: string

record ConfigContext =
  cfg_Naming :: NamingContext

record TemplateContext =
  ctx_Namespace :: NamespaceContext
  ctx_CRD :: CRDContext
  ctx_Config :: ConfigContext
  ctx_CustomVars :: strmap

text \<open>
  Go's \<^verbatim>\<open>text/template\<close> is outside the repository: parsing and execution are parameters.
  \<open>Parse\<close> stands for \<^verbatim>\<open>template.New(name).Funcs(funcs).Option(opts...).Parse(text)\<close>; the
  function map is passed by the names it defines. A parsed template \<open>'t\<close> carries its
  options. \<open>Execute\<close> returns the text written, or the error.
\<close>

record 't template =
  Parse :: "string \<Rightarrow> string list \<Rightarrow> string list \<Rightarrow> string \<Rightarrow> error + 't"
  Execute :: "'t \<Rightarrow> TemplateContext \<Rightarrow> error + string"

definition funcMap :: "string list" where
  "funcMap = [''default'', ''hasKey'', ''getOrDefault'']"

definition BuildContext :: "Namespace \<Rightarrow> NamespaceRBACConfig \<Rightarrow> TemplateContext" where
  "BuildContext ns config =
    (let ctx = \<lparr>ctx_Namespace = \<lparr>nc_Name = ns_Name ns, nc_Labels = ns_Labels ns,
                                  nc_Annotations = ns_Annotations ns\<rparr>,
                ctx_CRD = \<lparr>cc_Name = om_Name config, cc_Namespace = om_Namespace config\<rparr>,
                ctx_Config = \<lparr>cfg_Naming = \<lparr>nm_Prefix = '''', nm_Suffix = '''',
                                              nm_Separator = ''-''\<rparr>\<rparr>,
                ctx_CustomVars = Some []\<rparr>;
         ctx = (if nc_Labels (ctx_Namespace ctx) = None
                then ctx\<lparr>ctx_Namespace := (ctx_Namespace ctx)\<lparr>nc_Labels := Some []\<rparr>\<rparr> else ctx);
         ctx = (if nc_Annotations (ctx_Namespace ctx) = None
                then ctx\<lparr>ctx_Namespace := (ctx_Namespace ctx)\<lparr>nc_Annotations := Some []\<rparr>\<rparr>
                else ctx)
     in case spec_Config (Spec config) of
          None \<Rightarrow> ctx
        | Some c \<Rightarrow>
            (let naming =
               (case Naming c of
                  None \<Rightarrow> cfg_Naming (ctx_Config ctx)
                | Some n \<Rightarrow>
                    (let nm = cfg_Naming (ctx_Config ctx);
                         nm = (if Prefix n \<noteq> '''' then nm\<lparr>nm_Prefix := Prefix n\<rparr> else nm);
                         nm = (if Suffix n \<noteq> '''' then nm\<lparr>nm_Suffix := Suffix n\<rparr> else nm);
                         nm = (if Separator n \<noteq> '''' then nm\<lparr>nm_Separator := Separator n\<rparr>
                               else nm)
                     in nm));
                 ctx = ctx\<lparr>ctx_Config := \<lparr>cfg_Naming = naming\<rparr>\<rparr>
             in if TemplateVariables c \<noteq> None then ctx\<lparr>ctx_CustomVars := TemplateVariables c\<rparr>
                else ctx))"

definition ProcessTemplate :: "'t template \<Rightarrow> string \<Rightarrow> TemplateContext \<Rightarrow> error + string" where
  "ProcessTemplate engine templateStr ctx =
    (case Parse engine ''resource'' funcMap [''missingkey=error''] templateStr of
       Inl err \<Rightarrow> Inl (Wrap ''failed to parse template'' err)
     | Inr tmpl \<Rightarrow>
         (case Execute engine tmpl ctx of
            Inl err \<Rightarrow> Inl (Wrap ''failed to execute template'' err)
          | Inr buf \<Rightarrow> Inr buf))"

text \<open>\<^verbatim>\<open>ProcessMap\<close> ranges over the entries of the map; the first entry that fails ends
  the loop.\<close>

fun ProcessMap_loop ::
  "'t template \<Rightarrow> (string \<times> string) list \<Rightarrow> TemplateContext \<Rightarrow> (string \<times> string) list
    \<Rightarrow> error + strmap" where
  "ProcessMap_loop engine [] ctx result = Inr (Some result)"
| "ProcessMap_loop engine ((key, val) # rest) ctx result =
    (case ProcessTemplate engine val ctx of
       Inl err \<Rightarrow> Inl (Wrap (''failed to process template for key '' @ key) err)
     | Inr processed \<Rightarrow> ProcessMap_loop engine rest ctx (AList.update key processed result))"

definition ProcessMap :: "'t template \<Rightarrow> strmap \<Rightarrow> TemplateContext \<Rightarrow> error + strmap" where
  "ProcessMap engine templateMap ctx =
    (case templateMap of
       None \<Rightarrow> Inr None
     | Some al \<Rightarrow> ProcessMap_loop engine al ctx [])"

definition ValidateTemplate :: "'t template \<Rightarrow> string \<Rightarrow> error option" where
  "ValidateTemplate engine templateStr =
    (case Parse engine ''validation'' funcMap [] templateStr of
       Inl err \<Rightarrow> Some err
     | Inr tmpl \<Rightarrow> None)"

section \<open>pkg/rbac: Manager\<close>

text \<open>The strategy in force: the declaration's, else \<^verbatim>\<open>merge\<close>.\<close>

definition mergeStrategyOf :: "NamespaceRBACConfig \<Rightarrow> MergeStrategy" where
  "mergeStrategyOf config =
    (case spec_Config (Spec config) of
       None \<Rightarrow> MergeStrategyMerge
     | Some c \<Rightarrow> (case MergeStrategy c of None \<Rightarrow> MergeStrategyMerge | Some s \<Rightarrow> s))"

text \<open>\<^verbatim>\<open>%d\<close> of a number.\<close>

fun decimal :: "nat \<Rightarrow> string" where
  "decimal n =
    (if n < 10 then [''0123456789'' ! n]
     else decimal (n div 10) @ [''0123456789'' ! (n mod 10)])"

declare decimal.simps [simp del]

text \<open>
  \<^verbatim>\<open>createOrUpdateRole\<close>: the loop \<^verbatim>\<open>for i := 0; i < retry; i++\<close>. The role is a pointer
  the loop writes to (its rules, its resource version), so an iteration hands the role
  it has changed to the next one.
\<close>

function createOrUpdateRole_loop ::
  "'a client \<Rightarrow> nat \<Rightarrow> nat \<Rightarrow> Role \<Rightarrow> NamespaceRBACConfig \<Rightarrow> 'a world
    \<Rightarrow> error option \<times> 'a world" where
  "createOrUpdateRole_loop cl retry i role config w =
    (if i < retry then
       (case GetRole cl (om_Namespace role) (om_Name role) w of
          (Inl err, w1) \<Rightarrow>
            if IsNotFound err then CreateRole cl role w1 else (Some err, w1)
        | (Inr existing, w1) \<Rightarrow>
            (let mergeStrategy = mergeStrategyOf config in
             if mergeStrategy = MergeStrategyIgnore then (None, w1)
             else if mergeStrategy = MergeStrategyReplace then
               (let role1 = role\<lparr>om_ResourceVersion := om_ResourceVersion existing\<rparr> in
                case UpdateRole cl role1 w1 of
                  (None, w2) \<Rightarrow> (None, w2)
                | (Some err, w2) \<Rightarrow>
                    if \<not> IsConflict err then (Some err, w2)
                    else createOrUpdateRole_loop cl retry (i + 1) role1 config w2)
             else if mergeStrategy = MergeStrategyMerge then
               (let role1 = role\<lparr>role_Rules := mergeRules (role_Rules existing) (role_Rules role)\<rparr>;
                    role2 = role1\<lparr>om_ResourceVersion := om_ResourceVersion existing\<rparr> in
                case UpdateRole cl role2 w1 of
                  (None, w2) \<Rightarrow> (None, w2)
                | (Some err, w2) \<Rightarrow>
                    if \<not> IsConflict err then (Some err, w2)
                    else createOrUpdateRole_loop cl retry (i + 1) role2 config w2)
             else (Some (Errorf (''unknown merge strategy: '' @ mergeStrategy)), w1)))
     else (Some (Errorf (''failed to update role after '' @ decimal retry
                          @ '' retries due to conflicts'')), w))"
  by pat_completeness auto
termination
  by (relation "measure (\<lambda>(cl, retry, i, role, config, w). retry - i)") auto

declare createOrUpdateRole_loop.simps [simp del]

definition createOrUpdateRole ::
  "'a client \<Rightarrow> Role \<Rightarrow> NamespaceRBACConfig \<Rightarrow> 'a world \<Rightarrow> error option \<times> 'a world" where
  "createOrUpdateRole cl role config w = createOrUpdateRole_loop cl 3 0 role config w"

definition createOrUpdateClusterRole ::
  "'a client \<Rightarrow> ClusterRole \<Rightarrow> NamespaceRBACConfig \<Rightarrow> 'a world \<Rightarrow> error option \<times> 'a world" where
  "createOrUpdateClusterRole cl clusterRole config w =
    (case GetClusterRole cl (om_Name clusterRole) w of
       (Inl err, w1) \<Rightarrow>
         if IsNotFound err then CreateClusterRole cl clusterRole w1 else (Some err, w1)
     | (Inr existing, w1) \<Rightarrow>
         (let mergeStrategy = mergeStrategyOf config in
          if mergeStrategy = MergeStrategyIgnore then (None, w1)
          else if mergeStrategy = MergeStrategyReplace then
            UpdateClusterRole cl (clusterRole\<lparr>om_ResourceVersion := om_ResourceVersion existing\<rparr>) w1
          else if mergeStrategy = MergeStrategyMerge then
            (let clusterRole1 =
                   clusterRole\<lparr>crole_Rules := mergeRules (crole_Rules existing) (crole_Rules clusterRole)\<rparr>
             in UpdateClusterRole cl
                  (clusterRole1\<lparr>om_ResourceVersion := om_ResourceVersion existing\<rparr>) w1)
          else (Some (Errorf (''unknown merge strategy: '' @ mergeStrategy)), w1)))"

function createOrUpdateRoleBinding_loop ::
  "'a client \<Rightarrow> nat \<Rightarrow> nat \<Rightarrow> RoleBinding \<Rightarrow> NamespaceRBACConfig \<Rightarrow> 'a world
    \<Rightarrow> error option \<times> 'a world" where
  "createOrUpdateRoleBinding_loop cl retry i roleBinding config w =
    (if i < retry then
       (case GetRoleBinding cl (om_Namespace roleBinding) (om_Name roleBinding) w of
          (Inl err, w1) \<Rightarrow>
            if IsNotFound err then CreateRoleBinding cl roleBinding w1 else (Some err, w1)
        | (Inr existing, w1) \<Rightarrow>
            (let mergeStrategy = mergeStrategyOf config in
             if mergeStrategy = MergeStrategyIgnore then (None, w1)
             else if mergeStrategy = MergeStrategyReplace then
               (let roleBinding1 = roleBinding\<lparr>om_ResourceVersion := om_ResourceVersion existing\<rparr> in
                case UpdateRoleBinding cl roleBinding1 w1 of
                  (None, w2) \<Rightarrow> (None, w2)
                | (Some err, w2) \<Rightarrow>
                    if \<not> IsConflict err then (Some err, w2)
                    else createOrUpdateRoleBinding_loop cl retry (i + 1) roleBinding1 config w2)
             else if mergeStrategy = MergeStrategyMerge then
               (let roleBinding1 =
                      roleBinding\<lparr>rb_Subjects :=
                                    mergeSubjects (rb_Subjects existing) (rb_Subjects roleBinding)\<rparr>;
                    roleBinding2 = roleBinding1\<lparr>om_ResourceVersion := om_ResourceVersion existing\<rparr> in
                case UpdateRoleBinding cl roleBinding2 w1 of
                  (None, w2) \<Rightarrow> (None, w2)
                | (Some err, w2) \<Rightarrow>
                    if \<not> IsConflict err then (Some err, w2)
                    else createOrUpdateRoleBinding_loop cl retry (i + 1) roleBinding2 config w2)
             else (Some (Errorf (''unknown merge strategy: '' @ mergeStrategy)), w1)))
     else (Some (Errorf (''failed to update rolebinding after '' @ decimal retry
                          @ '' retries due to conflicts'')), w))"
  by pat_completeness auto
termination
  by (relation "measure (\<lambda>(cl, retry, i, roleBinding, config, w). retry - i)") auto

declare createOrUpdateRoleBinding_loop.simps [simp del]

definition createOrUpdateRoleBinding ::
  "'a client \<Rightarrow> RoleBinding \<Rightarrow> NamespaceRBACConfig \<Rightarrow> 'a world \<Rightarrow> error option \<times> 'a world" where
  "createOrUpdateRoleBinding cl roleBinding config w =
     createOrUpdateRoleBinding_loop cl 3 0 roleBinding config w"

definition createOrUpdateClusterRoleBinding ::
  "'a client \<Rightarrow> ClusterRoleBinding \<Rightarrow> NamespaceRBACConfig \<Rightarrow> 'a world
    \<Rightarrow> error option \<times> 'a world" where
  "createOrUpdateClusterRoleBinding cl clusterRoleBinding config w =
    (case GetClusterRoleBinding cl (om_Name clusterRoleBinding) w of
       (Inl err, w1) \<Rightarrow>
         if IsNotFound err then CreateClusterRoleBinding cl clusterRoleBinding w1
         else (Some err, w1)
     | (Inr existing, w1) \<Rightarrow>
         (let mergeStrategy = mergeStrategyOf config in
          if mergeStrategy = MergeStrategyIgnore then (None, w1)
          else if mergeStrategy = MergeStrategyReplace then
            UpdateClusterRoleBinding cl
              (clusterRoleBinding\<lparr>om_ResourceVersion := om_ResourceVersion existing\<rparr>) w1
          else if mergeStrategy = MergeStrategyMerge then
            (let clusterRoleBinding1 =
                   clusterRoleBinding\<lparr>crb_Subjects :=
                       mergeSubjects (crb_Subjects existing) (crb_Subjects clusterRoleBinding)\<rparr>
             in UpdateClusterRoleBinding cl
                  (clusterRoleBinding1\<lparr>om_ResourceVersion := om_ResourceVersion existing\<rparr>) w1)
          else (Some (Errorf (''unknown merge strategy: '' @ mergeStrategy)), w1)))"

text \<open>\<^verbatim>\<open>processSubjects\<close>: the namespace of a subject is substituted only when it is not
  empty; the first failure ends the loop.\<close>

fun processSubjects ::
  "'t template \<Rightarrow> Subject list \<Rightarrow> TemplateContext \<Rightarrow> error + Subject list" where
  "processSubjects engine [] templateCtx = Inr []"
| "processSubjects engine (subject # rest) templateCtx =
    (case ProcessTemplate engine (subj_Name subject) templateCtx of
       Inl err \<Rightarrow> Inl (Wrap ''failed to process subject name'' err)
     | Inr processedName \<Rightarrow>
         (let result = \<lparr>subj_Kind = subj_Kind subject, subj_APIGroup = subj_APIGroup subject,
                        subj_Name = processedName, subj_Namespace = ''''\<rparr> in
          case (if subj_Namespace subject \<noteq> ''''
                then (case ProcessTemplate engine (subj_Namespace subject) templateCtx of
                        Inl err \<Rightarrow> Inl (Wrap ''failed to process subject namespace'' err)
                      | Inr processedNamespace \<Rightarrow>
                          Inr (result\<lparr>subj_Namespace := processedNamespace\<rparr>))
                else Inr result) of
            Inl err \<Rightarrow> Inl err
          | Inr result1 \<Rightarrow>
              (case processSubjects engine rest templateCtx of
                 Inl err \<Rightarrow> Inl err
               | Inr results \<Rightarrow> Inr (result1 # results))))"

text \<open>\<^verbatim>\<open>applyRole\<close>. After a successful write it reads the role once more, only to name
  the operation for the metrics; the read is a call all the same.\<close>

definition applyRole ::
  "'t template \<Rightarrow> 'a client \<Rightarrow> Namespace \<Rightarrow> NamespaceRBACConfig \<Rightarrow> RoleTemplate
    \<Rightarrow> TemplateContext \<Rightarrow> 'a world \<Rightarrow> error option \<times> 'a world" where
  "applyRole engine cl ns config template templateCtx w =
    (case ProcessTemplate engine (rt_Name template) templateCtx of
       Inl err \<Rightarrow> (Some (Wrap ''failed to process role name template'' err), w)
     | Inr name \<Rightarrow>
    (case ProcessMap engine (rt_Labels template) templateCtx of
       Inl err \<Rightarrow> (Some (Wrap ''failed to process role labels'' err), w)
     | Inr labels \<Rightarrow>
    (case ProcessMap engine (rt_Annotations template) templateCtx of
       Inl err \<Rightarrow> (Some (Wrap ''failed to process role annotations'' err), w)
     | Inr annotations \<Rightarrow>
    (let role = \<lparr>om_Name = name, om_Namespace = ns_Name ns,
                   om_Labels = mergeLabels labels (om_Name config) (ns_Name ns),
                   om_Annotations = annotations, om_ResourceVersion = '''',
                   om_OwnerReferences = [], om_Finalizers = [],
                   om_DeletionTimestamp = None, om_Generation = 0,
                   role_Rules = rt_Rules template\<rparr> in
     case api_SetControllerReference cl ns (om_OwnerReferences role) of
       Inl err \<Rightarrow> (Some (Wrap ''failed to set owner reference'' err), w)
     | Inr refs \<Rightarrow>
    (let role = role\<lparr>om_OwnerReferences := refs\<rparr> in
     case createOrUpdateRole cl role config w of
       (Some err, w1) \<Rightarrow> (Some err, w1)
     | (None, w1) \<Rightarrow> (None, snd (GetRole cl (om_Namespace role) (om_Name role) w1)))))))"

definition applyClusterRole ::
  "'t template \<Rightarrow> 'a client \<Rightarrow> Namespace \<Rightarrow> NamespaceRBACConfig \<Rightarrow> ClusterRoleTemplate
    \<Rightarrow> TemplateContext \<Rightarrow> 'a world \<Rightarrow> error option \<times> 'a world" where
  "applyClusterRole engine cl ns config template templateCtx w =
    (case ProcessTemplate engine (crt_Name template) templateCtx of
       Inl err \<Rightarrow> (Some (Wrap ''failed to process cluster role name template'' err), w)
     | Inr name \<Rightarrow>
    (case ProcessMap engine (crt_Labels template) templateCtx of
       Inl err \<Rightarrow> (Some (Wrap ''failed to process cluster role labels'' err), w)
     | Inr labels \<Rightarrow>
    (case ProcessMap engine (crt_Annotations template) templateCtx of
       Inl err \<Rightarrow> (Some (Wrap ''failed to process cluster role annotations'' err), w)
     | Inr annotations \<Rightarrow>
    (let clusterRole = \<lparr>om_Name = name, om_Namespace = '''',
                   om_Labels = mergeLabels labels (om_Name config) (ns_Name ns),
                   om_Annotations = annotations, om_ResourceVersion = '''',
                   om_OwnerReferences = [], om_Finalizers = [],
                   om_DeletionTimestamp = None, om_Generation = 0,
                   crole_Rules = crt_Rules template\<rparr>
     in createOrUpdateClusterRole cl clusterRole config w))))"

definition applyRoleBinding ::
  "'t template \<Rightarrow> 'a client \<Rightarrow> Namespace \<Rightarrow> NamespaceRBACConfig \<Rightarrow> RoleBindingTemplate
    \<Rightarrow> TemplateContext \<Rightarrow> 'a world \<Rightarrow> error option \<times> 'a world" where
  "applyRoleBinding engine cl ns config template templateCtx w =
    (case ProcessTemplate engine (rbt_Name template) templateCtx of
       Inl err \<Rightarrow> (Some (Wrap ''failed to process role binding name template'' err), w)
     | Inr name \<Rightarrow>
    (case ProcessMap engine (rbt_Labels template) templateCtx of
       Inl err \<Rightarrow> (Some (Wrap ''failed to process role binding labels'' err), w)
     | Inr labels \<Rightarrow>
    (case ProcessMap engine (rbt_Annotations template) templateCtx of
       Inl err \<Rightarrow> (Some (Wrap ''failed to process role binding annotations'' err), w)
     | Inr annotations \<Rightarrow>
    (case ProcessTemplate engine (ref_Name (rbt_RoleRef template)) templateCtx of
       Inl err \<Rightarrow> (Some (Wrap ''failed to process role ref name template'' err), w)
     | Inr roleRefName \<Rightarrow>
    (case processSubjects engine (rbt_Subjects template) templateCtx of
       Inl err \<Rightarrow> (Some (Wrap ''failed to process subjects'' err), w)
     | Inr subjects \<Rightarrow>
    (let roleBinding = \<lparr>om_Name = name, om_Namespace = ns_Name ns,
                   om_Labels = mergeLabels labels (om_Name config) (ns_Name ns),
                   om_Annotations = annotations, om_ResourceVersion = '''',
                   om_OwnerReferences = [], om_Finalizers = [],
                   om_DeletionTimestamp = None, om_Generation = 0,
                   rb_RoleRef =
                     \<lparr>ref_APIGroup = ref_APIGroup (rbt_RoleRef template),
                      ref_Kind = ref_Kind (rbt_RoleRef template), ref_Name = roleRefName\<rparr>,
                   rb_Subjects = subjects\<rparr> in
     case api_SetControllerReference cl ns (om_OwnerReferences roleBinding) of
       Inl err \<Rightarrow> (Some (Wrap ''failed to set owner reference'' err), w)
     | Inr refs \<Rightarrow>
         createOrUpdateRoleBinding cl (roleBinding\<lparr>om_OwnerReferences := refs\<rparr>) config w))))))"

definition applyClusterRoleBinding ::
  "'t template \<Rightarrow> 'a client \<Rightarrow> Namespace \<Rightarrow> NamespaceRBACConfig \<Rightarrow> ClusterRoleBindingTemplate
    \<Rightarrow> TemplateContext \<Rightarrow> 'a world \<Rightarrow> error option \<times> 'a world" where
  "applyClusterRoleBinding engine cl ns config template templateCtx w =
    (case ProcessTemplate engine (crbt_Name template) templateCtx of
       Inl err \<Rightarrow> (Some (Wrap ''failed to process cluster role binding name template'' err), w)
     | Inr name \<Rightarrow>
    (case ProcessMap engine (crbt_Labels template) templateCtx of
       Inl err \<Rightarrow> (Some (Wrap ''failed to process cluster role binding labels'' err), w)
     | Inr labels \<Rightarrow>
    (case ProcessMap engine (crbt_Annotations template) templateCtx of
       Inl err \<Rightarrow> (Some (Wrap ''failed to process cluster role binding annotations'' err), w)
     | Inr annotations \<Rightarrow>
    (case ProcessTemplate engine (ref_Name (crbt_RoleRef template)) templateCtx of
       Inl err \<Rightarrow> (Some (Wrap ''failed to process role ref name template'' err), w)
     | Inr roleRefName \<Rightarrow>
    (case processSubjects engine (crbt_Subjects template) templateCtx of
       Inl err \<Rightarrow> (Some (Wrap ''failed to process subjects'' err), w)
     | Inr subjects \<Rightarrow>
    (let clusterRoleBinding = \<lparr>om_Name = name, om_Namespace = '''',
                   om_Labels = mergeLabels labels (om_Name config) (ns_Name ns),
                   om_Annotations = annotations, om_ResourceVersion = '''',
                   om_OwnerReferences = [], om_Finalizers = [],
                   om_DeletionTimestamp = None, om_Generation = 0,
                   crb_RoleRef =
                     \<lparr>ref_APIGroup = ref_APIGroup (crbt_RoleRef template),
                      ref_Kind = ref_Kind (crbt_RoleRef template), ref_Name = roleRefName\<rparr>,
                   crb_Subjects = subjects\<rparr>
     in createOrUpdateClusterRoleBinding cl clusterRoleBinding config w))))))"

text \<open>\<^verbatim>\<open>ApplyRBACForNamespace\<close>: four loops in a fixed order, each ended by the first
  template that fails.\<close>

fun applyRoles ::
  "'t template \<Rightarrow> 'a client \<Rightarrow> Namespace \<Rightarrow> NamespaceRBACConfig \<Rightarrow> RoleTemplate list
    \<Rightarrow> TemplateContext \<Rightarrow> 'a world \<Rightarrow> error option \<times> 'a world" where
  "applyRoles engine cl ns config [] templateCtx w = (None, w)"
| "applyRoles engine cl ns config (roleTemplate # rest) templateCtx w =
    (case applyRole engine cl ns config roleTemplate templateCtx w of
       (Some err, w1) \<Rightarrow>
         (Some (Wrap (''failed to apply role '' @ rt_Name roleTemplate) err), w1)
     | (None, w1) \<Rightarrow> applyRoles engine cl ns config rest templateCtx w1)"

fun applyClusterRoles ::
  "'t template \<Rightarrow> 'a client \<Rightarrow> Namespace \<Rightarrow> NamespaceRBACConfig \<Rightarrow> ClusterRoleTemplate list
    \<Rightarrow> TemplateContext \<Rightarrow> 'a world \<Rightarrow> error option \<times> 'a world" where
  "applyClusterRoles engine cl ns config [] templateCtx w = (None, w)"
| "applyClusterRoles engine cl ns config (clusterRoleTemplate # rest) templateCtx w =
    (case applyClusterRole engine cl ns config clusterRoleTemplate templateCtx w of
       (Some err, w1) \<Rightarrow>
         (Some (Wrap (''failed to apply cluster role '' @ crt_Name clusterRoleTemplate) err), w1)
     | (None, w1) \<Rightarrow> applyClusterRoles engine cl ns config rest templateCtx w1)"

fun applyRoleBindings ::
  "'t template \<Rightarrow> 'a client \<Rightarrow> Namespace \<Rightarrow> NamespaceRBACConfig \<Rightarrow> RoleBindingTemplate list
    \<Rightarrow> TemplateContext \<Rightarrow> 'a world \<Rightarrow> error option \<times> 'a world" where
  "applyRoleBindings engine cl ns config [] templateCtx w = (None, w)"
| "applyRoleBindings engine cl ns config (roleBindingTemplate # rest) templateCtx w =
    (case applyRoleBinding engine cl ns config roleBindingTemplate templateCtx w of
       (Some err, w1) \<Rightarrow>
         (Some (Wrap (''failed to apply role binding '' @ rbt_Name roleBindingTemplate) err), w1)
     | (None, w1) \<Rightarrow> applyRoleBindings engine cl ns config rest templateCtx w1)"

fun applyClusterRoleBindings ::
  "'t template \<Rightarrow> 'a client \<Rightarrow> Namespace \<Rightarrow> NamespaceRBACConfig
    \<Rightarrow> ClusterRoleBindingTemplate list \<Rightarrow> TemplateContext \<Rightarrow> 'a world
    \<Rightarrow> error option \<times> 'a world" where
  "applyClusterRoleBindings engine cl ns config [] templateCtx w = (None, w)"
| "applyClusterRoleBindings engine cl ns config (clusterRoleBindingTemplate # rest) templateCtx w =
    (case applyClusterRoleBinding engine cl ns config clusterRoleBindingTemplate templateCtx w of
       (Some err, w1) \<Rightarrow>
         (Some (Wrap (''failed to apply cluster role binding ''
                        @ crbt_Name clusterRoleBindingTemplate) err), w1)
     | (None, w1) \<Rightarrow> applyClusterRoleBindings engine cl ns config rest templateCtx w1)"

definition ApplyRBACForNamespace ::
  "'t template \<Rightarrow> 'a client \<Rightarrow> Namespace \<Rightarrow> NamespaceRBACConfig \<Rightarrow> 'a world
    \<Rightarrow> error option \<times> 'a world" where
  "ApplyRBACForNamespace engine cl ns config w =
    (let templateCtx = BuildContext ns config;
         templates = spec_RBACTemplates (Spec config) in
     case applyRoles engine cl ns config (Roles templates) templateCtx w of
       (Some err, w1) \<Rightarrow> (Some err, w1)
     | (None, w1) \<Rightarrow>
    (case applyClusterRoles engine cl ns config (ClusterRoles templates) templateCtx w1 of
       (Some err, w2) \<Rightarrow> (Some err, w2)
     | (None, w2) \<Rightarrow>
    (case applyRoleBindings engine cl ns config (RoleBindings templates) templateCtx w2 of
       (Some err, w3) \<Rightarrow> (Some err, w3)
     | (None, w3) \<Rightarrow>
         applyClusterRoleBindings engine cl ns config (ClusterRoleBindings templates)
           templateCtx w3)))"

text \<open>The two orphan checks return nil on every path: the reference counting is a TODO
  of the source.\<close>

definition cleanupClusterRoleIfOrphaned ::
  "string \<Rightarrow> string \<Rightarrow> NamespaceRBACConfig \<Rightarrow> 'a world \<Rightarrow> error option \<times> 'a world" where
  "cleanupClusterRoleIfOrphaned nameTemplate namespaceName config w =
    (case spec_Config (Spec config) of
       None \<Rightarrow> (None, w)
     | Some c \<Rightarrow>
    (case Cleanup c of
       None \<Rightarrow> (None, w)
     | Some cleanup \<Rightarrow>
    (case DeleteOrphanedClusterResources cleanup of
       None \<Rightarrow> (None, w)
     | Some enabled \<Rightarrow> if \<not> enabled then (None, w) else (None, w))))"

definition cleanupClusterRoleBindingIfOrphaned ::
  "string \<Rightarrow> string \<Rightarrow> NamespaceRBACConfig \<Rightarrow> 'a world \<Rightarrow> error option \<times> 'a world" where
  "cleanupClusterRoleBindingIfOrphaned nameTemplate namespaceName config w =
    (case spec_Config (Spec config) of
       None \<Rightarrow> (None, w)
     | Some c \<Rightarrow>
    (case Cleanup c of
       None \<Rightarrow> (None, w)
     | Some cleanup \<Rightarrow>
    (case DeleteOrphanedClusterResources cleanup of
       None \<Rightarrow> (None, w)
     | Some enabled \<Rightarrow> if \<not> enabled then (None, w) else (None, w))))"

fun cleanupClusterRoles ::
  "ClusterRoleTemplate list \<Rightarrow> string \<Rightarrow> NamespaceRBACConfig \<Rightarrow> 'a world
    \<Rightarrow> error option \<times> 'a world" where
  "cleanupClusterRoles [] namespaceName config w = (None, w)"
| "cleanupClusterRoles (clusterRoleTemplate # rest) namespaceName config w =
    (case cleanupClusterRoleIfOrphaned (crt_Name clusterRoleTemplate) namespaceName config w of
       (Some err, w1) \<Rightarrow> (Some (Wrap ''failed to cleanup cluster role'' err), w1)
     | (None, w1) \<Rightarrow> cleanupClusterRoles rest namespaceName config w1)"

fun cleanupClusterRoleBindings ::
  "ClusterRoleBindingTemplate list \<Rightarrow> string \<Rightarrow> NamespaceRBACConfig \<Rightarrow> 'a world
    \<Rightarrow> error option \<times> 'a world" where
  "cleanupClusterRoleBindings [] namespaceName config w = (None, w)"
| "cleanupClusterRoleBindings (clusterRoleBindingTemplate # rest) namespaceName config w =
    (case cleanupClusterRoleBindingIfOrphaned (crbt_Name clusterRoleBindingTemplate)
            namespaceName config w of
       (Some err, w1) \<Rightarrow> (Some (Wrap ''failed to cleanup cluster role binding'' err), w1)
     | (None, w1) \<Rightarrow> cleanupClusterRoleBindings rest namespaceName config w1)"

definition CleanupRBACForNamespace ::
  "string \<Rightarrow> NamespaceRBACConfig \<Rightarrow> 'a world \<Rightarrow> error option \<times> 'a world" where
  "CleanupRBACForNamespace namespaceName config w =
    (case cleanupClusterRoles (ClusterRoles (spec_RBACTemplates (Spec config)))
            namespaceName config w of
       (Some err, w1) \<Rightarrow> (Some err, w1)
     | (None, w1) \<Rightarrow>
         cleanupClusterRoleBindings (ClusterRoleBindings (spec_RBACTemplates (Spec config)))
           namespaceName config w1)"

section \<open>pkg/controller/namespacerbacconfig: the declaration's reconciler\<close>

definition ConditionTypeReady :: string where
  "ConditionTypeReady = ''Ready''"

definition ConditionTypeProgressing :: string where
  "ConditionTypeProgressing = ''Progressing''"

definition ConditionTypeDegraded :: string where
  "ConditionTypeDegraded = ''Degraded''"

definition ReasonReconcileSuccess :: string where
  "ReasonReconcileSuccess = ''ReconcileSuccess''"

definition ReasonReconcileError :: string where
  "ReasonReconcileError = ''ReconcileError''"

definition ReasonValidationError :: string where
  "ReasonValidationError = ''ValidationError''"

definition FinalizerName :: string where
  "FinalizerName = ''namespacerbacconfig.rbac.operator.io/finalizer''"

text \<open>\<^verbatim>\<open>err.Error()\<close>.\<close>

fun Error :: "error \<Rightarrow> string" where
  "Error (StatusError r msg) = msg"
| "Error (Errorf msg) = msg"
| "Error (Wrap msg err) = msg @ '': '' @ Error err"
| "Error (LibError msg) = msg"

definition validateConfig :: "regexp \<Rightarrow> NamespaceRBACConfig \<Rightarrow> error option" where
  "validateConfig re config =
    (case (case NameRegex (spec_NamespaceSelector (Spec config)) of
             None \<Rightarrow> None
           | Some pattern \<Rightarrow> Compile re pattern) of
       Some err \<Rightarrow> Some (Wrap ''invalid nameRegex'' err)
     | None \<Rightarrow>
         if length (Roles (spec_RBACTemplates (Spec config))) = 0
            \<and> length (ClusterRoles (spec_RBACTemplates (Spec config))) = 0
            \<and> length (RoleBindings (spec_RBACTemplates (Spec config))) = 0
            \<and> length (ClusterRoleBindings (spec_RBACTemplates (Spec config))) = 0
         then Some (Errorf ''at least one RBAC template must be specified'')
         else None)"

text \<open>\<^verbatim>\<open>setCondition\<close> replaces the first condition of the type, keeping its transition
  time when the status is the same, or appends the condition. \<open>now\<close> is \<^verbatim>\<open>time.Now()\<close>.\<close>

fun setCondition_loop :: "Condition list \<Rightarrow> Condition \<Rightarrow> int \<Rightarrow> Condition list" where
  "setCondition_loop [] condition now = [condition]"
| "setCondition_loop (existing # rest) condition now =
    (if cond_Type existing = cond_Type condition then
       (if cond_Status existing \<noteq> cond_Status condition
        then condition\<lparr>cond_LastTransitionTime := now\<rparr>
        else condition\<lparr>cond_LastTransitionTime := cond_LastTransitionTime existing\<rparr>) # rest
     else existing # setCondition_loop rest condition now)"

definition setCondition ::
  "int \<Rightarrow> NamespaceRBACConfig \<Rightarrow> string \<Rightarrow> ConditionStatus \<Rightarrow> string \<Rightarrow> string
    \<Rightarrow> NamespaceRBACConfig" where
  "setCondition now config conditionType status reason message =
    (let condition = \<lparr>cond_Type = conditionType, cond_Status = status,
                       cond_LastTransitionTime = now, cond_Reason = reason,
                       cond_Message = message\<rparr>
     in config\<lparr>Status := (Status config)
          \<lparr>Conditions := setCondition_loop (Conditions (Status config)) condition now\<rparr>\<rparr>)"

definition updateStatus ::
  "'a client \<Rightarrow> NamespaceRBACConfig \<Rightarrow> 'a world \<Rightarrow> (Result \<times> error option) \<times> 'a world" where
  "updateStatus cl config w =
    (case UpdateConfigStatus cl config w of
       (Some err, w1) \<Rightarrow>
         if IsNotFound err
         then ((Result_empty, None),
               logInfo ''NamespaceRBACConfig was deleted during reconciliation, skipping status update'' w1)
         else ((Result_empty, Some err),
               logError err ''Failed to update NamespaceRBACConfig status'' w1)
     | (None, w1) \<Rightarrow> ((Result_empty, None), w1))"

text \<open>\<^verbatim>\<open>reconcileRBAC\<close>: a namespace whose match fails with an error is logged and
  skipped; the first namespace whose apply fails ends the loop with the error.\<close>

fun reconcileRBAC_loop ::
  "regexp \<Rightarrow> 't template \<Rightarrow> 'a client \<Rightarrow> NamespaceRBACConfig \<Rightarrow> Namespace list
    \<Rightarrow> string list \<Rightarrow> 'a world \<Rightarrow> (error + string list) \<times> 'a world" where
  "reconcileRBAC_loop re engine cl config [] appliedNamespaces w = (Inr appliedNamespaces, w)"
| "reconcileRBAC_loop re engine cl config (ns # rest) appliedNamespaces w =
    (case NamespaceMatches re ns (spec_NamespaceSelector (Spec config)) of
       (_, Some err) \<Rightarrow>
         reconcileRBAC_loop re engine cl config rest appliedNamespaces
           (logError err ''Failed to check namespace match'' w)
     | (False, None) \<Rightarrow> reconcileRBAC_loop re engine cl config rest appliedNamespaces w
     | (True, None) \<Rightarrow>
         (case ApplyRBACForNamespace engine cl ns config
                 (logInfo ''Applying RBAC to namespace'' w) of
            (Some err, w1) \<Rightarrow>
              (Inl (Wrap (''failed to apply RBAC for namespace '' @ ns_Name ns) err), w1)
          | (None, w1) \<Rightarrow>
              reconcileRBAC_loop re engine cl config rest (appliedNamespaces @ [ns_Name ns]) w1))"

definition reconcileRBAC ::
  "regexp \<Rightarrow> 't template \<Rightarrow> 'a client \<Rightarrow> NamespaceRBACConfig \<Rightarrow> 'a world
    \<Rightarrow> (error + string list) \<times> 'a world" where
  "reconcileRBAC re engine cl config w =
    (case ListNamespaces cl w of
       (Inl err, w1) \<Rightarrow> (Inl (Wrap ''failed to list namespaces'' err), w1)
     | (Inr items, w1) \<Rightarrow>
         (case reconcileRBAC_loop re engine cl config items [] w1 of
            (Inl err, w2) \<Rightarrow> (Inl err, w2)
          | (Inr appliedNamespaces, w2) \<Rightarrow>
              (Inr appliedNamespaces, logInfo ''Successfully reconciled RBAC'' w2)))"

text \<open>\<^verbatim>\<open>cleanupRBAC\<close> logs a failed cleanup and goes on; it returns nil on every path.\<close>

fun cleanupRBAC_loop :: "NamespaceRBACConfig \<Rightarrow> string list \<Rightarrow> 'a world \<Rightarrow> 'a world" where
  "cleanupRBAC_loop config [] w = w"
| "cleanupRBAC_loop config (namespaceName # rest) w =
    (case CleanupRBACForNamespace namespaceName config
            (logInfo ''Cleaning up RBAC for namespace'' w) of
       (Some err, w1) \<Rightarrow>
         cleanupRBAC_loop config rest (logError err ''Failed to cleanup RBAC for namespace'' w1)
     | (None, w1) \<Rightarrow> cleanupRBAC_loop config rest w1)"

definition cleanupRBAC :: "NamespaceRBACConfig \<Rightarrow> 'a world \<Rightarrow> error option \<times> 'a world" where
  "cleanupRBAC config w =
     (None, cleanupRBAC_loop config (AppliedNamespaces (Status config)) w)"

definition ContainsFinalizer :: "NamespaceRBACConfig \<Rightarrow> string \<Rightarrow> bool" where
  "ContainsFinalizer config finalizer = (finalizer \<in> set (om_Finalizers config))"

definition AddFinalizer :: "NamespaceRBACConfig \<Rightarrow> string \<Rightarrow> NamespaceRBACConfig" where
  "AddFinalizer config finalizer =
    (if finalizer \<in> set (om_Finalizers config) then config
     else config\<lparr>om_Finalizers := om_Finalizers config @ [finalizer]\<rparr>)"

definition RemoveFinalizer :: "NamespaceRBACConfig \<Rightarrow> string \<Rightarrow> NamespaceRBACConfig" where
  "RemoveFinalizer config finalizer =
     config\<lparr>om_Finalizers := filter (\<lambda>f. f \<noteq> finalizer) (om_Finalizers config)\<rparr>"

text \<open>\<^verbatim>\<open>time.Minute\<close>, in nanoseconds.\<close>

definition Minute :: int where
  "Minute = 60000000000"

definition handleDeletion ::
  "'a client \<Rightarrow> NamespaceRBACConfig \<Rightarrow> 'a world \<Rightarrow> (Result \<times> error option) \<times> 'a world" where
  "handleDeletion cl config w =
    (if ContainsFinalizer config FinalizerName then
       (case cleanupRBAC config
               (logInfo ''Cleaning up RBAC resources for deleted NamespaceRBACConfig'' w) of
          (Some err, w1) \<Rightarrow>
            ((\<lparr>Requeue = False, RequeueAfter = Minute\<rparr>, Some err),
             logError err ''Failed to cleanup RBAC resources'' w1)
        | (None, w1) \<Rightarrow>
            (case UpdateConfig cl (RemoveFinalizer config FinalizerName) w1 of
               (Some err, w2) \<Rightarrow>
                 ((Result_empty, Some err), logError err ''Failed to remove finalizer'' w2)
             | (None, w2) \<Rightarrow> ((Result_empty, None), w2)))
     else ((Result_empty, None), w))"

text \<open>
  \<^verbatim>\<open>Reconcile\<close> of the declaration. Once the declaration is fetched, a deferred function
  lists the declarations (for a gauge) when \<^verbatim>\<open>Reconcile\<close> returns, on every path:
  \<open>deferred\<close> is that call.
\<close>

definition deferred ::
  "'a client \<Rightarrow> (Result \<times> error option) \<times> 'a world \<Rightarrow> (Result \<times> error option) \<times> 'a world" where
  "deferred cl r = (case r of (res, w) \<Rightarrow> (res, snd (ListConfigs cl w)))"

definition NamespaceRBACConfigReconciler_Reconcile ::
  "regexp \<Rightarrow> 't template \<Rightarrow> 'a client \<Rightarrow> Request \<Rightarrow> 'a world
    \<Rightarrow> (Result \<times> error option) \<times> 'a world" where
  "NamespaceRBACConfigReconciler_Reconcile re engine cl req w =
    (case GetConfig cl req w of
       (Inl err, w1) \<Rightarrow>
         if IsNotFound err
         then ((Result_empty, None),
               logInfo ''NamespaceRBACConfig resource not found. Ignoring since object must be deleted'' w1)
         else ((Result_empty, Some err),
               SetHealthy cl False (logError err ''Failed to get NamespaceRBACConfig'' w1))
     | (Inr config, w1) \<Rightarrow>
         deferred cl
          (if om_DeletionTimestamp config \<noteq> None then handleDeletion cl config w1
           else if \<not> ContainsFinalizer config FinalizerName then
             (case UpdateConfig cl (AddFinalizer config FinalizerName) w1 of
                (Some err, w2) \<Rightarrow>
                  ((Result_empty, Some err), logError err ''Failed to add finalizer'' w2)
              | (None, w2) \<Rightarrow> ((\<lparr>Requeue = True, RequeueAfter = 0\<rparr>, None), w2))
           else
             (let config = setCondition (api_Now cl (api w1)) config ConditionTypeProgressing
                             ConditionTrue ''Reconciling'' ''Reconciling NamespaceRBACConfig'' in
              case validateConfig re config of
                Some err \<Rightarrow>
                  (let w2 = SetHealthy cl False (logError err ''Invalid configuration'' w1);
                       now = api_Now cl (api w2);
                       config = setCondition now config ConditionTypeDegraded ConditionTrue
                                  ReasonValidationError (Error err);
                       config = setCondition now config ConditionTypeReady ConditionFalse
                                  ReasonValidationError ''Configuration validation failed'';
                       config = setCondition now config ConditionTypeProgressing ConditionFalse
                                  ReasonValidationError ''Validation failed''
                   in updateStatus cl config w2)
              | None \<Rightarrow>
                  (case reconcileRBAC re engine cl config w1 of
                     (Inl err, w2) \<Rightarrow>
                       (let w3 = SetHealthy cl False (logError err ''Failed to reconcile RBAC'' w2);
                            now = api_Now cl (api w3);
                            config = setCondition now config ConditionTypeDegraded ConditionTrue
                                       ReasonReconcileError (Error err);
                            config = setCondition now config ConditionTypeReady ConditionFalse
                                       ReasonReconcileError ''RBAC reconciliation failed'';
                            config = setCondition now config ConditionTypeProgressing
                                       ConditionFalse ReasonReconcileError ''Reconciliation failed''
                        in updateStatus cl config w3)
                   | (Inr appliedNamespaces, w2) \<Rightarrow>
                       (let config = config\<lparr>Status := (Status config)
                                        \<lparr>AppliedNamespaces := appliedNamespaces,
                                         ObservedGeneration := om_Generation config\<rparr>\<rparr>;
                            w3 = RecordReconcile cl w2;
                            now = api_Now cl (api w3);
                            config = setCondition now config ConditionTypeReady ConditionTrue
                                       ReasonReconcileSuccess ''Successfully reconciled RBAC'';
                            config = setCondition now config ConditionTypeProgressing
                                       ConditionFalse ReasonReconcileSuccess
                                       ''Reconciliation completed'';
                            config = setCondition now config ConditionTypeDegraded ConditionFalse
                                       ReasonReconcileSuccess ''No issues detected''
                        in updateStatus cl config w3)))))"

section \<open>pkg/controller/namespace: the namespace's reconciler\<close>

text \<open>The loop of \<^verbatim>\<open>handleNamespaceCreateOrUpdate\<close> over the declarations: every failure is
  logged and the loop goes on to the next declaration.\<close>

fun handleNamespaceCreateOrUpdate_loop ::
  "regexp \<Rightarrow> 't template \<Rightarrow> 'a client \<Rightarrow> Namespace \<Rightarrow> NamespaceRBACConfig list \<Rightarrow> 'a world
    \<Rightarrow> 'a world" where
  "handleNamespaceCreateOrUpdate_loop re engine cl namespace [] w = w"
| "handleNamespaceCreateOrUpdate_loop re engine cl namespace (config # rest) w =
    (case NamespaceMatches re namespace (spec_NamespaceSelector (Spec config)) of
       (_, Some err) \<Rightarrow>
         handleNamespaceCreateOrUpdate_loop re engine cl namespace rest
           (logError err ''Failed to check namespace match'' w)
     | (True, None) \<Rightarrow>
         (case ApplyRBACForNamespace engine cl namespace config
                 (logInfo ''Applying RBAC for namespace'' w) of
            (Some err, w1) \<Rightarrow>
              handleNamespaceCreateOrUpdate_loop re engine cl namespace rest
                (logError err ''Failed to apply RBAC'' w1)
          | (None, w1) \<Rightarrow> handleNamespaceCreateOrUpdate_loop re engine cl namespace rest w1)
     | (False, None) \<Rightarrow>
         (case CleanupRBACForNamespace (ns_Name namespace) config
                 (logInfo ''Namespace no longer matches config, cleaning up'' w) of
            (Some err, w1) \<Rightarrow>
              handleNamespaceCreateOrUpdate_loop re engine cl namespace rest
                (logError err ''Failed to cleanup RBAC'' w1)
          | (None, w1) \<Rightarrow> handleNamespaceCreateOrUpdate_loop re engine cl namespace rest w1))"

definition handleNamespaceCreateOrUpdate ::
  "regexp \<Rightarrow> 't template \<Rightarrow> 'a client \<Rightarrow> Namespace \<Rightarrow> 'a world
    \<Rightarrow> (Result \<times> error option) \<times> 'a world" where
  "handleNamespaceCreateOrUpdate re engine cl namespace w =
    (case ListConfigs cl (logInfo ''Processing namespace create/update event'' w) of
       (Inl err, w1) \<Rightarrow>
         ((Result_empty, Some err),
          SetHealthy cl False (logError err ''Failed to list NamespaceRBACConfigs'' w1))
     | (Inr items, w1) \<Rightarrow>
         ((Result_empty, None),
          RecordReconcile cl (handleNamespaceCreateOrUpdate_loop re engine cl namespace items w1)))"

fun handleNamespaceDeletion_loop ::
  "string \<Rightarrow> NamespaceRBACConfig list \<Rightarrow> 'a world \<Rightarrow> 'a world" where
  "handleNamespaceDeletion_loop namespaceName [] w = w"
| "handleNamespaceDeletion_loop namespaceName (config # rest) w =
    (case CleanupRBACForNamespace namespaceName config
            (logInfo ''Cleaning up RBAC for deleted namespace'' w) of
       (Some err, w1) \<Rightarrow>
         handleNamespaceDeletion_loop namespaceName rest (logError err ''Failed to cleanup RBAC'' w1)
     | (None, w1) \<Rightarrow> handleNamespaceDeletion_loop namespaceName rest w1)"

definition handleNamespaceDeletion ::
  "'a client \<Rightarrow> string \<Rightarrow> 'a world \<Rightarrow> (Result \<times> error option) \<times> 'a world" where
  "handleNamespaceDeletion cl namespaceName w =
    (case ListConfigs cl (logInfo ''Processing namespace deletion event'' w) of
       (Inl err, w1) \<Rightarrow>
         ((Result_empty, Some err),
          SetHealthy cl False (logError err ''Failed to list NamespaceRBACConfigs'' w1))
     | (Inr items, w1) \<Rightarrow>
         ((Result_empty, None),
          RecordReconcile cl (handleNamespaceDeletion_loop namespaceName items w1)))"

definition NamespaceReconciler_Reconcile ::
  "regexp \<Rightarrow> 't template \<Rightarrow> 'a client \<Rightarrow> Request \<Rightarrow> 'a world
    \<Rightarrow> (Result \<times> error option) \<times> 'a world" where
  "NamespaceReconciler_Reconcile re engine cl req w =
    (case GetNamespace cl req w of
       (Inl err, w1) \<Rightarrow>
         if IsNotFound err
         then handleNamespaceDeletion cl (req_Name req)
                (logInfo ''Namespace deleted, cleaning up RBAC resources'' w1)
         else ((Result_empty, Some err),
               SetHealthy cl False (logError err ''Failed to get namespace'' w1))
     | (Inr namespace, w1) \<Rightarrow> handleNamespaceCreateOrUpdate re engine cl namespace w1)"

section \<open>Traces\<close>

text \<open>The calls a run has added to the trace, and the labels of the object a call writes
  (a create or an update of one of the four RBAC kinds).\<close>

definition issued :: "'a world \<Rightarrow> 'a world \<Rightarrow> call list" where
  "issued w w' = drop (length (calls w)) (calls w')"

fun written_labels :: "call \<Rightarrow> strmap option" where
  "written_labels (CallCreateRole obj) = Some (om_Labels obj)"
| "written_labels (CallUpdateRole obj) = Some (om_Labels obj)"
| "written_labels (CallCreateClusterRole obj) = Some (om_Labels obj)"
| "written_labels (CallUpdateClusterRole obj) = Some (om_Labels obj)"
| "written_labels (CallCreateRoleBinding obj) = Some (om_Labels obj)"
| "written_labels (CallUpdateRoleBinding obj) = Some (om_Labels obj)"
| "written_labels (CallCreateClusterRoleBinding obj) = Some (om_Labels obj)"
| "written_labels (CallUpdateClusterRoleBinding obj) = Some (om_Labels obj)"
| "written_labels _ = None"

definition labelled :: "(strmap \<Rightarrow> bool) \<Rightarrow> call \<Rightarrow> bool" where
  "labelled Q c = (case written_labels c of None \<Rightarrow> True | Some l \<Rightarrow> Q l)"

text \<open>A fetch of one of the four RBAC kinds, and a write (create or update) of one.\<close>

fun is_fetch :: "call \<Rightarrow> bool" where
  "is_fetch (CallGetRole _ _) = True"
| "is_fetch (CallGetClusterRole _) = True"
| "is_fetch (CallGetRoleBinding _ _) = True"
| "is_fetch (CallGetClusterRoleBinding _) = True"
| "is_fetch _ = False"

definition is_write :: "call \<Rightarrow> bool" where
  "is_write c = (written_labels c \<noteq> None)"

text \<open>\<open>extends P w w'\<close>: the world \<open>w'\<close> comes from \<open>w\<close> by calls that satisfy \<open>P\<close>, with the
  log and the health checker untouched.\<close>

definition extends :: "(call \<Rightarrow> bool) \<Rightarrow> 'a world \<Rightarrow> 'a world \<Rightarrow> bool" where
  "extends P w w' =
     ((\<exists>new. calls w' = calls w @ new \<and> list_all P new)
      \<and> logs w' = logs w \<and> health w' = health w)"

section \<open>Stand-ins for the worked examples\<close>

text \<open>
  The theorems hold for every regular-expression package, template library and API
  server. The worked examples need one of each to run the model on: the stand-ins below.
  \<open>stub_regexp\<close> rejects the pattern \<^verbatim>\<open>[invalid\<close> and lets every other pattern match
  every name.
\<close>

definition stub_regexp :: regexp where
  "stub_regexp =
     \<lparr>MatchString = (\<lambda>pattern s.
         if pattern = ''[invalid''
         then (False, Some (LibError ''error parsing regexp: missing closing ]''))
         else (True, None)),
      Compile = (\<lambda>pattern.
         if pattern = ''[invalid'' then Some (LibError ''error parsing regexp: missing closing ]'')
         else None)\<rparr>"

text \<open>
  \<open>fragment_engine\<close> knows a fragment of the template language: literal text and actions
  \<^verbatim>\<open>{{.A.B.C}}\<close> that name a string of the context. A key a map lacks is an error under
  \<^verbatim>\<open>missingkey=error\<close> and prints \<^verbatim>\<open><no value>\<close> otherwise; a field a struct lacks is an
  error. It parses without looking at any context.
\<close>

datatype node = Text string | Action string

fun scan :: "bool \<Rightarrow> string \<Rightarrow> string \<Rightarrow> node list option" where
  "scan False acc [] = Some [Text (rev acc)]"
| "scan True acc [] = None"
| "scan False acc (c # d # ds) =
     (if c = CHR ''{'' \<and> d = CHR ''{'' then map_option ((#) (Text (rev acc))) (scan True [] ds)
      else scan False (c # acc) (d # ds))"
| "scan True acc (c # d # ds) =
     (if c = CHR ''}'' \<and> d = CHR ''}'' then map_option ((#) (Action (rev acc))) (scan False [] ds)
      else scan True (c # acc) (d # ds))"
| "scan False acc [c] = Some [Text (rev (c # acc))]"
| "scan True acc [c] = None"

fun split_dots :: "string \<Rightarrow> string \<Rightarrow> string list" where
  "split_dots acc [] = [rev acc]"
| "split_dots acc (c # cs) =
     (if c = CHR ''.'' then rev acc # split_dots [] cs else split_dots (c # acc) cs)"

definition well_formed :: "node \<Rightarrow> bool" where
  "well_formed n =
     (case n of
        Text s \<Rightarrow> True
      | Action a \<Rightarrow>
          (case split_dots [] a of
             [] \<Rightarrow> False
           | first # names \<Rightarrow> first = '''' \<and> names \<noteq> [] \<and> list_all (\<lambda>f. f \<noteq> '''') names))"

definition map_entry :: "bool \<Rightarrow> strmap \<Rightarrow> string \<Rightarrow> error + string" where
  "map_entry strict m key =
     (case lookup m key of
        Some v \<Rightarrow> Inr v
      | None \<Rightarrow> if strict then Inl (LibError (''map has no entry for key '' @ key))
                else Inr ''<no value>'')"

fun field_value :: "bool \<Rightarrow> TemplateContext \<Rightarrow> string list \<Rightarrow> error + string" where
  "field_value strict ctx [a, b] =
     (if a = ''Namespace'' \<and> b = ''Name'' then Inr (nc_Name (ctx_Namespace ctx))
      else if a = ''CRD'' \<and> b = ''Name'' then Inr (cc_Name (ctx_CRD ctx))
      else if a = ''CRD'' \<and> b = ''Namespace'' then Inr (cc_Namespace (ctx_CRD ctx))
      else if a = ''CustomVars'' then map_entry strict (ctx_CustomVars ctx) b
      else Inl (LibError (''can not evaluate field '' @ b)))"
| "field_value strict ctx [a, b, c] =
     (if a = ''Namespace'' \<and> b = ''Labels''
      then map_entry strict (nc_Labels (ctx_Namespace ctx)) c
      else if a = ''Namespace'' \<and> b = ''Annotations''
      then map_entry strict (nc_Annotations (ctx_Namespace ctx)) c
      else if a = ''Config'' \<and> b = ''Naming'' \<and> c = ''Prefix''
      then Inr (nm_Prefix (cfg_Naming (ctx_Config ctx)))
      else if a = ''Config'' \<and> b = ''Naming'' \<and> c = ''Suffix''
      then Inr (nm_Suffix (cfg_Naming (ctx_Config ctx)))
      else if a = ''Config'' \<and> b = ''Naming'' \<and> c = ''Separator''
      then Inr (nm_Separator (cfg_Naming (ctx_Config ctx)))
      else Inl (LibError (''can not evaluate field '' @ c)))"
| "field_value strict ctx names = Inl (LibError ''can not evaluate field'')"

fun run_nodes :: "bool \<Rightarrow> node list \<Rightarrow> TemplateContext \<Rightarrow> error + string" where
  "run_nodes strict [] ctx = Inr ''''"
| "run_nodes strict (n # rest) ctx =
     (case (case n of
              Text s \<Rightarrow> Inr s
            | Action a \<Rightarrow> field_value strict ctx (tl (split_dots [] a))) of
        Inl err \<Rightarrow> Inl err
      | Inr s \<Rightarrow>
          (case run_nodes strict rest ctx of Inl err \<Rightarrow> Inl err | Inr t \<Rightarrow> Inr (s @ t)))"

definition fragment_engine :: "(bool \<times> node list) template" where
  "fragment_engine =
     \<lparr>Parse = (\<lambda>name funcs opts text.
         case scan False [] text of
           None \<Rightarrow> Inl (LibError (''template: '' @ name @ '': unclosed action''))
         | Some nodes \<Rightarrow>
             if list_all well_formed nodes then Inr (''missingkey=error'' \<in> set opts, nodes)
             else Inl (LibError (''template: '' @ name @ '': unexpected action''))),
      Execute = (\<lambda>tmpl ctx. run_nodes (fst tmpl) (snd tmpl) ctx)\<rparr>"

text \<open>
  \<open>empty_cluster\<close> is a server that has no object and accepts every write: a fetch finds
  nothing, a list is empty, a create or an update succeeds. Its state is the number of
  writes it has accepted. \<open>held_role\<close> is a role other writers keep changing:
  \<open>contended_cluster\<close> returns it to every fetch of a role or a cluster role, and answers
  every update of one with a version conflict.
\<close>

definition not_found :: error where
  "not_found = StatusError NotFound ''not found''"

definition conflict :: error where
  "conflict = StatusError Conflict ''the object has been modified''"

definition empty_cluster :: "nat client" where
  "empty_cluster =
     \<lparr>api_GetRole = (\<lambda>namespace name a. (Inl not_found, a)),
      api_CreateRole = (\<lambda>obj a. (None, Suc a)),
      api_UpdateRole = (\<lambda>obj a. (None, Suc a)),
      api_GetClusterRole = (\<lambda>name a. (Inl not_found, a)),
      api_CreateClusterRole = (\<lambda>obj a. (None, Suc a)),
      api_UpdateClusterRole = (\<lambda>obj a. (None, Suc a)),
      api_GetRoleBinding = (\<lambda>namespace name a. (Inl not_found, a)),
      api_CreateRoleBinding = (\<lambda>obj a. (None, Suc a)),
      api_UpdateRoleBinding = (\<lambda>obj a. (None, Suc a)),
      api_GetClusterRoleBinding = (\<lambda>name a. (Inl not_found, a)),
      api_CreateClusterRoleBinding = (\<lambda>obj a. (None, Suc a)),
      api_UpdateClusterRoleBinding = (\<lambda>obj a. (None, Suc a)),
      api_GetNamespace = (\<lambda>key a. (Inl not_found, a)),
      api_ListNamespaces = (\<lambda>a. (Inr [], a)),
      api_GetConfig = (\<lambda>key a. (Inl not_found, a)),
      api_ListConfigs = (\<lambda>a. (Inr [], a)),
      api_UpdateConfig = (\<lambda>obj a. (None, Suc a)),
      api_UpdateConfigStatus = (\<lambda>obj a. (None, Suc a)),
      api_SetControllerReference = (\<lambda>owner refs.
         Inr [\<lparr>or_Kind = ''Namespace'', or_Name = ns_Name owner, or_Controller = True\<rparr>]),
      api_Now = (\<lambda>a. 1700000000)\<rparr>"

definition pods_get :: PolicyRule where
  "pods_get = \<lparr>Verbs = [''get''], APIGroups = [''''], Resources = [''pods''],
               ResourceNames = [], NonResourceURLs = []\<rparr>"

definition deployments_create :: PolicyRule where
  "deployments_create = \<lparr>Verbs = [''create''], APIGroups = [''apps''],
                         Resources = [''deployments''], ResourceNames = [],
                         NonResourceURLs = []\<rparr>"

definition held_role :: Role where
  "held_role =
     \<lparr>om_Name = ''test-role'', om_Namespace = ''test-ns'', om_Labels = None,
      om_Annotations = None, om_ResourceVersion = ''1'', om_OwnerReferences = [],
      om_Finalizers = [], om_DeletionTimestamp = None, om_Generation = 0,
      role_Rules = [pods_get]\<rparr>"

definition held_cluster_role :: ClusterRole where
  "held_cluster_role =
     \<lparr>om_Name = ''test-role'', om_Namespace = '''', om_Labels = None,
      om_Annotations = None, om_ResourceVersion = ''1'', om_OwnerReferences = [],
      om_Finalizers = [], om_DeletionTimestamp = None, om_Generation = 0,
      crole_Rules = [pods_get]\<rparr>"

definition contended_cluster :: "nat client" where
  "contended_cluster =
     empty_cluster
       \<lparr>api_GetRole := (\<lambda>namespace name a. (Inr held_role, a)),
        api_UpdateRole := (\<lambda>obj a. (Some conflict, a)),
        api_GetClusterRole := (\<lambda>name a. (Inr held_cluster_role, a)),
        api_UpdateClusterRole := (\<lambda>obj a. (Some conflict, a))\<rparr>"

definition new_role :: Role where
  "new_role = held_role\<lparr>om_ResourceVersion := '''', role_Rules := [deployments_create]\<rparr>"

definition new_cluster_role :: ClusterRole where
  "new_cluster_role =
     held_cluster_role\<lparr>om_ResourceVersion := '''', crole_Rules := [deployments_create]\<rparr>"

definition world0 :: "nat world" where
  "world0 = \<lparr>api = 0, calls = [], logs = [],
             health = \<lparr>ready = 0, healthy = 1, lastReconcile = 0\<rparr>\<rparr>"

definition no_selector :: NamespaceSelector where
  "no_selector = \<lparr>NameRegex = None, sel_Annotations = None, sel_Labels = None,
                  IncludeNamespaces = [], ExcludeNamespaces = []\<rparr>"

definition no_templates :: RBACTemplates where
  "no_templates = \<lparr>Roles = [], ClusterRoles = [], RoleBindings = [], ClusterRoleBindings = []\<rparr>"

text \<open>A declaration \<^verbatim>\<open>team-rbac\<close> with the given selector, templates and strategy, that
  carries the finalizer.\<close>

definition a_declaration ::
  "NamespaceSelector \<Rightarrow> RBACTemplates \<Rightarrow> MergeStrategy option \<Rightarrow> NamespaceRBACConfig" where
  "a_declaration selector templates strategy =
     \<lparr>om_Name = ''team-rbac'', om_Namespace = '''', om_Labels = None, om_Annotations = None,
      om_ResourceVersion = ''7'', om_OwnerReferences = [], om_Finalizers = [FinalizerName],
      om_DeletionTimestamp = None, om_Generation = 1,
      Spec = \<lparr>spec_NamespaceSelector = selector, spec_RBACTemplates = templates,
               spec_Config = (case strategy of
                                None \<Rightarrow> None
                              | Some s \<Rightarrow> Some \<lparr>Naming = None, MergeStrategy = Some s,
                                                 TemplateVariables = None, Cleanup = None\<rparr>)\<rparr>,
      Status = \<lparr>Conditions = [], AppliedNamespaces = [], ObservedGeneration = 0\<rparr>\<rparr>"

definition ns_dev :: Namespace where
  "ns_dev = \<lparr>ns_Name = ''dev'', ns_Labels = None, ns_Annotations = None\<rparr>"

definition viewer_template :: ClusterRoleTemplate where
  "viewer_template =
     \<lparr>crt_Name = ''viewer-{{.Namespace.Name}}'', crt_Rules = [pods_get], crt_Labels = None,
      crt_Annotations = None\<rparr>"

definition dev_system :: Namespace where
  "dev_system = \<lparr>ns_Name = ''dev-system'', ns_Labels = None, ns_Annotations = None\<rparr>"

definition excluding_selector :: NamespaceSelector where
  "excluding_selector = no_selector\<lparr>NameRegex := Some ''^dev-.*'', ExcludeNamespaces := [''dev-system'']\<rparr>"

definition including_selector :: NamespaceSelector where
  "including_selector = no_selector\<lparr>IncludeNamespaces := [''special-ns'', ''another-ns'']\<rparr>"

definition developers :: Subject where
  "developers = \<lparr>subj_Kind = ''Group'', subj_APIGroup = ''rbac.authorization.k8s.io'',
                 subj_Name = ''developers'', subj_Namespace = ''''\<rparr>"

definition admins :: Subject where
  "admins = \<lparr>subj_Kind = ''Group'', subj_APIGroup = ''rbac.authorization.k8s.io'',
             subj_Name = ''admins'', subj_Namespace = ''''\<rparr>"

text \<open>A run stays within \<open>n\<close> when it issues at most \<open>n\<close> fetches and at most \<open>n\<close>
  writes.\<close>

definition within :: "nat \<Rightarrow> 'a world \<Rightarrow> 'a world \<Rightarrow> bool" where
  "within n w w' = (\<exists>new. calls w' = calls w @ new \<and> length (filter is_fetch new) \<le> n
                      \<and> length (filter is_write new) \<le> n)"

text \<open>The object that \<^verbatim>\<open>createOrUpdate...\<close> sends in its update call under the \<^verbatim>\<open>replace\<close>
  and \<^verbatim>\<open>merge\<close> strategies, from the generated object and the one that was fetched.\<close>

definition sent_role :: "NamespaceRBACConfig \<Rightarrow> Role \<Rightarrow> Role \<Rightarrow> Role" where
  "sent_role config role existing =
     (if mergeStrategyOf config = MergeStrategyReplace
      then role\<lparr>om_ResourceVersion := om_ResourceVersion existing\<rparr>
      else role\<lparr>role_Rules := mergeRules (role_Rules existing) (role_Rules role),
                om_ResourceVersion := om_ResourceVersion existing\<rparr>)"

definition sent_cluster_role ::
  "NamespaceRBACConfig \<Rightarrow> ClusterRole \<Rightarrow> ClusterRole \<Rightarrow> ClusterRole" where
  "sent_cluster_role config clusterRole existing =
     (if mergeStrategyOf config = MergeStrategyReplace
      then clusterRole\<lparr>om_ResourceVersion := om_ResourceVersion existing\<rparr>
      else clusterRole\<lparr>crole_Rules := mergeRules (crole_Rules existing) (crole_Rules clusterRole),
                       om_ResourceVersion := om_ResourceVersion existing\<rparr>)"

definition sent_role_binding ::
  "NamespaceRBACConfig \<Rightarrow> RoleBinding \<Rightarrow> RoleBinding \<Rightarrow> RoleBinding" where
  "sent_role_binding config roleBinding existing =
     (if mergeStrategyOf config = MergeStrategyReplace
      then roleBinding\<lparr>om_ResourceVersion := om_ResourceVersion existing\<rparr>
      else roleBinding\<lparr>rb_Subjects := mergeSubjects (rb_Subjects existing) (rb_Subjects roleBinding),
                       om_ResourceVersion := om_ResourceVersion existing\<rparr>)"

definition sent_cluster_role_binding ::
  "NamespaceRBACConfig \<Rightarrow> ClusterRoleBinding \<Rightarrow> ClusterRoleBinding \<Rightarrow> ClusterRoleBinding" where
  "sent_cluster_role_binding config clusterRoleBinding existing =
     (if mergeStrategyOf config = MergeStrategyReplace
      then clusterRoleBinding\<lparr>om_ResourceVersion := om_ResourceVersion existing\<rparr>
      else clusterRoleBinding
             \<lparr>crb_Subjects := mergeSubjects (crb_Subjects existing) (crb_Subjects clusterRoleBinding),
              om_ResourceVersion := om_ResourceVersion existing\<rparr>)"

text \<open>A server that refuses every read of a role or cluster role.\<close>

definition forbidden :: error where
  "forbidden = StatusError Forbidden ''roles is forbidden''"

definition forbidden_cluster :: "nat client" where
  "forbidden_cluster =
     empty_cluster
       \<lparr>api_GetRole := (\<lambda>namespace name a. (Inl forbidden, a)),
        api_GetClusterRole := (\<lambda>name a. (Inl forbidden, a))\<rparr>"

definition merge_declaration :: NamespaceRBACConfig where
  "merge_declaration = a_declaration no_selector no_templates (Some MergeStrategyMerge)"

definition ignore_declaration :: NamespaceRBACConfig where
  "ignore_declaration = a_declaration no_selector no_templates (Some MergeStrategyIgnore)"

text \<open>The status of the condition of the given type, if the list has one.\<close>

definition condition_status :: "Condition list \<Rightarrow> string \<Rightarrow> ConditionStatus option" where
  "condition_status conditions conditionType =
     map_option cond_Status (find (\<lambda>c. cond_Type c = conditionType) conditions)"

text \<open>A client that serves the given declaration to every fetch of a declaration.\<close>

definition serving :: "NamespaceRBACConfig \<Rightarrow> nat client" where
  "serving config = empty_cluster\<lparr>api_GetConfig := (\<lambda>key a. (Inr config, a))\<rparr>"

definition admin_template :: RoleTemplate where
  "admin_template = \<lparr>rt_Name = ''admin-{{.Namespace.Name}}'', rt_Rules = [pods_get],
                     rt_Labels = None, rt_Annotations = None\<rparr>"

definition bad_regex_declaration :: NamespaceRBACConfig where
  "bad_regex_declaration =
     a_declaration (no_selector\<lparr>NameRegex := Some ''[invalid''\<rparr>)
       (no_templates\<lparr>Roles := [admin_template]\<rparr>) None"

definition no_template_declaration :: NamespaceRBACConfig where
  "no_template_declaration =
     a_declaration (no_selector\<lparr>NameRegex := Some ''^test-.*''\<rparr>) no_templates None"

definition team_request :: Request where
  "team_request = \<lparr>req_Namespace = '''', req_Name = ''team-rbac''\<rparr>"

text \<open>The log records that mark the visit of one declaration by the loop of
  \<^verbatim>\<open>handleNamespaceCreateOrUpdate\<close>: one of them is written for every declaration.\<close>

definition visit :: "log_entry \<Rightarrow> bool" where
  "visit e =
     (case e of
        LogInfo msg \<Rightarrow> msg = ''Applying RBAC for namespace''
                       \<or> msg = ''Namespace no longer matches config, cleaning up''
      | LogError err msg \<Rightarrow> msg = ''Failed to check namespace match'')"

definition role_declaration :: NamespaceRBACConfig where
  "role_declaration = a_declaration no_selector (no_templates\<lparr>Roles := [admin_template]\<rparr>) None"

text \<open>A server that has the namespace \<^verbatim>\<open>dev\<close> and one declaration with a role template,
  and refuses every read of a role.\<close>

definition refusing_cluster :: "nat client" where
  "refusing_cluster =
     empty_cluster
       \<lparr>api_GetRole := (\<lambda>namespace name a. (Inl forbidden, a)),
        api_GetNamespace := (\<lambda>key a. (Inr ns_dev, a)),
        api_ListConfigs := (\<lambda>a. (Inr [role_declaration], a))\<rparr>"

definition dev_request :: Request where
  "dev_request = \<lparr>req_Namespace = '''', req_Name = ''dev''\<rparr>"

definition dev_context :: TemplateContext where
  "dev_context = BuildContext ns_dev (a_declaration no_selector no_templates None)"

text \<open>The result of a write is a version conflict.\<close>

definition conflicted :: "error option \<Rightarrow> bool" where
  "conflicted e = (case e of None \<Rightarrow> False | Some err \<Rightarrow> IsConflict err)"

text \<open>A server that returns \<open>held_role\<close> to every fetch of a role, answers the first update
  it receives with a version conflict and accepts the next.\<close>

definition once_contended :: "nat client" where
  "once_contended =
     empty_cluster
       \<lparr>api_GetRole := (\<lambda>namespace name a. (Inr held_role, a)),
        api_UpdateRole := (\<lambda>obj a. (if a = 0 then Some conflict else None, Suc a))\<rparr>"

text \<open>A role binding and a cluster role binding that other writers keep changing:
  \<open>contended_bindings\<close> returns them to every fetch and answers every update of one with a
  version conflict; \<open>refused_bindings\<close> returns the role binding to every fetch and refuses
  every update of one.\<close>

definition held_role_binding :: RoleBinding where
  "held_role_binding =
     \<lparr>om_Name = ''test-binding'', om_Namespace = ''test-ns'', om_Labels = None,
      om_Annotations = None, om_ResourceVersion = ''1'', om_OwnerReferences = [],
      om_Finalizers = [], om_DeletionTimestamp = None, om_Generation = 0,
      rb_RoleRef = \<lparr>ref_APIGroup = ''rbac.authorization.k8s.io'', ref_Kind = ''Role'',
                     ref_Name = ''test-role''\<rparr>,
      rb_Subjects = [developers]\<rparr>"

definition new_role_binding :: RoleBinding where
  "new_role_binding = held_role_binding\<lparr>om_ResourceVersion := '''', rb_Subjects := [admins]\<rparr>"

definition held_cluster_role_binding :: ClusterRoleBinding where
  "held_cluster_role_binding =
     \<lparr>om_Name = ''test-binding'', om_Namespace = '''', om_Labels = None,
      om_Annotations = None, om_ResourceVersion = ''1'', om_OwnerReferences = [],
      om_Finalizers = [], om_DeletionTimestamp = None, om_Generation = 0,
      crb_RoleRef = \<lparr>ref_APIGroup = ''rbac.authorization.k8s.io'', ref_Kind = ''ClusterRole'',
                      ref_Name = ''test-role''\<rparr>,
      crb_Subjects = [developers]\<rparr>"

definition new_cluster_role_binding :: ClusterRoleBinding where
  "new_cluster_role_binding =
     held_cluster_role_binding\<lparr>om_ResourceVersion := '''', crb_Subjects := [admins]\<rparr>"

definition contended_bindings :: "nat client" where
  "contended_bindings =
     empty_cluster
       \<lparr>api_GetRoleBinding := (\<lambda>namespace name a. (Inr held_role_binding, a)),
        api_UpdateRoleBinding := (\<lambda>obj a. (Some conflict, a)),
        api_GetClusterRoleBinding := (\<lambda>name a. (Inr held_cluster_role_binding, a)),
        api_UpdateClusterRoleBinding := (\<lambda>obj a. (Some conflict, a))\<rparr>"

definition refused_bindings :: "nat client" where
  "refused_bindings =
     empty_cluster
       \<lparr>api_GetRoleBinding := (\<lambda>namespace name a. (Inr held_role_binding, a)),
        api_UpdateRoleBinding := (\<lambda>obj a. (Some forbidden, a))\<rparr>"

text \<open>A declaration for other namespaces than \<^verbatim>\<open>dev\<close>, and a server that has the namespace
  \<^verbatim>\<open>dev\<close>, refuses every read of a role and lists four declarations: two the namespace
  matches, one whose selector does not compile and one for other namespaces.\<close>

definition away_declaration :: NamespaceRBACConfig where
  "away_declaration =
     a_declaration including_selector (no_templates\<lparr>Roles := [admin_template]\<rparr>) None"

definition crowded_cluster :: "nat client" where
  "crowded_cluster =
     refusing_cluster
       \<lparr>api_ListConfigs := (\<lambda>a.
          (Inr [role_declaration, bad_regex_declaration, away_declaration, role_declaration], a))\<rparr>"

section \<open>pkg/template: the function map and the template language\<close>

text \<open>
  The functions of \<^verbatim>\<open>NewEngine\<close>'s function map. \<^verbatim>\<open>default\<close> takes and returns values of
  any type (\<^verbatim>\<open>interface{}\<close>): \<open>val\<close> is such a value, as the template library hands it
  over: nothing (\<^verbatim>\<open>nil\<close>), a string, a boolean, a map of strings, or a struct with its
  named fields.
\<close>

datatype val = VNone | VStr string | VBool bool | VMap strmap | VStruct "(string \<times> val) list"

definition default_fn :: "val \<Rightarrow> val \<Rightarrow> val" where
  "default_fn defaultVal v = (if v = VNone \<or> v = VStr '''' then defaultVal else v)"

definition hasKey :: "strmap \<Rightarrow> string \<Rightarrow> bool" where
  "hasKey m key = (if m = None then False else lookup m key \<noteq> None)"

definition getOrDefault :: "strmap \<Rightarrow> string \<Rightarrow> string \<Rightarrow> string" where
  "getOrDefault m key defaultVal =
     (if m = None then defaultVal
      else (case lookup m key of Some v \<Rightarrow> v | None \<Rightarrow> defaultVal))"

text \<open>Modelled from the spec: Go's \<^verbatim>\<open>text/template\<close>, which parses and executes the templates,
  is not among the sources. The definitions from here to \<open>text_template\<close> follow the spec's
  description of the template language: literal text and \<^verbatim>\<open>{{ expr }}\<close> placeholders, where
  an expression is a dotted field access into the context or a call \<^verbatim>\<open>fn arg1 arg2\<close> of
  one of the functions of the function map, an argument being a field access or a string
  in double quotes. Field access is strict under the option \<^verbatim>\<open>missingkey=error\<close>: a key
  that a map lacks is an error; without the option it yields no value. A field that a
  struct lacks is an error under every option. The control structures and predefined
  functions of the library, which the spec's language does not have, are left out: a
  placeholder that uses one does not parse here. How the library prints a value that is
  neither a string nor a boolean is a parameter, \<open>sprint\<close>.
\<close>

datatype operand = Access "string list" | Lit string

datatype expr = Value operand | Call string "operand list"

datatype piece = Literal string | Placeholder expr

text \<open>Modelled from the spec: the words of a placeholder, separated by spaces; a string in
  double quotes is one word.\<close>

fun words :: "bool \<Rightarrow> string \<Rightarrow> string \<Rightarrow> string list option" where
  "words False acc [] = Some (if acc = [] then [] else [rev acc])"
| "words True acc [] = None"
| "words False acc (c # cs) =
     (if c = CHR '' ''
      then (if acc = [] then words False [] cs
            else map_option ((#) (rev acc)) (words False [] cs))
      else words (c = CHR 0x22) (c # acc) cs)"
| "words True acc (c # cs) = words (c \<noteq> CHR 0x22) (c # acc) cs"

text \<open>Modelled from the spec: an operand is a field access \<^verbatim>\<open>.A.B.C\<close> with at least one
  name and no empty name, or a string in double quotes.\<close>

definition parse_operand :: "string \<Rightarrow> operand option" where
  "parse_operand t =
     (case t of
        [] \<Rightarrow> None
      | c # cs \<Rightarrow>
          if c = CHR ''.''
          then (if list_all (\<lambda>n. n \<noteq> []) (split_dots [] cs) then Some (Access (split_dots [] cs))
                else None)
          else if c = CHR 0x22 \<and> cs \<noteq> [] \<and> last cs = CHR 0x22 \<and> CHR 0x22 \<notin> set (butlast cs)
          then Some (Lit (butlast cs))
          else None)"

text \<open>Modelled from the spec: an expression is one operand, or the name of a function of the
  function map followed by its arguments.\<close>

definition parse_expr :: "string list \<Rightarrow> string \<Rightarrow> expr option" where
  "parse_expr funcs a =
     (case words False [] a of
        None \<Rightarrow> None
      | Some [] \<Rightarrow> None
      | Some (t # ts) \<Rightarrow>
          if t \<in> set funcs then map_option (Call t) (those (map parse_operand ts))
          else if ts = [] then map_option Value (parse_operand t)
          else None)"

text \<open>Modelled from the spec: a template is syntactically valid when its placeholders are
  closed (\<open>scan\<close> finds them) and each holds an expression. No context takes part in
  parsing.\<close>

definition parse_piece :: "string list \<Rightarrow> node \<Rightarrow> piece option" where
  "parse_piece funcs n =
     (case n of Text s \<Rightarrow> Some (Literal s) | Action a \<Rightarrow> map_option Placeholder (parse_expr funcs a))"

definition parse_template :: "string list \<Rightarrow> string \<Rightarrow> piece list option" where
  "parse_template funcs text =
     (case scan False [] text of
        None \<Rightarrow> None
      | Some nodes \<Rightarrow> those (map (parse_piece funcs) nodes))"

text \<open>Modelled from the spec: the context as a template sees it: the partition's name, labels
  and annotations, the declaration's name and namespace, the naming configuration and the
  custom variables, under the field names of \<^verbatim>\<open>TemplateContext\<close>.\<close>

definition reflect :: "TemplateContext \<Rightarrow> val" where
  "reflect ctx =
     VStruct
       [(''Namespace'',
           VStruct [(''Name'', VStr (nc_Name (ctx_Namespace ctx))),
                    (''Labels'', VMap (nc_Labels (ctx_Namespace ctx))),
                    (''Annotations'', VMap (nc_Annotations (ctx_Namespace ctx)))]),
        (''CRD'',
           VStruct [(''Name'', VStr (cc_Name (ctx_CRD ctx))),
                    (''Namespace'', VStr (cc_Namespace (ctx_CRD ctx)))]),
        (''Config'',
           VStruct [(''Naming'',
              VStruct [(''Prefix'', VStr (nm_Prefix (cfg_Naming (ctx_Config ctx)))),
                       (''Suffix'', VStr (nm_Suffix (cfg_Naming (ctx_Config ctx)))),
                       (''Separator'', VStr (nm_Separator (cfg_Naming (ctx_Config ctx))))])]),
        (''CustomVars'', VMap (ctx_CustomVars ctx))]"

text \<open>Modelled from the spec: the field of a value under a name: a field of a struct, or the
  entry of a map under that key. A value has the field \<open>path\<close> defined when every name of
  the path, in turn, is such a field.\<close>

fun child :: "val \<Rightarrow> string \<Rightarrow> val option" where
  "child (VStruct fs) n = map_of fs n"
| "child (VMap m) n = map_option VStr (lookup m n)"
| "child _ n = None"

fun defined :: "val \<Rightarrow> string list \<Rightarrow> bool" where
  "defined v [] = True"
| "defined v (n # ns) = (case child v n of None \<Rightarrow> False | Some c \<Rightarrow> defined c ns)"

text \<open>Modelled from the spec: field access. In strict mode an undefined field fails; otherwise
  only a key that a map lacks is let through, as no value.\<close>

definition access :: "bool \<Rightarrow> val \<Rightarrow> string \<Rightarrow> error + val" where
  "access strict v n =
     (case child v n of
        Some c \<Rightarrow> Inr c
      | None \<Rightarrow>
          (case v of
             VMap m \<Rightarrow> if strict then Inl (LibError (''map has no entry for key '' @ n))
                       else Inr VNone
           | _ \<Rightarrow> Inl (LibError (''can not evaluate field '' @ n))))"

fun eval_field :: "bool \<Rightarrow> val \<Rightarrow> string list \<Rightarrow> error + val" where
  "eval_field strict v [] = Inr v"
| "eval_field strict v (n # ns) =
     (case access strict v n of Inl err \<Rightarrow> Inl err | Inr c \<Rightarrow> eval_field strict c ns)"

fun eval_operand :: "bool \<Rightarrow> val \<Rightarrow> operand \<Rightarrow> error + val" where
  "eval_operand strict v (Access path) = eval_field strict v path"
| "eval_operand strict v (Lit s) = Inr (VStr s)"

fun eval_operands :: "bool \<Rightarrow> val \<Rightarrow> operand list \<Rightarrow> error + val list" where
  "eval_operands strict v [] = Inr []"
| "eval_operands strict v (x # xs) =
     (case eval_operand strict v x of
        Inl err \<Rightarrow> Inl err
      | Inr a \<Rightarrow>
          (case eval_operands strict v xs of Inl err \<Rightarrow> Inl err | Inr as \<Rightarrow> Inr (a # as)))"

text \<open>Modelled from the spec: a call hands the values of the arguments to the function of
  that name: \<^verbatim>\<open>default(fallback, value)\<close>, \<^verbatim>\<open>hasKey(map, key)\<close>,
  \<^verbatim>\<open>getOrDefault(map, key, fallback)\<close>. Arguments of another number or type are an
  error.\<close>

fun call_function :: "string \<Rightarrow> val list \<Rightarrow> error + val" where
  "call_function f [a, b] =
     (if f = ''default'' then Inr (default_fn a b)
      else if f = ''hasKey''
      then (case (a, b) of
              (VMap m, VStr key) \<Rightarrow> Inr (VBool (hasKey m key))
            | _ \<Rightarrow> Inl (LibError ''wrong type of argument for hasKey''))
      else Inl (LibError (''wrong number of arguments for '' @ f)))"
| "call_function f [a, b, c] =
     (if f = ''getOrDefault''
      then (case (a, b, c) of
              (VMap m, VStr key, VStr defaultVal) \<Rightarrow> Inr (VStr (getOrDefault m key defaultVal))
            | _ \<Rightarrow> Inl (LibError ''wrong type of argument for getOrDefault''))
      else Inl (LibError (''wrong number of arguments for '' @ f)))"
| "call_function f args = Inl (LibError (''wrong number of arguments for '' @ f))"

fun eval_expr :: "bool \<Rightarrow> val \<Rightarrow> expr \<Rightarrow> error + val" where
  "eval_expr strict v (Value x) = eval_operand strict v x"
| "eval_expr strict v (Call f xs) =
     (case eval_operands strict v xs of Inl err \<Rightarrow> Inl err | Inr args \<Rightarrow> call_function f args)"

text \<open>Modelled from the spec: execution substitutes every placeholder by the text of its
  value, from left to right; the first error ends it.\<close>

definition render :: "(val \<Rightarrow> string) \<Rightarrow> val \<Rightarrow> string" where
  "render sprint x =
     (case x of
        VStr s \<Rightarrow> s
      | VBool b \<Rightarrow> if b then ''true'' else ''false''
      | _ \<Rightarrow> sprint x)"

fun run_pieces :: "(val \<Rightarrow> string) \<Rightarrow> bool \<Rightarrow> val \<Rightarrow> piece list \<Rightarrow> error + string" where
  "run_pieces sprint strict v [] = Inr ''''"
| "run_pieces sprint strict v (p # ps) =
     (case (case p of
              Literal s \<Rightarrow> Inr s
            | Placeholder e \<Rightarrow>
                (case eval_expr strict v e of Inl err \<Rightarrow> Inl err | Inr x \<Rightarrow> Inr (render sprint x))) of
        Inl err \<Rightarrow> Inl err
      | Inr s \<Rightarrow>
          (case run_pieces sprint strict v ps of Inl err \<Rightarrow> Inl err | Inr t \<Rightarrow> Inr (s @ t)))"

text \<open>Modelled from the spec: the template library. A parsed template keeps whether it was
  parsed with \<^verbatim>\<open>missingkey=error\<close>.\<close>

definition text_template :: "(val \<Rightarrow> string) \<Rightarrow> (bool \<times> piece list) template" where
  "text_template sprint =
     \<lparr>Parse = (\<lambda>name funcs opts text.
         case parse_template funcs text of
           None \<Rightarrow> Inl (LibError (''template: '' @ name @ '': syntax error''))
         | Some pieces \<Rightarrow> Inr (''missingkey=error'' \<in> set opts, pieces)),
      Execute = (\<lambda>tmpl ctx. run_pieces sprint (fst tmpl) (reflect ctx) (snd tmpl))\<rparr>"

text \<open>The field accesses a template holds, as placeholders or as arguments.\<close>

fun operand_refs :: "operand \<Rightarrow> string list list" where
  "operand_refs (Access path) = [path]"
| "operand_refs (Lit s) = []"

fun expr_refs :: "expr \<Rightarrow> string list list" where
  "expr_refs (Value x) = operand_refs x"
| "expr_refs (Call f xs) = concat (map operand_refs xs)"

fun piece_refs :: "piece \<Rightarrow> string list list" where
  "piece_refs (Literal s) = []"
| "piece_refs (Placeholder e) = expr_refs e"

definition refs :: "piece list \<Rightarrow> string list list" where
  "refs ps = concat (map piece_refs ps)"

text \<open>A string in double quotes, as a template writes it.\<close>

definition quoted :: "string \<Rightarrow> string" where
  "quoted s = CHR 0x22 # s @ [CHR 0x22]"

section \<open>Lemmas\<close>

lemma ins_keys_values:
  "list_all (\<lambda>(k, s). k = subjectKey s) m \<Longrightarrow>
   list_all (\<lambda>(k, s). k = subjectKey s)
     (fold (\<lambda>subject m. AList.update (subjectKey subject) subject m) xs m)"
proof (induction xs arbitrary: m)
  case Nil then show ?case by simp
next
  case (Cons x xs)
  have "list_all (\<lambda>(k, s). k = subjectKey s) (AList.update (subjectKey x) x m)"
    using Cons.prems by (induction m) auto
  then show ?case using Cons.IH by simp
qed

lemma ins_distinct:
  "distinct (map fst m) \<Longrightarrow>
   distinct (map fst (fold (\<lambda>subject m. AList.update (subjectKey subject) subject m) xs m))"
  by (induction xs arbitrary: m) (simp_all add: AList.distinct_update)

lemma ins_map_of_last:
  "x \<in> set xs \<Longrightarrow>
   \<exists>y \<in> set xs. subjectKey y = subjectKey x \<and>
     map_of (fold (\<lambda>subject m. AList.update (subjectKey subject) subject m) xs m) (subjectKey x) = Some y
     \<and> (\<forall>m'. map_of (fold (\<lambda>subject m. AList.update (subjectKey subject) subject m) xs m') (subjectKey x) = Some y)"
proof (induction xs arbitrary: m rule: rev_induct)
  case Nil then show ?case by simp
next
  case (snoc a xs)
  show ?case
  proof (cases "subjectKey a = subjectKey x")
    case True
    then show ?thesis by (auto simp: AList.update_conv')
  next
    case False
    then have "x \<in> set xs" using snoc.prems by auto
    from snoc.IH[OF this] show ?thesis using False by (auto simp: AList.update_conv')
  qed
qed

lemma ins_keys_unchanged:
  "subjectKey ` set xs \<subseteq> fst ` set m \<Longrightarrow>
   map fst (fold (\<lambda>subject m. AList.update (subjectKey subject) subject m) xs m) = map fst m"
proof (induction xs arbitrary: m)
  case Nil then show ?case by simp
next
  case (Cons x xs)
  have k: "map fst (AList.update (subjectKey x) x m) = map fst m"
    using Cons.prems by (auto simp: AList.update_keys)
  have "subjectKey ` set xs \<subseteq> fst ` set (AList.update (subjectKey x) x m)"
    using Cons.prems by (auto simp: AList.dom_update)
  from Cons.IH[OF this] show ?case using k by simp
qed

lemma ins_fresh:
  "distinct (map subjectKey xs) \<Longrightarrow> subjectKey ` set xs \<inter> fst ` set m = {} \<Longrightarrow>
   fold (\<lambda>subject m. AList.update (subjectKey subject) subject m) xs m
     = m @ map (\<lambda>s. (subjectKey s, s)) xs"
proof (induction xs arbitrary: m)
  case Nil then show ?case by simp
next
  case (Cons x xs)
  have u: "AList.update (subjectKey x) x m = m @ [(subjectKey x, x)]"
    using Cons.prems(2) by (induction m) auto
  have "subjectKey ` set xs \<inter> fst ` set (m @ [(subjectKey x, x)]) = {}"
    using Cons.prems by auto
  with Cons.IH[of "m @ [(subjectKey x, x)]"] Cons.prems(1) u show ?case by simp
qed

lemma alist_eqI:
  "distinct (map fst xs) \<Longrightarrow> map fst xs = map fst ys \<Longrightarrow> map_of xs = map_of ys \<Longrightarrow> xs = ys"
proof (induction xs arbitrary: ys)
  case Nil
  then show ?case by simp
next
  case (Cons x xs)
  from Cons.prems(2) obtain y ys' where ys: "ys = y # ys'" by (cases ys) auto
  have fk: "fst x = fst y" and ks: "map fst xs = map fst ys'" using Cons.prems(2) ys by auto
  have mo: "map_of (x # xs) k = map_of (y # ys') k" for k using Cons.prems(3) ys by metis
  have "map_of (x # xs) (fst x) = map_of (y # ys') (fst x)" by (rule mo)
  then have sv: "snd x = snd y" using fk by simp
  have xy: "x = y" using fk sv by (simp add: prod_eq_iff)
  have "map_of xs k = map_of ys' k" for k
  proof (cases "k = fst x")
    case True
    then have "k \<notin> fst ` set xs" using Cons.prems(1) by auto
    moreover have "fst ` set xs = fst ` set ys'" using ks by (metis set_map)
    ultimately have "map_of xs k = None" "map_of ys' k = None"
      by (simp_all add: map_of_eq_None_iff)
    then show ?thesis by simp
  next
    case False
    have "map_of (x # xs) k = map_of (y # ys') k" by (rule mo)
    then show ?thesis using False fk by simp
  qed
  then have "map_of xs = map_of ys'" by blast
  from Cons.IH[OF _ ks this] Cons.prems(1) have "xs = ys'" by simp
  then show ?case using xy ys by simp
qed

lemma ins_keys_subset:
  "subjectKey ` set xs \<subseteq>
     fst ` set (fold (\<lambda>subject m. AList.update (subjectKey subject) subject m) xs m)
   \<and> fst ` set m \<subseteq> fst ` set (fold (\<lambda>subject m. AList.update (subjectKey subject) subject m) xs m)"
proof (induction xs arbitrary: m)
  case Nil then show ?case by simp
next
  case (Cons x xs)
  have "fst ` set (AList.update (subjectKey x) x m) = insert (subjectKey x) (fst ` set m)"
    by (simp add: AList.dom_update)
  with Cons.IH[of "AList.update (subjectKey x) x m"] show ?case by auto
qed

lemma ins_map_of_other:
  "k \<notin> subjectKey ` set xs \<Longrightarrow>
   map_of (fold (\<lambda>subject m. AList.update (subjectKey subject) subject m) xs m) k = map_of m k"
  by (induction xs arbitrary: m) (auto simp: AList.update_conv')

lemma mergeSubjects_again:
  assumes R: "mset R = mset (mergeSubjects E N)"
  shows "mergeSubjects R N = R"
proof -
  let ?F = "\<lambda>xs m. fold (\<lambda>subject m. AList.update (subjectKey subject) subject m) xs m"
  let ?kv = "\<lambda>s. (subjectKey s, s)"
  define m0 where "m0 = ?F N (?F E [])"
  define V where "V = map snd m0"
  have V: "mergeSubjects E N = V" by (simp add: mergeSubjects_def subjectMap_def V_def m0_def)
  have d0: "distinct (map fst m0)" unfolding m0_def by (intro ins_distinct) simp
  have k0: "list_all (\<lambda>(k, s). k = subjectKey s) m0"
    unfolding m0_def by (intro ins_keys_values) simp
  have m0: "m0 = map ?kv V" using k0 unfolding V_def by (induction m0) auto
  have keysV: "map subjectKey V = map fst m0" by (subst m0) (simp add: comp_def)
  have dV: "distinct (map subjectKey V)" using d0 keysV by simp
  have "mset (map subjectKey R) = mset (map subjectKey V)" using R V by simp
  then have dR: "distinct (map subjectKey R)" using dV mset_eq_imp_distinct_iff by blast
  have "set_mset (mset R) = set_mset (mset V)" using R V by simp
  then have setR: "set R = set V" by simp
  have FR: "?F R [] = map ?kv R" using ins_fresh[OF dR, of "[]"] by simp
  have dkR: "distinct (map fst (map ?kv R))" using dR by (simp add: comp_def)
  have keysN: "subjectKey ` set N \<subseteq> fst ` set (map ?kv R)"
  proof -
    have "subjectKey ` set N \<subseteq> fst ` set m0" unfolding m0_def using ins_keys_subset by blast
    also have "\<dots> = subjectKey ` set V" by (subst m0) (simp add: image_comp comp_def)
    finally show ?thesis using setR by (simp add: image_comp comp_def)
  qed
  have keys: "map fst (?F N (map ?kv R)) = map fst (map ?kv R)"
    by (rule ins_keys_unchanged[OF keysN])
  have mo: "map_of (?F N (map ?kv R)) = map_of (map ?kv R)"
  proof
    fix k
    show "map_of (?F N (map ?kv R)) k = map_of (map ?kv R) k"
    proof (cases "k \<in> subjectKey ` set N")
      case False
      then show ?thesis by (rule ins_map_of_other)
    next
      case True
      then obtain x where x: "x \<in> set N" "k = subjectKey x" by auto
      from ins_map_of_last[OF x(1)] obtain y where
        y: "subjectKey y = subjectKey x"
           "\<forall>m'. map_of (?F N m') (subjectKey x) = Some y" by blast
      have "map_of m0 (subjectKey x) = Some y" unfolding m0_def using y(2) by blast
      then have "(subjectKey x, y) \<in> set m0" by (rule map_of_SomeD)
      then have "y \<in> set V" unfolding V_def by force
      then have "(subjectKey y, y) \<in> set (map ?kv R)" using setR by auto
      then have "map_of (map ?kv R) (subjectKey y) = Some y"
        using dkR by (simp only: map_of_eq_Some_iff)
      then show ?thesis using y x by simp
    qed
  qed
  have dF: "distinct (map fst (?F N (map ?kv R)))" using keys dkR by simp
  have "?F N (map ?kv R) = map ?kv R"
    by (rule alist_eqI[OF dF keys mo])
  then show ?thesis by (simp add: mergeSubjects_def subjectMap_def FR comp_def)
qed


lemma extends_refl: "extends P w w"
  by (simp add: extends_def)

lemma extends_trans: "extends P w w1 \<Longrightarrow> extends P w1 w2 \<Longrightarrow> extends P w w2"
  by (auto simp: extends_def)

lemma extends_issued: "extends P w w' \<Longrightarrow> list_all P (issued w w')"
  by (auto simp: extends_def issued_def)

lemma extends_frame: "extends P w w' \<Longrightarrow> logs w' = logs w \<and> health w' = health w"
  by (simp add: extends_def)

lemma extends_invoke: "P c \<Longrightarrow> invoke c f w = (r, w') \<Longrightarrow> extends P w w'"
  by (auto simp: invoke_def extends_def split: prod.splits)

lemmas client_defs = GetRole_def CreateRole_def UpdateRole_def GetClusterRole_def
  CreateClusterRole_def UpdateClusterRole_def GetRoleBinding_def CreateRoleBinding_def
  UpdateRoleBinding_def GetClusterRoleBinding_def CreateClusterRoleBinding_def
  UpdateClusterRoleBinding_def GetNamespace_def ListNamespaces_def GetConfig_def
  ListConfigs_def UpdateConfig_def UpdateConfigStatus_def

lemma read_extends:
  "GetRole cl n k w = (g1, w') \<Longrightarrow> extends (labelled Q) w w'"
  "GetClusterRole cl k w = (g2, w') \<Longrightarrow> extends (labelled Q) w w'"
  "GetRoleBinding cl n k w = (g3, w') \<Longrightarrow> extends (labelled Q) w w'"
  "GetClusterRoleBinding cl k w = (g4, w') \<Longrightarrow> extends (labelled Q) w w'"
  unfolding client_defs by (erule extends_invoke[rotated], simp add: labelled_def)+

lemma write_extends:
  "Q (om_Labels r1) \<Longrightarrow> CreateRole cl r1 w = (e, w') \<Longrightarrow> extends (labelled Q) w w'"
  "Q (om_Labels r1) \<Longrightarrow> UpdateRole cl r1 w = (e, w') \<Longrightarrow> extends (labelled Q) w w'"
  "Q (om_Labels r2) \<Longrightarrow> CreateClusterRole cl r2 w = (e, w') \<Longrightarrow> extends (labelled Q) w w'"
  "Q (om_Labels r2) \<Longrightarrow> UpdateClusterRole cl r2 w = (e, w') \<Longrightarrow> extends (labelled Q) w w'"
  "Q (om_Labels r3) \<Longrightarrow> CreateRoleBinding cl r3 w = (e, w') \<Longrightarrow> extends (labelled Q) w w'"
  "Q (om_Labels r3) \<Longrightarrow> UpdateRoleBinding cl r3 w = (e, w') \<Longrightarrow> extends (labelled Q) w w'"
  "Q (om_Labels r4) \<Longrightarrow> CreateClusterRoleBinding cl r4 w = (e, w') \<Longrightarrow> extends (labelled Q) w w'"
  "Q (om_Labels r4) \<Longrightarrow> UpdateClusterRoleBinding cl r4 w = (e, w') \<Longrightarrow> extends (labelled Q) w w'"
  unfolding client_defs by (erule extends_invoke[rotated], simp add: labelled_def)+

lemma createOrUpdateRole_loop_extends:
  "Q (om_Labels role) \<Longrightarrow> createOrUpdateRole_loop cl retry i role config w = (r, w')
    \<Longrightarrow> extends (labelled Q) w w'"
proof (induction "retry - i" arbitrary: i role w)
  case 0
  then show ?case by (simp add: createOrUpdateRole_loop.simps extends_refl)
next
  case (Suc n)
  have lt: "i < retry" using Suc.hyps(2) by simp
  obtain g w1 where g: "GetRole cl (om_Namespace role) (om_Name role) w = (g, w1)"
    by (cases "GetRole cl (om_Namespace role) (om_Name role) w")
  have e1: "extends (labelled Q) w w1" using g by (rule read_extends)
  have "extends (labelled Q) w1 w'"
  proof (cases g)
    case (Inl err)
    then show ?thesis using Suc.prems g lt
      by (auto simp: createOrUpdateRole_loop.simps[of cl retry i] extends_refl
          split: if_splits intro: write_extends[rotated])
  next
    case (Inr existing)
    have ih: "\<And>role' w2. Q (om_Labels role') \<Longrightarrow>
        createOrUpdateRole_loop cl retry (Suc i) role' config w2 = (r, w')
        \<Longrightarrow> extends (labelled Q) w2 w'"
      using Suc.hyps(1)[of "Suc i"] Suc.hyps(2) by simp
    have step: "\<And>role' w2 e. UpdateRole cl role' w1 = (e, w2) \<Longrightarrow>
        createOrUpdateRole_loop cl retry (Suc i) role' config w2 = (r, w') \<Longrightarrow>
        Q (om_Labels role') \<Longrightarrow> extends (labelled Q) w1 w'"
      by (rule extends_trans[OF write_extends(2) ih])
    show ?thesis using Suc.prems g lt Inr
      by (auto simp: createOrUpdateRole_loop.simps[of cl retry i] extends_refl Let_def
          split: if_splits option.splits prod.splits
          intro: write_extends[rotated] step)
  qed
  with e1 show ?case by (rule extends_trans)
qed

lemma createOrUpdateRoleBinding_loop_extends:
  "Q (om_Labels roleBinding) \<Longrightarrow> createOrUpdateRoleBinding_loop cl retry i roleBinding config w = (r, w')
    \<Longrightarrow> extends (labelled Q) w w'"
proof (induction "retry - i" arbitrary: i roleBinding w)
  case 0
  then show ?case by (simp add: createOrUpdateRoleBinding_loop.simps extends_refl)
next
  case (Suc n)
  have lt: "i < retry" using Suc.hyps(2) by simp
  obtain g w1 where g: "GetRoleBinding cl (om_Namespace roleBinding) (om_Name roleBinding) w = (g, w1)"
    by (cases "GetRoleBinding cl (om_Namespace roleBinding) (om_Name roleBinding) w")
  have e1: "extends (labelled Q) w w1" using g by (rule read_extends)
  have "extends (labelled Q) w1 w'"
  proof (cases g)
    case (Inl err)
    then show ?thesis using Suc.prems g lt
      by (auto simp: createOrUpdateRoleBinding_loop.simps[of cl retry i] extends_refl
          split: if_splits intro: write_extends[rotated])
  next
    case (Inr existing)
    have ih: "\<And>roleBinding' w2. Q (om_Labels roleBinding') \<Longrightarrow>
        createOrUpdateRoleBinding_loop cl retry (Suc i) roleBinding' config w2 = (r, w')
        \<Longrightarrow> extends (labelled Q) w2 w'"
      using Suc.hyps(1)[of "Suc i"] Suc.hyps(2) by simp
    have step: "\<And>roleBinding' w2 e. UpdateRoleBinding cl roleBinding' w1 = (e, w2) \<Longrightarrow>
        createOrUpdateRoleBinding_loop cl retry (Suc i) roleBinding' config w2 = (r, w') \<Longrightarrow>
        Q (om_Labels roleBinding') \<Longrightarrow> extends (labelled Q) w1 w'"
      by (rule extends_trans[OF write_extends(6) ih])
    show ?thesis using Suc.prems g lt Inr
      by (auto simp: createOrUpdateRoleBinding_loop.simps[of cl retry i] extends_refl Let_def
          split: if_splits option.splits prod.splits
          intro: write_extends[rotated] step)
  qed
  with e1 show ?case by (rule extends_trans)
qed

lemma createOrUpdateClusterRole_extends:
  "Q (om_Labels clusterRole) \<Longrightarrow> createOrUpdateClusterRole cl clusterRole config w = (r, w')
    \<Longrightarrow> extends (labelled Q) w w'"
proof -
  assume q: "Q (om_Labels clusterRole)"
    and run: "createOrUpdateClusterRole cl clusterRole config w = (r, w')"
  obtain g w1 where g: "GetClusterRole cl (om_Name clusterRole) w = (g, w1)"
    by (cases "GetClusterRole cl (om_Name clusterRole) w")
  have e1: "extends (labelled Q) w w1" using g by (rule read_extends)
  have "extends (labelled Q) w1 w'" using run g q
    by (cases g)
       (auto simp: createOrUpdateClusterRole_def extends_refl Let_def
          split: if_splits intro: write_extends[rotated])
  with e1 show ?thesis by (rule extends_trans)
qed

lemma createOrUpdateClusterRoleBinding_extends:
  "Q (om_Labels clusterRoleBinding) \<Longrightarrow>
   createOrUpdateClusterRoleBinding cl clusterRoleBinding config w = (r, w')
    \<Longrightarrow> extends (labelled Q) w w'"
proof -
  assume q: "Q (om_Labels clusterRoleBinding)"
    and run: "createOrUpdateClusterRoleBinding cl clusterRoleBinding config w = (r, w')"
  obtain g w1 where g: "GetClusterRoleBinding cl (om_Name clusterRoleBinding) w = (g, w1)"
    by (cases "GetClusterRoleBinding cl (om_Name clusterRoleBinding) w")
  have e1: "extends (labelled Q) w w1" using g by (rule read_extends)
  have "extends (labelled Q) w1 w'" using run g q
    by (cases g)
       (auto simp: createOrUpdateClusterRoleBinding_def extends_refl Let_def
          split: if_splits intro: write_extends[rotated])
  with e1 show ?thesis by (rule extends_trans)
qed

lemma read_extends_snd:
  "extends (labelled Q) w (snd (GetRole cl n k w))"
  by (cases "GetRole cl n k w") (auto intro: read_extends)

lemma applyRole_extends:
  assumes q: "\<And>labels. Q (mergeLabels labels (om_Name config) (ns_Name ns))"
    and run: "applyRole engine cl ns config template templateCtx w = (r, w')"
  shows "extends (labelled Q) w w'"
  using run
  by (auto simp: applyRole_def createOrUpdateRole_def extends_refl Let_def q
      split: sum.splits option.splits prod.splits
      intro: createOrUpdateRole_loop_extends[rotated]
        extends_trans[OF createOrUpdateRole_loop_extends[rotated] read_extends_snd])

lemma applyClusterRole_extends:
  assumes q: "\<And>labels. Q (mergeLabels labels (om_Name config) (ns_Name ns))"
    and run: "applyClusterRole engine cl ns config template templateCtx w = (r, w')"
  shows "extends (labelled Q) w w'"
  using run
  by (auto simp: applyClusterRole_def extends_refl Let_def q
      split: sum.splits option.splits prod.splits
      intro: createOrUpdateClusterRole_extends[rotated])

lemma applyRoleBinding_extends:
  assumes q: "\<And>labels. Q (mergeLabels labels (om_Name config) (ns_Name ns))"
    and run: "applyRoleBinding engine cl ns config template templateCtx w = (r, w')"
  shows "extends (labelled Q) w w'"
  using run
  by (auto simp: applyRoleBinding_def createOrUpdateRoleBinding_def extends_refl Let_def q
      split: sum.splits option.splits prod.splits
      intro: createOrUpdateRoleBinding_loop_extends[rotated])

lemma applyClusterRoleBinding_extends:
  assumes q: "\<And>labels. Q (mergeLabels labels (om_Name config) (ns_Name ns))"
    and run: "applyClusterRoleBinding engine cl ns config template templateCtx w = (r, w')"
  shows "extends (labelled Q) w w'"
  using run
  by (auto simp: applyClusterRoleBinding_def extends_refl Let_def q
      split: sum.splits option.splits prod.splits
      intro: createOrUpdateClusterRoleBinding_extends[rotated])

lemma applyRoles_extends:
  assumes q: "\<And>labels. Q (mergeLabels labels (om_Name config) (ns_Name ns))"
  shows "applyRoles engine cl ns config ts templateCtx w = (r, w') \<Longrightarrow> extends (labelled Q) w w'"
proof (induction ts arbitrary: w)
  case Nil then show ?case by (simp add: extends_refl)
next
  case (Cons t ts)
  obtain r1 w1 where a: "applyRole engine cl ns config t templateCtx w = (r1, w1)"
    by (cases "applyRole engine cl ns config t templateCtx w")
  have e1: "extends (labelled Q) w w1" using q a by (rule applyRole_extends)
  have "extends (labelled Q) w1 w'" using Cons a by (cases r1) (auto simp: extends_refl)
  with e1 show ?case by (rule extends_trans)
qed

lemma applyClusterRoles_extends:
  assumes q: "\<And>labels. Q (mergeLabels labels (om_Name config) (ns_Name ns))"
  shows "applyClusterRoles engine cl ns config ts templateCtx w = (r, w')
    \<Longrightarrow> extends (labelled Q) w w'"
proof (induction ts arbitrary: w)
  case Nil then show ?case by (simp add: extends_refl)
next
  case (Cons t ts)
  obtain r1 w1 where a: "applyClusterRole engine cl ns config t templateCtx w = (r1, w1)"
    by (cases "applyClusterRole engine cl ns config t templateCtx w")
  have e1: "extends (labelled Q) w w1" using q a by (rule applyClusterRole_extends)
  have "extends (labelled Q) w1 w'" using Cons a by (cases r1) (auto simp: extends_refl)
  with e1 show ?case by (rule extends_trans)
qed

lemma applyRoleBindings_extends:
  assumes q: "\<And>labels. Q (mergeLabels labels (om_Name config) (ns_Name ns))"
  shows "applyRoleBindings engine cl ns config ts templateCtx w = (r, w')
    \<Longrightarrow> extends (labelled Q) w w'"
proof (induction ts arbitrary: w)
  case Nil then show ?case by (simp add: extends_refl)
next
  case (Cons t ts)
  obtain r1 w1 where a: "applyRoleBinding engine cl ns config t templateCtx w = (r1, w1)"
    by (cases "applyRoleBinding engine cl ns config t templateCtx w")
  have e1: "extends (labelled Q) w w1" using q a by (rule applyRoleBinding_extends)
  have "extends (labelled Q) w1 w'" using Cons a by (cases r1) (auto simp: extends_refl)
  with e1 show ?case by (rule extends_trans)
qed

lemma applyClusterRoleBindings_extends:
  assumes q: "\<And>labels. Q (mergeLabels labels (om_Name config) (ns_Name ns))"
  shows "applyClusterRoleBindings engine cl ns config ts templateCtx w = (r, w')
    \<Longrightarrow> extends (labelled Q) w w'"
proof (induction ts arbitrary: w)
  case Nil then show ?case by (simp add: extends_refl)
next
  case (Cons t ts)
  obtain r1 w1 where a: "applyClusterRoleBinding engine cl ns config t templateCtx w = (r1, w1)"
    by (cases "applyClusterRoleBinding engine cl ns config t templateCtx w")
  have e1: "extends (labelled Q) w w1" using q a by (rule applyClusterRoleBinding_extends)
  have "extends (labelled Q) w1 w'" using Cons a by (cases r1) (auto simp: extends_refl)
  with e1 show ?case by (rule extends_trans)
qed

lemma ApplyRBACForNamespace_extends:
  assumes q: "\<And>labels. Q (mergeLabels labels (om_Name config) (ns_Name ns))"
    and run: "ApplyRBACForNamespace engine cl ns config w = (r, w')"
  shows "extends (labelled Q) w w'"
proof -
  let ?ctx = "BuildContext ns config" and ?t = "spec_RBACTemplates (Spec config)"
  obtain r1 w1 where a1: "applyRoles engine cl ns config (Roles ?t) ?ctx w = (r1, w1)"
    by (cases "applyRoles engine cl ns config (Roles ?t) ?ctx w")
  obtain r2 w2 where
    a2: "applyClusterRoles engine cl ns config (ClusterRoles ?t) ?ctx w1 = (r2, w2)"
    by (cases "applyClusterRoles engine cl ns config (ClusterRoles ?t) ?ctx w1")
  obtain r3 w3 where
    a3: "applyRoleBindings engine cl ns config (RoleBindings ?t) ?ctx w2 = (r3, w3)"
    by (cases "applyRoleBindings engine cl ns config (RoleBindings ?t) ?ctx w2")
  obtain r4 w4 where
    a4: "applyClusterRoleBindings engine cl ns config (ClusterRoleBindings ?t) ?ctx w3 = (r4, w4)"
    by (cases "applyClusterRoleBindings engine cl ns config (ClusterRoleBindings ?t) ?ctx w3")
  have e1: "extends (labelled Q) w w1" using q a1 by (rule applyRoles_extends)
  have e2: "extends (labelled Q) w1 w2" using q a2 by (rule applyClusterRoles_extends)
  have e3: "extends (labelled Q) w2 w3" using q a3 by (rule applyRoleBindings_extends)
  have e4: "extends (labelled Q) w3 w4" using q a4 by (rule applyClusterRoleBindings_extends)
  have "w' = w1 \<or> w' = w2 \<or> w' = w3 \<or> w' = w4"
    using run a1 a2 a3 a4
    by (auto simp: ApplyRBACForNamespace_def Let_def split: option.splits)
  then show ?thesis
    using e1 extends_trans[OF e1 e2] extends_trans[OF extends_trans[OF e1 e2] e3]
      extends_trans[OF extends_trans[OF extends_trans[OF e1 e2] e3] e4] by blast
qed


lemma decimal_3: "decimal 3 = ''3''"
  by (simp add: decimal.simps)

lemma invoke_calls: "invoke c f w = (r, w') \<Longrightarrow> calls w' = calls w @ [c]"
  by (auto simp: invoke_def split: prod.splits)

lemma issued_append: "calls w' = calls w @ new \<Longrightarrow> issued w w' = new"
  by (simp add: issued_def)

lemma within_refl: "within n w w"
  by (simp add: within_def)

lemma within_mono: "within m w w' \<Longrightarrow> m \<le> n \<Longrightarrow> within n w w'"
  by (auto simp: within_def)

lemma within_fetch_then:
  "invoke c f w = (g, w1) \<Longrightarrow> is_fetch c \<Longrightarrow> \<not> is_write c \<Longrightarrow> within n w1 w'
    \<Longrightarrow> within (Suc n) w w'"
  by (auto simp: within_def dest!: invoke_calls)

lemma within_write_then:
  "invoke c f w = (e, w1) \<Longrightarrow> \<not> is_fetch c \<Longrightarrow> within n w1 w' \<Longrightarrow> within (Suc n) w w'"
  by (auto simp: within_def dest!: invoke_calls)

lemma within_write_last:
  "invoke c f w = (e, w') \<Longrightarrow> \<not> is_fetch c \<Longrightarrow> within (Suc n) w w'"
  by (auto simp: within_def dest!: invoke_calls)

text \<open>One attempt is a fetch followed by at most one write, so a run of at most \<open>n\<close>
  attempts stays \<^const>\<open>within\<close> \<open>n\<close>.\<close>

lemma fetch_write_within:
  assumes g: "invoke c f w = (g, w1)" and fc: "is_fetch c" "\<not> is_write c"
    and u: "invoke d h w1 = (e, w2)" and wd: "\<not> is_fetch d"
    and rest: "within n w2 w'"
  shows "within (Suc n) w w'"
  using assms by (auto simp: within_def dest!: invoke_calls)

lemma fetch_within:
  assumes g: "invoke c f w = (g, w')" and fc: "is_fetch c" "\<not> is_write c"
  shows "within (Suc n) w w'"
  using assms by (auto simp: within_def dest!: invoke_calls)

lemma createOrUpdateRole_loop_within:
  "createOrUpdateRole_loop cl retry i role config w = (r, w') \<Longrightarrow> within (retry - i) w w'"
proof (induction "retry - i" arbitrary: i role w)
  case 0
  then show ?case by (simp add: createOrUpdateRole_loop.simps within_refl)
next
  case (Suc n)
  have lt: "i < retry" using Suc.hyps(2) by simp
  have n: "retry - i = Suc n" using Suc.hyps(2) by simp
  have n': "n = retry - Suc i" using Suc.hyps(2) by arith
  have ih: "\<And>role' w2. createOrUpdateRole_loop cl retry (Suc i) role' config w2 = (r, w')
        \<Longrightarrow> within n w2 w'"
    using Suc.hyps(1)[OF n'] n' by simp
  have A: "within (Suc n) w w'" if "GetRole cl ns k w = (g, w')" for ns k g
    using that unfolding GetRole_def by (auto simp: within_def is_write_def dest!: invoke_calls)
  have B: "within (Suc n) w w'"
    if "GetRole cl ns k w = (g, w1)" "CreateRole cl x w1 = (e, w')" for ns k g w1 x e
    using that unfolding GetRole_def CreateRole_def
    by (auto simp: within_def is_write_def dest!: invoke_calls)
  have C: "within (Suc n) w w'"
    if "GetRole cl ns k w = (g, w1)" "UpdateRole cl x w1 = (e, w')" for ns k g w1 x e
    using that unfolding GetRole_def UpdateRole_def
    by (auto simp: within_def is_write_def dest!: invoke_calls)
  have D: "within (Suc n) w w'"
    if "GetRole cl ns k w = (g, w1)" "UpdateRole cl x w1 = (e, w2)"
      "createOrUpdateRole_loop cl retry (Suc i) x config w2 = (r, w')" for ns k g w1 x e w2
    using that(1,2) ih [OF that(3)] unfolding GetRole_def UpdateRole_def
    by (auto simp: within_def is_write_def dest!: invoke_calls)
  obtain g w1 where g: "GetRole cl (om_Namespace role) (om_Name role) w = (g, w1)"
    by (cases "GetRole cl (om_Namespace role) (om_Name role) w")
  show ?case unfolding n using Suc.prems g lt
    by (cases g)
       (auto simp: createOrUpdateRole_loop.simps[of cl retry i] Let_def
          split: if_splits option.splits prod.splits intro: A B C D)
qed

lemma createOrUpdateRoleBinding_loop_within:
  "createOrUpdateRoleBinding_loop cl retry i roleBinding config w = (r, w') \<Longrightarrow> within (retry - i) w w'"
proof (induction "retry - i" arbitrary: i roleBinding w)
  case 0
  then show ?case by (simp add: createOrUpdateRoleBinding_loop.simps within_refl)
next
  case (Suc n)
  have lt: "i < retry" using Suc.hyps(2) by simp
  have n: "retry - i = Suc n" using Suc.hyps(2) by simp
  have n': "n = retry - Suc i" using Suc.hyps(2) by arith
  have ih: "\<And>roleBinding' w2. createOrUpdateRoleBinding_loop cl retry (Suc i) roleBinding' config w2 = (r, w')
        \<Longrightarrow> within n w2 w'"
    using Suc.hyps(1)[OF n'] n' by simp
  have A: "within (Suc n) w w'" if "GetRoleBinding cl ns k w = (g, w')" for ns k g
    using that unfolding GetRoleBinding_def by (auto simp: within_def is_write_def dest!: invoke_calls)
  have B: "within (Suc n) w w'"
    if "GetRoleBinding cl ns k w = (g, w1)" "CreateRoleBinding cl x w1 = (e, w')" for ns k g w1 x e
    using that unfolding GetRoleBinding_def CreateRoleBinding_def
    by (auto simp: within_def is_write_def dest!: invoke_calls)
  have C: "within (Suc n) w w'"
    if "GetRoleBinding cl ns k w = (g, w1)" "UpdateRoleBinding cl x w1 = (e, w')" for ns k g w1 x e
    using that unfolding GetRoleBinding_def UpdateRoleBinding_def
    by (auto simp: within_def is_write_def dest!: invoke_calls)
  have D: "within (Suc n) w w'"
    if "GetRoleBinding cl ns k w = (g, w1)" "UpdateRoleBinding cl x w1 = (e, w2)"
      "createOrUpdateRoleBinding_loop cl retry (Suc i) x config w2 = (r, w')" for ns k g w1 x e w2
    using that(1,2) ih [OF that(3)] unfolding GetRoleBinding_def UpdateRoleBinding_def
    by (auto simp: within_def is_write_def dest!: invoke_calls)
  obtain g w1 where g: "GetRoleBinding cl (om_Namespace roleBinding) (om_Name roleBinding) w = (g, w1)"
    by (cases "GetRoleBinding cl (om_Namespace roleBinding) (om_Name roleBinding) w")
  show ?case unfolding n using Suc.prems g lt
    by (cases g)
       (auto simp: createOrUpdateRoleBinding_loop.simps[of cl retry i] Let_def
          split: if_splits option.splits prod.splits intro: A B C D)
qed

lemma within_issued:
  "within n w w' \<Longrightarrow>
     length (filter is_fetch (issued w w')) \<le> n \<and> length (filter is_write (issued w w')) \<le> n"
  by (auto simp: within_def issued_def)

lemma strategies_differ [simp]:
  "MergeStrategyReplace \<noteq> MergeStrategyIgnore" "MergeStrategyMerge \<noteq> MergeStrategyIgnore"
  "MergeStrategyMerge \<noteq> MergeStrategyReplace" "MergeStrategyIgnore \<noteq> MergeStrategyReplace"
  "MergeStrategyIgnore \<noteq> MergeStrategyMerge" "MergeStrategyReplace \<noteq> MergeStrategyMerge"
  by (simp_all add: MergeStrategyReplace_def MergeStrategyIgnore_def MergeStrategyMerge_def)

lemma createOrUpdateClusterRole_within:
  "createOrUpdateClusterRole cl clusterRole config w = (r, w') \<Longrightarrow> within 1 w w'"
  by (auto simp: createOrUpdateClusterRole_def GetClusterRole_def CreateClusterRole_def
      UpdateClusterRole_def within_def is_write_def Let_def
      split: prod.splits sum.splits if_splits dest!: invoke_calls)

lemma createOrUpdateClusterRoleBinding_within:
  "createOrUpdateClusterRoleBinding cl clusterRoleBinding config w = (r, w') \<Longrightarrow> within 1 w w'"
  by (auto simp: createOrUpdateClusterRoleBinding_def GetClusterRoleBinding_def
      CreateClusterRoleBinding_def UpdateClusterRoleBinding_def within_def is_write_def Let_def
      split: prod.splits sum.splits if_splits dest!: invoke_calls)

lemma condition_status_setCondition_loop:
  "condition_status (setCondition_loop cs c now) t
     = (if t = cond_Type c then Some (cond_Status c) else condition_status cs t)"
  by (induction cs) (auto simp: condition_status_def)

lemma condition_status_setCondition:
  "condition_status (Conditions (Status (setCondition now config t s reason message))) t'
     = (if t' = t then Some s else condition_status (Conditions (Status config)) t')"
  by (simp add: setCondition_def condition_status_setCondition_loop Let_def)

lemma setCondition_frame [simp]:
  "Spec (setCondition now config t s reason message) = Spec config"
  "om_Name (setCondition now config t s reason message) = om_Name config"
  "om_Finalizers (setCondition now config t s reason message) = om_Finalizers config"
  by (simp_all add: setCondition_def Let_def)

lemma condition_types_differ [simp]:
  "ConditionTypeReady \<noteq> ConditionTypeProgressing" "ConditionTypeReady \<noteq> ConditionTypeDegraded"
  "ConditionTypeProgressing \<noteq> ConditionTypeDegraded"
  "ConditionTypeProgressing \<noteq> ConditionTypeReady" "ConditionTypeDegraded \<noteq> ConditionTypeReady"
  "ConditionTypeDegraded \<noteq> ConditionTypeProgressing"
  by (simp_all add: ConditionTypeReady_def ConditionTypeProgressing_def ConditionTypeDegraded_def)

lemma updateStatus_trace:
  "updateStatus cl config w = (res, w') \<Longrightarrow>
     calls w' = calls w @ [CallUpdateConfigStatus config] \<and> health w' = health w"
  by (auto simp: updateStatus_def UpdateConfigStatus_def invoke_def logInfo_def logError_def
      split: prod.splits option.splits if_splits)

section \<open>Claims\<close>

text \<open>
  C1. Applying the merge strategy twice with the same template output gives the same rules
  and subjects as applying it once. For rules this fails as stated: merging appends, so
  the second merge appends the new rules once more.
\<close>

theorem mergeRules_twice_counterexample:
  "mergeRules (mergeRules [pods_get] [deployments_create]) [deployments_create]
     \<noteq> mergeRules [pods_get] [deployments_create]"
  by (simp add: mergeRules_def)

text \<open>
  C1, as amended. Merging the rules a second time appends them a second time: the list
  grows and only the set of its rules stays the same. Merging the subjects a second
  time, into the first result listed in any order, gives that result again, up to order.
\<close>

theorem merge_twice:
  "mergeRules (mergeRules E N) N = E @ N @ N
   \<and> set (mergeRules (mergeRules E N) N) = set (mergeRules E N)
   \<and> (mset R = mset (mergeSubjects E' N') \<longrightarrow> mset (mergeSubjects R N') = mset R)"
  using mergeSubjects_again [of R E' N'] by (auto simp: mergeRules_def)

lemma mergeSubjects_example:
  "mergeSubjects [developers] [admins, developers] = [developers, admins]"
  by (simp add: mergeSubjects_def subjectMap_def subjectKey_def developers_def admins_def)

theorem merge_twice_witness:
  "mset [admins, developers] = mset (mergeSubjects [developers] [admins, developers])
   \<and> mset (mergeSubjects [admins, developers] [admins, developers]) = mset [admins, developers]"
proof -
  have h: "mset [admins, developers] = mset (mergeSubjects [developers] [admins, developers])"
    by (simp add: mergeSubjects_example)
  from merge_twice [of "[]" "[]" "[admins, developers]" "[developers]" "[admins, developers]"] h
  show ?thesis by blast
qed

text \<open>
  C2. Whatever the template's labels are, the labels \<^verbatim>\<open>mergeLabels\<close> returns map the owner
  label to \<^verbatim>\<open>namespace-rbac-operator\<close> and the config label to the declaration's name; and
  every object that applying a declaration to a namespace creates or updates carries
  both.
\<close>

theorem operator_labels_win:
  "lookup (mergeLabels templateLabels configName targetNamespace) OwnerLabel
     = Some ''namespace-rbac-operator''
   \<and> lookup (mergeLabels templateLabels configName targetNamespace) ConfigLabel = Some configName
   \<and> list_all
        (labelled (\<lambda>l. lookup l OwnerLabel = Some ''namespace-rbac-operator''
                       \<and> lookup l ConfigLabel = Some (om_Name config)))
        (issued w (snd (ApplyRBACForNamespace engine cl ns config w)))"
proof -
  have m: "lookup (mergeLabels tl n t) OwnerLabel = Some ''namespace-rbac-operator''
           \<and> lookup (mergeLabels tl n t) ConfigLabel = Some n" for tl n t
    by (simp add: mergeLabels_def lookup_def entries_def Let_def AList.update_conv'
        OwnerLabel_def ConfigLabel_def NamespaceLabel_def)
  obtain r w' where run: "ApplyRBACForNamespace engine cl ns config w = (r, w')"
    by (cases "ApplyRBACForNamespace engine cl ns config w")
  have "extends
          (labelled (\<lambda>l. lookup l OwnerLabel = Some ''namespace-rbac-operator''
                         \<and> lookup l ConfigLabel = Some (om_Name config))) w w'"
    by (rule ApplyRBACForNamespace_extends [OF _ run]) (rule m)
  then show ?thesis using m run by (simp add: extends_issued)
qed


text \<open>
  C3. The namespace label is put on namespace-scoped objects only, and a generated
  ClusterRole or ClusterRoleBinding does not carry it. This fails as stated:
  \<^verbatim>\<open>applyClusterRole\<close> hands the namespace's name to \<^verbatim>\<open>mergeLabels\<close> as the namespace-scoped
  kinds do. Applying the template \<^verbatim>\<open>viewer-{{.Namespace.Name}}\<close> for the namespace \<^verbatim>\<open>dev\<close>
  on an empty cluster fetches the cluster role and creates it with the label set to
  \<^verbatim>\<open>dev\<close>.
\<close>

theorem cluster_role_namespace_label_counterexample:
  "map (\<lambda>c. case written_labels c of None \<Rightarrow> None | Some l \<Rightarrow> lookup l NamespaceLabel)
     (issued world0
        (snd (applyClusterRole fragment_engine empty_cluster ns_dev
                (a_declaration no_selector no_templates None) viewer_template
                (BuildContext ns_dev (a_declaration no_selector no_templates None)) world0)))
   = [None, Some ''dev'']"
  by (simp add: applyClusterRole_def createOrUpdateClusterRole_def GetClusterRole_def
      CreateClusterRole_def invoke_def issued_def world0_def empty_cluster_def ns_dev_def
      viewer_template_def a_declaration_def no_selector_def no_templates_def BuildContext_def
      ProcessTemplate_def ProcessMap_def fragment_engine_def well_formed_def funcMap_def
      mergeLabels_def lookup_def entries_def not_found_def Let_def
      OwnerLabel_def ConfigLabel_def NamespaceLabel_def)

text \<open>
  C3, as amended. \<^verbatim>\<open>mergeLabels\<close> sets the namespace label to the target namespace it is
  given unless that is the empty string, and every caller gives it the name of the
  namespace being processed: every object that applying a declaration to a namespace
  with a name creates or updates, of a cluster-scoped kind as of a namespace-scoped one,
  carries the label with that name.
\<close>

theorem namespace_label_on_every_kind:
  "(targetNamespace \<noteq> '''' \<longrightarrow>
      lookup (mergeLabels templateLabels configName targetNamespace) NamespaceLabel
        = Some targetNamespace)
   \<and> (ns_Name ns \<noteq> '''' \<longrightarrow>
        list_all (labelled (\<lambda>l. lookup l NamespaceLabel = Some (ns_Name ns)))
          (issued w (snd (applyClusterRole engine cl ns config crTemplate templateCtx w)))
        \<and> list_all (labelled (\<lambda>l. lookup l NamespaceLabel = Some (ns_Name ns)))
            (issued w (snd (applyClusterRoleBinding engine cl ns config crbTemplate templateCtx w)))
        \<and> list_all (labelled (\<lambda>l. lookup l NamespaceLabel = Some (ns_Name ns)))
            (issued w (snd (ApplyRBACForNamespace engine cl ns config w))))"
proof -
  have m: "t \<noteq> '''' \<Longrightarrow> lookup (mergeLabels tl n t) NamespaceLabel = Some t" for tl n t
    by (simp add: mergeLabels_def lookup_def entries_def Let_def AList.update_conv')
  have "list_all (labelled (\<lambda>l. lookup l NamespaceLabel = Some (ns_Name ns)))
          (issued w (snd (applyClusterRole engine cl ns config crTemplate templateCtx w)))"
    if "ns_Name ns \<noteq> ''''"
    by (rule extends_issued, rule applyClusterRole_extends [OF _ surjective_pairing])
       (rule m [OF that])
  moreover have "list_all (labelled (\<lambda>l. lookup l NamespaceLabel = Some (ns_Name ns)))
          (issued w (snd (applyClusterRoleBinding engine cl ns config crbTemplate templateCtx w)))"
    if "ns_Name ns \<noteq> ''''"
    by (rule extends_issued, rule applyClusterRoleBinding_extends [OF _ surjective_pairing])
       (rule m [OF that])
  moreover have "list_all (labelled (\<lambda>l. lookup l NamespaceLabel = Some (ns_Name ns)))
          (issued w (snd (ApplyRBACForNamespace engine cl ns config w)))"
    if "ns_Name ns \<noteq> ''''"
    by (rule extends_issued, rule ApplyRBACForNamespace_extends [OF _ surjective_pairing])
       (rule m [OF that])
  ultimately show ?thesis using m by blast
qed

theorem namespace_label_on_every_kind_witness:
  "ns_Name ns_dev \<noteq> ''''
   \<and> lookup (mergeLabels None ''team-rbac'' (ns_Name ns_dev)) NamespaceLabel = Some (ns_Name ns_dev)
   \<and> list_all (labelled (\<lambda>l. lookup l NamespaceLabel = Some (ns_Name ns_dev)))
        (issued world0
           (snd (applyClusterRole fragment_engine empty_cluster ns_dev
                   (a_declaration no_selector no_templates None) viewer_template
                   (BuildContext ns_dev (a_declaration no_selector no_templates None)) world0)))"
proof -
  have h: "ns_Name ns_dev \<noteq> ''''" by (simp add: ns_dev_def)
  from namespace_label_on_every_kind [of "ns_Name ns_dev" None "''team-rbac''" ns_dev world0
      fragment_engine empty_cluster "a_declaration no_selector no_templates None" viewer_template
      "BuildContext ns_dev (a_declaration no_selector no_templates None)"] h
  show ?thesis by blast
qed

text \<open>
  C4. A namespace whose name is in the exclusion list never matches, whatever the other
  criteria are; when the inclusion list is not empty, a namespace whose name is not in it
  never matches. In both cases \<^verbatim>\<open>NamespaceMatches\<close> returns false and no error.
\<close>

theorem exclusion_and_inclusion:
  "(ns_Name ns \<in> set (ExcludeNamespaces selector) \<longrightarrow>
      NamespaceMatches re ns selector = (False, None))
   \<and> (IncludeNamespaces selector \<noteq> [] \<and> ns_Name ns \<notin> set (IncludeNamespaces selector) \<longrightarrow>
      NamespaceMatches re ns selector = (False, None))"
  by (simp add: NamespaceMatches_def)

theorem exclusion_and_inclusion_witness:
  "ns_Name dev_system \<in> set (ExcludeNamespaces excluding_selector)
   \<and> NamespaceMatches stub_regexp dev_system excluding_selector = (False, None)
   \<and> IncludeNamespaces including_selector \<noteq> []
   \<and> ns_Name dev_system \<notin> set (IncludeNamespaces including_selector)
   \<and> NamespaceMatches stub_regexp dev_system including_selector = (False, None)"
proof -
  have h1: "ns_Name dev_system \<in> set (ExcludeNamespaces excluding_selector)"
    by (simp add: dev_system_def excluding_selector_def)
  have h2: "IncludeNamespaces including_selector \<noteq> []
            \<and> ns_Name dev_system \<notin> set (IncludeNamespaces including_selector)"
    by (simp add: dev_system_def including_selector_def)
  from exclusion_and_inclusion [of dev_system excluding_selector stub_regexp]
    exclusion_and_inclusion [of dev_system including_selector stub_regexp] h1 h2
  show ?thesis by blast
qed

text \<open>
  C9. A selector whose required annotations are a non-nil map, even an empty one, never
  matches a namespace whose annotation map is nil: the boolean \<^verbatim>\<open>NamespaceMatches\<close> returns
  is false. The same holds for required labels against a nil label map.
\<close>

theorem nil_map_never_matches:
  "(sel_Annotations selector \<noteq> None \<and> ns_Annotations ns = None \<longrightarrow>
      fst (NamespaceMatches re ns selector) = False)
   \<and> (sel_Labels selector \<noteq> None \<and> ns_Labels ns = None \<longrightarrow>
      fst (NamespaceMatches re ns selector) = False)"
  by (auto simp: NamespaceMatches_def split: option.splits prod.splits bool.splits)

theorem nil_map_never_matches_witness:
  "sel_Annotations (no_selector\<lparr>sel_Annotations := Some []\<rparr>) \<noteq> None
   \<and> ns_Annotations ns_dev = None
   \<and> NamespaceMatches stub_regexp ns_dev (no_selector\<lparr>sel_Annotations := Some []\<rparr>)
       = (False, None)
   \<and> sel_Labels (no_selector\<lparr>sel_Labels := Some []\<rparr>) \<noteq> None
   \<and> ns_Labels ns_dev = None
   \<and> NamespaceMatches stub_regexp ns_dev (no_selector\<lparr>sel_Labels := Some []\<rparr>) = (False, None)
   \<and> NamespaceMatches stub_regexp ns_dev no_selector = (True, None)"
proof -
  have h1: "sel_Annotations (no_selector\<lparr>sel_Annotations := Some []\<rparr>) \<noteq> None
            \<and> ns_Annotations ns_dev = None"
    and h2: "sel_Labels (no_selector\<lparr>sel_Labels := Some []\<rparr>) \<noteq> None \<and> ns_Labels ns_dev = None"
    by (simp_all add: ns_dev_def)
  have e: "snd (NamespaceMatches stub_regexp ns_dev (no_selector\<lparr>sel_Annotations := Some []\<rparr>)) = None"
    "snd (NamespaceMatches stub_regexp ns_dev (no_selector\<lparr>sel_Labels := Some []\<rparr>)) = None"
    "NamespaceMatches stub_regexp ns_dev no_selector = (True, None)"
    by (simp_all add: NamespaceMatches_def no_selector_def ns_dev_def)
  from nil_map_never_matches [of "no_selector\<lparr>sel_Annotations := Some []\<rparr>" ns_dev stub_regexp]
    nil_map_never_matches [of "no_selector\<lparr>sel_Labels := Some []\<rparr>" ns_dev stub_regexp] h1 h2 e
  show ?thesis by (metis prod.collapse)
qed

lemmas example_defs =
  contended_cluster_def empty_cluster_def forbidden_cluster_def world0_def new_role_def
  held_role_def new_cluster_role_def held_cluster_role_def merge_declaration_def
  a_declaration_def mergeStrategyOf_def conflict_def forbidden_def not_found_def
  MergeStrategyMerge_def MergeStrategyReplace_def MergeStrategyIgnore_def

lemmas call_defs =
  GetRole_def CreateRole_def UpdateRole_def GetClusterRole_def CreateClusterRole_def
  UpdateClusterRole_def GetRoleBinding_def CreateRoleBinding_def UpdateRoleBinding_def
  GetClusterRoleBinding_def CreateClusterRoleBinding_def UpdateClusterRoleBinding_def
  GetNamespace_def ListNamespaces_def GetConfig_def ListConfigs_def UpdateConfig_def
  UpdateConfigStatus_def invoke_def


lemma invoke_api: "invoke c f w = (r, w') \<Longrightarrow> api w' = snd (f (api w))"
  by (auto simp: invoke_def split: prod.splits)

text \<open>
  C8. Under the \<^verbatim>\<open>ignore\<close> strategy, when the fetch finds the object, the create-or-update
  of each of the four kinds returns success in the world the fetch left: the fetch is the
  only call it has issued, so nothing is created or updated and the server's state is the
  one after the read.
\<close>

theorem ignore_leaves_existing:
  "mergeStrategyOf config = MergeStrategyIgnore \<longrightarrow>
     (GetRole cl (om_Namespace role) (om_Name role) w = (Inr existing, w1) \<longrightarrow>
        createOrUpdateRole cl role config w = (None, w1)
        \<and> issued w w1 = [CallGetRole (om_Namespace role) (om_Name role)]
        \<and> api w1 = snd (api_GetRole cl (om_Namespace role) (om_Name role) (api w)))
   \<and> (GetClusterRole cl (om_Name cr) w = (Inr existingC, w1) \<longrightarrow>
        createOrUpdateClusterRole cl cr config w = (None, w1)
        \<and> issued w w1 = [CallGetClusterRole (om_Name cr)]
        \<and> api w1 = snd (api_GetClusterRole cl (om_Name cr) (api w)))
   \<and> (GetRoleBinding cl (om_Namespace rb) (om_Name rb) w = (Inr existingB, w1) \<longrightarrow>
        createOrUpdateRoleBinding cl rb config w = (None, w1)
        \<and> issued w w1 = [CallGetRoleBinding (om_Namespace rb) (om_Name rb)]
        \<and> api w1 = snd (api_GetRoleBinding cl (om_Namespace rb) (om_Name rb) (api w)))
   \<and> (GetClusterRoleBinding cl (om_Name crb) w = (Inr existingD, w1) \<longrightarrow>
        createOrUpdateClusterRoleBinding cl crb config w = (None, w1)
        \<and> issued w w1 = [CallGetClusterRoleBinding (om_Name crb)]
        \<and> api w1 = snd (api_GetClusterRoleBinding cl (om_Name crb) (api w)))"
proof -
  have a: "GetRole cl (om_Namespace role) (om_Name role) w = (Inr existing, w1) \<longrightarrow>
        createOrUpdateRole cl role config w = (None, w1)
        \<and> issued w w1 = [CallGetRole (om_Namespace role) (om_Name role)]
        \<and> api w1 = snd (api_GetRole cl (om_Namespace role) (om_Name role) (api w))"
    if "mergeStrategyOf config = MergeStrategyIgnore"
    using that
    by (auto simp: createOrUpdateRole_def createOrUpdateRole_loop.simps [of cl 3 0] GetRole_def
        dest: invoke_calls [THEN issued_append] invoke_api)
  have b: "GetClusterRole cl (om_Name cr) w = (Inr existingC, w1) \<longrightarrow>
        createOrUpdateClusterRole cl cr config w = (None, w1)
        \<and> issued w w1 = [CallGetClusterRole (om_Name cr)]
        \<and> api w1 = snd (api_GetClusterRole cl (om_Name cr) (api w))"
    if "mergeStrategyOf config = MergeStrategyIgnore"
    using that
    by (auto simp: createOrUpdateClusterRole_def GetClusterRole_def
        dest: invoke_calls [THEN issued_append] invoke_api)
  have c: "GetRoleBinding cl (om_Namespace rb) (om_Name rb) w = (Inr existingB, w1) \<longrightarrow>
        createOrUpdateRoleBinding cl rb config w = (None, w1)
        \<and> issued w w1 = [CallGetRoleBinding (om_Namespace rb) (om_Name rb)]
        \<and> api w1 = snd (api_GetRoleBinding cl (om_Namespace rb) (om_Name rb) (api w))"
    if "mergeStrategyOf config = MergeStrategyIgnore"
    using that
    by (auto simp: createOrUpdateRoleBinding_def createOrUpdateRoleBinding_loop.simps [of cl 3 0]
        GetRoleBinding_def dest: invoke_calls [THEN issued_append] invoke_api)
  have d: "GetClusterRoleBinding cl (om_Name crb) w = (Inr existingD, w1) \<longrightarrow>
        createOrUpdateClusterRoleBinding cl crb config w = (None, w1)
        \<and> issued w w1 = [CallGetClusterRoleBinding (om_Name crb)]
        \<and> api w1 = snd (api_GetClusterRoleBinding cl (om_Name crb) (api w))"
    if "mergeStrategyOf config = MergeStrategyIgnore"
    using that
    by (auto simp: createOrUpdateClusterRoleBinding_def GetClusterRoleBinding_def
        dest: invoke_calls [THEN issued_append] invoke_api)
  show ?thesis using a b c d by blast
qed

theorem ignore_leaves_existing_witness:
  "mergeStrategyOf ignore_declaration = MergeStrategyIgnore
   \<and> GetRole contended_cluster (om_Namespace new_role) (om_Name new_role) world0
       = (Inr held_role, world0\<lparr>calls := [CallGetRole ''test-ns'' ''test-role'']\<rparr>)
   \<and> role_Rules new_role \<noteq> role_Rules held_role
   \<and> createOrUpdateRole contended_cluster new_role ignore_declaration world0
       = (None, world0\<lparr>calls := [CallGetRole ''test-ns'' ''test-role'']\<rparr>)
   \<and> GetClusterRole contended_cluster (om_Name new_cluster_role) world0
       = (Inr held_cluster_role, world0\<lparr>calls := [CallGetClusterRole ''test-role'']\<rparr>)
   \<and> createOrUpdateClusterRole contended_cluster new_cluster_role ignore_declaration world0
       = (None, world0\<lparr>calls := [CallGetClusterRole ''test-role'']\<rparr>)"
proof -
  have m: "mergeStrategyOf ignore_declaration = MergeStrategyIgnore"
    by (simp add: ignore_declaration_def a_declaration_def mergeStrategyOf_def)
  have g: "GetRole contended_cluster (om_Namespace new_role) (om_Name new_role) world0
       = (Inr held_role, world0\<lparr>calls := [CallGetRole ''test-ns'' ''test-role'']\<rparr>)"
    by (simp add: call_defs example_defs)
  have gc: "GetClusterRole contended_cluster (om_Name new_cluster_role) world0
       = (Inr held_cluster_role, world0\<lparr>calls := [CallGetClusterRole ''test-role'']\<rparr>)"
    by (simp add: call_defs example_defs)
  have ne: "role_Rules new_role \<noteq> role_Rules held_role"
    by (simp add: new_role_def held_role_def pods_get_def deployments_create_def)
  from ignore_leaves_existing [where config = ignore_declaration and cl = contended_cluster
      and role = new_role and w = world0 and existing = held_role
      and ?w1.0 = "world0\<lparr>calls := [CallGetRole ''test-ns'' ''test-role'']\<rparr>"] m g
  have r: "createOrUpdateRole contended_cluster new_role ignore_declaration world0
       = (None, world0\<lparr>calls := [CallGetRole ''test-ns'' ''test-role'']\<rparr>)"
    by blast
  from ignore_leaves_existing [where config = ignore_declaration and cl = contended_cluster
      and cr = new_cluster_role and w = world0 and existingC = held_cluster_role
      and ?w1.0 = "world0\<lparr>calls := [CallGetClusterRole ''test-role'']\<rparr>"] m gc
  have c: "createOrUpdateClusterRole contended_cluster new_cluster_role ignore_declaration world0
       = (None, world0\<lparr>calls := [CallGetClusterRole ''test-role'']\<rparr>)"
    by blast
  show ?thesis using m g gc ne r c by simp
qed

text \<open>
  C7. When the reconcile of a declaration has fetched it, it is not being deleted and it
  carries the finalizer, and its name regex does not compile or its four template lists
  are all empty, then the reconcile issues exactly three calls: the fetch, one status
  update, and the list of declarations its deferred function makes. The declaration the
  status update sends has Degraded true, Ready false and Progressing false, and its spec
  as fetched. No namespace is listed and no RBAC object is read or written: nothing is
  applied. The health checker is marked unhealthy.
\<close>

theorem invalid_declaration_degraded:
  "GetConfig cl req w = (Inr config, w1)
   \<and> om_DeletionTimestamp config = None
   \<and> FinalizerName \<in> set (om_Finalizers config)
   \<and> ((\<exists>pattern err. NameRegex (spec_NamespaceSelector (Spec config)) = Some pattern
                       \<and> Compile re pattern = Some err)
       \<or> (Roles (spec_RBACTemplates (Spec config)) = []
           \<and> ClusterRoles (spec_RBACTemplates (Spec config)) = []
           \<and> RoleBindings (spec_RBACTemplates (Spec config)) = []
           \<and> ClusterRoleBindings (spec_RBACTemplates (Spec config)) = []))
   \<longrightarrow> (\<exists>config'.
          issued w (snd (NamespaceRBACConfigReconciler_Reconcile re engine cl req w))
            = [CallGetConfig req, CallUpdateConfigStatus config', CallListConfigs]
          \<and> condition_status (Conditions (Status config')) ConditionTypeDegraded = Some ConditionTrue
          \<and> condition_status (Conditions (Status config')) ConditionTypeReady = Some ConditionFalse
          \<and> condition_status (Conditions (Status config')) ConditionTypeProgressing
              = Some ConditionFalse
          \<and> Spec config' = Spec config)
       \<and> healthy (health (snd (NamespaceRBACConfigReconciler_Reconcile re engine cl req w))) = 0"
proof (intro impI, elim conjE)
  assume g: "GetConfig cl req w = (Inr config, w1)"
    and nd: "om_DeletionTimestamp config = None"
    and fin: "FinalizerName \<in> set (om_Finalizers config)"
    and bad: "(\<exists>pattern err. NameRegex (spec_NamespaceSelector (Spec config)) = Some pattern
                       \<and> Compile re pattern = Some err)
       \<or> (Roles (spec_RBACTemplates (Spec config)) = []
           \<and> ClusterRoles (spec_RBACTemplates (Spec config)) = []
           \<and> RoleBindings (spec_RBACTemplates (Spec config)) = []
           \<and> ClusterRoleBindings (spec_RBACTemplates (Spec config)) = [])"
  let ?c0 = "setCondition (api_Now cl (api w1)) config ConditionTypeProgressing
               ConditionTrue ''Reconciling'' ''Reconciling NamespaceRBACConfig''"
  have "validateConfig re ?c0 \<noteq> None"
    using bad by (auto simp: validateConfig_def split: option.splits)
  then obtain err where v: "validateConfig re ?c0 = Some err" by blast
  let ?w2 = "SetHealthy cl False (logError err ''Invalid configuration'' w1)"
  let ?now = "api_Now cl (api ?w2)"
  let ?c3 = "setCondition ?now
               (setCondition ?now
                  (setCondition ?now ?c0 ConditionTypeDegraded ConditionTrue
                     ReasonValidationError (Error err))
                  ConditionTypeReady ConditionFalse ReasonValidationError
                  ''Configuration validation failed'')
               ConditionTypeProgressing ConditionFalse ReasonValidationError ''Validation failed''"
  obtain res w3 where u: "updateStatus cl ?c3 ?w2 = (res, w3)"
    by (cases "updateStatus cl ?c3 ?w2")
  have run: "NamespaceRBACConfigReconciler_Reconcile re engine cl req w
               = (res, snd (ListConfigs cl w3))"
    using g nd fin v u
    by (simp add: NamespaceRBACConfigReconciler_Reconcile_def ContainsFinalizer_def deferred_def
        Let_def)
  have c1: "calls w1 = calls w @ [CallGetConfig req]"
    using g by (auto simp: GetConfig_def dest: invoke_calls)
  have c2: "calls ?w2 = calls w1" "healthy (health ?w2) = 0"
    by (simp_all add: SetHealthy_def logError_def)
  have c3: "calls w3 = calls ?w2 @ [CallUpdateConfigStatus ?c3]" "health w3 = health ?w2"
    using updateStatus_trace [OF u] by simp_all
  have c4: "calls (snd (ListConfigs cl w3)) = calls w3 @ [CallListConfigs]"
    "health (snd (ListConfigs cl w3)) = health w3"
    by (auto simp: ListConfigs_def invoke_def split: prod.splits)
  have tr: "issued w (snd (NamespaceRBACConfigReconciler_Reconcile re engine cl req w))
      = [CallGetConfig req, CallUpdateConfigStatus ?c3, CallListConfigs]"
    using run c1 c2 c3 c4 by (simp add: issued_def)
  have st: "condition_status (Conditions (Status ?c3)) ConditionTypeDegraded = Some ConditionTrue"
    "condition_status (Conditions (Status ?c3)) ConditionTypeReady = Some ConditionFalse"
    "condition_status (Conditions (Status ?c3)) ConditionTypeProgressing = Some ConditionFalse"
    "Spec ?c3 = Spec config"
    by (simp_all add: condition_status_setCondition)
  have h: "healthy (health (snd (NamespaceRBACConfigReconciler_Reconcile re engine cl req w))) = 0"
    using run c2 c3 c4 by simp
  show "(\<exists>config'.
          issued w (snd (NamespaceRBACConfigReconciler_Reconcile re engine cl req w))
            = [CallGetConfig req, CallUpdateConfigStatus config', CallListConfigs]
          \<and> condition_status (Conditions (Status config')) ConditionTypeDegraded = Some ConditionTrue
          \<and> condition_status (Conditions (Status config')) ConditionTypeReady = Some ConditionFalse
          \<and> condition_status (Conditions (Status config')) ConditionTypeProgressing
              = Some ConditionFalse
          \<and> Spec config' = Spec config)
       \<and> healthy (health (snd (NamespaceRBACConfigReconciler_Reconcile re engine cl req w))) = 0"
    using tr st h by blast
qed

theorem invalid_declaration_degraded_witness:
  "GetConfig (serving bad_regex_declaration) team_request world0
     = (Inr bad_regex_declaration, world0\<lparr>calls := [CallGetConfig team_request]\<rparr>)
   \<and> om_DeletionTimestamp bad_regex_declaration = None
   \<and> FinalizerName \<in> set (om_Finalizers bad_regex_declaration)
   \<and> NameRegex (spec_NamespaceSelector (Spec bad_regex_declaration)) = Some ''[invalid''
   \<and> Compile stub_regexp ''[invalid'' = Some (LibError ''error parsing regexp: missing closing ]'')
   \<and> Roles (spec_RBACTemplates (Spec bad_regex_declaration)) \<noteq> []
   \<and> (\<exists>config'.
         issued world0
           (snd (NamespaceRBACConfigReconciler_Reconcile stub_regexp fragment_engine
                   (serving bad_regex_declaration) team_request world0))
           = [CallGetConfig team_request, CallUpdateConfigStatus config', CallListConfigs]
         \<and> condition_status (Conditions (Status config')) ConditionTypeDegraded = Some ConditionTrue
         \<and> condition_status (Conditions (Status config')) ConditionTypeReady = Some ConditionFalse
         \<and> condition_status (Conditions (Status config')) ConditionTypeProgressing
             = Some ConditionFalse)
   \<and> GetConfig (serving no_template_declaration) team_request world0
       = (Inr no_template_declaration, world0\<lparr>calls := [CallGetConfig team_request]\<rparr>)
   \<and> Compile stub_regexp ''^test-.*'' = None
   \<and> Roles (spec_RBACTemplates (Spec no_template_declaration)) = []
   \<and> ClusterRoles (spec_RBACTemplates (Spec no_template_declaration)) = []
   \<and> RoleBindings (spec_RBACTemplates (Spec no_template_declaration)) = []
   \<and> ClusterRoleBindings (spec_RBACTemplates (Spec no_template_declaration)) = []
   \<and> (\<exists>config'.
         issued world0
           (snd (NamespaceRBACConfigReconciler_Reconcile stub_regexp fragment_engine
                   (serving no_template_declaration) team_request world0))
           = [CallGetConfig team_request, CallUpdateConfigStatus config', CallListConfigs]
         \<and> condition_status (Conditions (Status config')) ConditionTypeDegraded = Some ConditionTrue
         \<and> condition_status (Conditions (Status config')) ConditionTypeReady = Some ConditionFalse
         \<and> condition_status (Conditions (Status config')) ConditionTypeProgressing
             = Some ConditionFalse)"
proof -
  have g1: "GetConfig (serving bad_regex_declaration) team_request world0
     = (Inr bad_regex_declaration, world0\<lparr>calls := [CallGetConfig team_request]\<rparr>)"
    and g2: "GetConfig (serving no_template_declaration) team_request world0
       = (Inr no_template_declaration, world0\<lparr>calls := [CallGetConfig team_request]\<rparr>)"
    by (simp_all add: GetConfig_def invoke_def serving_def empty_cluster_def world0_def)
  have d1: "om_DeletionTimestamp bad_regex_declaration = None"
    "FinalizerName \<in> set (om_Finalizers bad_regex_declaration)"
    "NameRegex (spec_NamespaceSelector (Spec bad_regex_declaration)) = Some ''[invalid''"
    "Roles (spec_RBACTemplates (Spec bad_regex_declaration)) \<noteq> []"
    by (simp_all add: bad_regex_declaration_def a_declaration_def no_selector_def
        no_templates_def)
  have d2: "om_DeletionTimestamp no_template_declaration = None"
    "FinalizerName \<in> set (om_Finalizers no_template_declaration)"
    "Roles (spec_RBACTemplates (Spec no_template_declaration)) = []"
    "ClusterRoles (spec_RBACTemplates (Spec no_template_declaration)) = []"
    "RoleBindings (spec_RBACTemplates (Spec no_template_declaration)) = []"
    "ClusterRoleBindings (spec_RBACTemplates (Spec no_template_declaration)) = []"
    by (simp_all add: no_template_declaration_def a_declaration_def no_selector_def
        no_templates_def)
  have c: "Compile stub_regexp ''[invalid''
             = Some (LibError ''error parsing regexp: missing closing ]'')"
    "Compile stub_regexp ''^test-.*'' = None"
    by (simp_all add: stub_regexp_def)
  from invalid_declaration_degraded [of "serving bad_regex_declaration" team_request world0
      bad_regex_declaration "world0\<lparr>calls := [CallGetConfig team_request]\<rparr>" stub_regexp
      fragment_engine] g1 d1 c
  have r1: "\<exists>config'.
         issued world0
           (snd (NamespaceRBACConfigReconciler_Reconcile stub_regexp fragment_engine
                   (serving bad_regex_declaration) team_request world0))
           = [CallGetConfig team_request, CallUpdateConfigStatus config', CallListConfigs]
         \<and> condition_status (Conditions (Status config')) ConditionTypeDegraded = Some ConditionTrue
         \<and> condition_status (Conditions (Status config')) ConditionTypeReady = Some ConditionFalse
         \<and> condition_status (Conditions (Status config')) ConditionTypeProgressing
             = Some ConditionFalse"
    by blast
  from invalid_declaration_degraded [of "serving no_template_declaration" team_request world0
      no_template_declaration "world0\<lparr>calls := [CallGetConfig team_request]\<rparr>" stub_regexp
      fragment_engine] g2 d2
  have r2: "\<exists>config'.
         issued world0
           (snd (NamespaceRBACConfigReconciler_Reconcile stub_regexp fragment_engine
                   (serving no_template_declaration) team_request world0))
           = [CallGetConfig team_request, CallUpdateConfigStatus config', CallListConfigs]
         \<and> condition_status (Conditions (Status config')) ConditionTypeDegraded = Some ConditionTrue
         \<and> condition_status (Conditions (Status config')) ConditionTypeReady = Some ConditionFalse
         \<and> condition_status (Conditions (Status config')) ConditionTypeProgressing
             = Some ConditionFalse"
    by blast
  show ?thesis using g1 g2 d1 d2 c r1 r2 by (intro conjI) assumption+
qed

lemma cleanupClusterRoles_noop: "cleanupClusterRoles ts namespaceName config w = (None, w)"
  by (induction ts) (simp_all add: cleanupClusterRoleIfOrphaned_def split: option.splits)

lemma cleanupClusterRoleBindings_noop:
  "cleanupClusterRoleBindings ts namespaceName config w = (None, w)"
  by (induction ts) (simp_all add: cleanupClusterRoleBindingIfOrphaned_def split: option.splits)

lemma CleanupRBACForNamespace_noop: "CleanupRBACForNamespace namespaceName config w = (None, w)"
  by (simp add: CleanupRBACForNamespace_def cleanupClusterRoles_noop
      cleanupClusterRoleBindings_noop)

lemma ApplyRBACForNamespace_frame:
  "ApplyRBACForNamespace engine cl ns config w = (r, w') \<Longrightarrow>
     logs w' = logs w \<and> health w' = health w"
  using ApplyRBACForNamespace_extends [where Q = "\<lambda>l. True"] extends_frame by blast

lemma handleNamespaceCreateOrUpdate_loop_visits:
  "\<exists>new. logs (handleNamespaceCreateOrUpdate_loop re engine cl namespace items w) = logs w @ new
           \<and> length (filter visit new) = length items"
proof (induction items arbitrary: w)
  case Nil
  then show ?case by simp
next
  case (Cons config rest)
  obtain b e where m: "NamespaceMatches re namespace (spec_NamespaceSelector (Spec config)) = (b, e)"
    by (cases "NamespaceMatches re namespace (spec_NamespaceSelector (Spec config))")
  obtain r w1 where a: "ApplyRBACForNamespace engine cl namespace config
                          (logInfo ''Applying RBAC for namespace'' w) = (r, w1)"
    by (cases "ApplyRBACForNamespace engine cl namespace config
                 (logInfo ''Applying RBAC for namespace'' w)")
  have l1: "logs w1 = logs w @ [LogInfo ''Applying RBAC for namespace'']"
    using ApplyRBACForNamespace_frame [OF a] by (simp add: logInfo_def)
  obtain w2 where step: "handleNamespaceCreateOrUpdate_loop re engine cl namespace (config # rest) w
      = handleNamespaceCreateOrUpdate_loop re engine cl namespace rest w2"
    and l2: "\<exists>extra. logs w2 = logs w @ extra \<and> length (filter visit extra) = 1"
    using m a l1
    by (cases e; cases b; cases r)
       (auto simp: CleanupRBACForNamespace_noop logInfo_def logError_def visit_def)
  from l2 obtain extra where x: "logs w2 = logs w @ extra" "length (filter visit extra) = 1"
    by blast
  from Cons.IH [of w2] obtain new where
    n: "logs (handleNamespaceCreateOrUpdate_loop re engine cl namespace rest w2) = logs w2 @ new"
       "length (filter visit new) = length rest"
    by blast
  show ?case using step x n by (intro exI [of _ "extra @ new"]) simp
qed

lemma sent_role_meta:
  "om_Name (sent_role config role existing) = om_Name role"
  "om_Namespace (sent_role config role existing) = om_Namespace role"
  by (simp_all add: sent_role_def)

lemma sent_role_binding_meta:
  "om_Name (sent_role_binding config roleBinding existing) = om_Name roleBinding"
  "om_Namespace (sent_role_binding config roleBinding existing) = om_Namespace roleBinding"
  by (simp_all add: sent_role_binding_def)

lemma createOrUpdateRole_loop_fetch_error:
  assumes "i < retry"
    and "GetRole cl (om_Namespace role) (om_Name role) w = (Inl err, w1)"
    and "\<not> IsNotFound err"
  shows "createOrUpdateRole_loop cl retry i role config w = (Some err, w1)"
  using assms by (simp add: createOrUpdateRole_loop.simps [of cl retry i])

lemma createOrUpdateRole_loop_update:
  assumes "i < retry"
    and "GetRole cl (om_Namespace role) (om_Name role) w = (Inr existing, w1)"
    and "mergeStrategyOf config = MergeStrategyReplace \<or> mergeStrategyOf config = MergeStrategyMerge"
    and "UpdateRole cl (sent_role config role existing) w1 = (e, w2)"
  shows "createOrUpdateRole_loop cl retry i role config w =
           (case e of
              None \<Rightarrow> (None, w2)
            | Some err \<Rightarrow>
                if IsConflict err
                then createOrUpdateRole_loop cl retry (Suc i) (sent_role config role existing)
                       config w2
                else (Some err, w2))"
  using assms
  by (auto simp: createOrUpdateRole_loop.simps [of cl retry i] sent_role_def Let_def
      split: option.splits)

lemma createOrUpdateRole_loop_conflict:
  assumes "i < retry"
    and "GetRole cl (om_Namespace role) (om_Name role) w = (Inr existing, w1)"
    and "mergeStrategyOf config = MergeStrategyReplace \<or> mergeStrategyOf config = MergeStrategyMerge"
    and "UpdateRole cl (sent_role config role existing) w1 = (Some err, w2)"
    and "IsConflict err"
  shows "createOrUpdateRole_loop cl retry i role config w =
           createOrUpdateRole_loop cl retry (Suc i) (sent_role config role existing) config w2"
  using createOrUpdateRole_loop_update [OF assms(1-4)] assms(5) by simp

lemma createOrUpdateRole_loop_settled:
  assumes "i < retry"
    and "GetRole cl (om_Namespace role) (om_Name role) w = (Inr existing, w1)"
    and "mergeStrategyOf config = MergeStrategyReplace \<or> mergeStrategyOf config = MergeStrategyMerge"
    and "UpdateRole cl (sent_role config role existing) w1 = (e, w2)"
    and "\<forall>err. e = Some err \<longrightarrow> \<not> IsConflict err"
  shows "createOrUpdateRole_loop cl retry i role config w = (e, w2)"
  using createOrUpdateRole_loop_update [OF assms(1-4)] assms(5)
  by (cases e) simp_all

lemma createOrUpdateRole_loop_exhausted:
  "createOrUpdateRole_loop cl 3 3 role config w =
     (Some (Errorf ''failed to update role after 3 retries due to conflicts''), w)"
  by (simp add: createOrUpdateRole_loop.simps [of cl 3 3] decimal_3)

lemma createOrUpdateRoleBinding_loop_fetch_error:
  assumes "i < retry"
    and "GetRoleBinding cl (om_Namespace roleBinding) (om_Name roleBinding) w = (Inl err, w1)"
    and "\<not> IsNotFound err"
  shows "createOrUpdateRoleBinding_loop cl retry i roleBinding config w = (Some err, w1)"
  using assms by (simp add: createOrUpdateRoleBinding_loop.simps [of cl retry i])

lemma createOrUpdateRoleBinding_loop_update:
  assumes "i < retry"
    and "GetRoleBinding cl (om_Namespace roleBinding) (om_Name roleBinding) w = (Inr existing, w1)"
    and "mergeStrategyOf config = MergeStrategyReplace \<or> mergeStrategyOf config = MergeStrategyMerge"
    and "UpdateRoleBinding cl (sent_role_binding config roleBinding existing) w1 = (e, w2)"
  shows "createOrUpdateRoleBinding_loop cl retry i roleBinding config w =
           (case e of
              None \<Rightarrow> (None, w2)
            | Some err \<Rightarrow>
                if IsConflict err
                then createOrUpdateRoleBinding_loop cl retry (Suc i)
                       (sent_role_binding config roleBinding existing) config w2
                else (Some err, w2))"
  using assms
  by (auto simp: createOrUpdateRoleBinding_loop.simps [of cl retry i] sent_role_binding_def Let_def
      split: option.splits)

lemma createOrUpdateRoleBinding_loop_conflict:
  assumes "i < retry"
    and "GetRoleBinding cl (om_Namespace roleBinding) (om_Name roleBinding) w = (Inr existing, w1)"
    and "mergeStrategyOf config = MergeStrategyReplace \<or> mergeStrategyOf config = MergeStrategyMerge"
    and "UpdateRoleBinding cl (sent_role_binding config roleBinding existing) w1 = (Some err, w2)"
    and "IsConflict err"
  shows "createOrUpdateRoleBinding_loop cl retry i roleBinding config w =
           createOrUpdateRoleBinding_loop cl retry (Suc i)
             (sent_role_binding config roleBinding existing) config w2"
  using createOrUpdateRoleBinding_loop_update [OF assms(1-4)] assms(5) by simp

lemma createOrUpdateRoleBinding_loop_settled:
  assumes "i < retry"
    and "GetRoleBinding cl (om_Namespace roleBinding) (om_Name roleBinding) w = (Inr existing, w1)"
    and "mergeStrategyOf config = MergeStrategyReplace \<or> mergeStrategyOf config = MergeStrategyMerge"
    and "UpdateRoleBinding cl (sent_role_binding config roleBinding existing) w1 = (e, w2)"
    and "\<forall>err. e = Some err \<longrightarrow> \<not> IsConflict err"
  shows "createOrUpdateRoleBinding_loop cl retry i roleBinding config w = (e, w2)"
  using createOrUpdateRoleBinding_loop_update [OF assms(1-4)] assms(5)
  by (cases e) simp_all

lemma createOrUpdateRoleBinding_loop_exhausted:
  "createOrUpdateRoleBinding_loop cl 3 3 roleBinding config w =
     (Some (Errorf ''failed to update rolebinding after 3 retries due to conflicts''), w)"
  by (simp add: createOrUpdateRoleBinding_loop.simps [of cl 3 3] decimal_3)

lemma createOrUpdateRole_attempts:
  "(GetRole cl (om_Namespace role) (om_Name role) w = (Inl err, a1) \<and> \<not> IsNotFound err
      \<longrightarrow> createOrUpdateRole cl role config w = (Some err, a1))
   \<and> ((mergeStrategyOf config = MergeStrategyReplace \<or> mergeStrategyOf config = MergeStrategyMerge)
       \<and> GetRole cl (om_Namespace role) (om_Name role) w = (Inr x1, a1)
       \<and> UpdateRole cl (sent_role config role x1) a1 = (e1, a2)
      \<longrightarrow> (\<not> conflicted e1 \<longrightarrow> createOrUpdateRole cl role config w = (e1, a2))
        \<and> (conflicted e1 \<longrightarrow>
             (GetRole cl (om_Namespace role) (om_Name role) a2 = (Inl err, a3) \<and> \<not> IsNotFound err
                \<longrightarrow> createOrUpdateRole cl role config w = (Some err, a3))
           \<and> (GetRole cl (om_Namespace role) (om_Name role) a2 = (Inr x2, a3)
               \<and> UpdateRole cl (sent_role config (sent_role config role x1) x2) a3 = (e2, a4)
              \<longrightarrow> (\<not> conflicted e2 \<longrightarrow> createOrUpdateRole cl role config w = (e2, a4))
                \<and> (conflicted e2 \<longrightarrow>
                     (GetRole cl (om_Namespace role) (om_Name role) a4 = (Inl err, a5)
                       \<and> \<not> IsNotFound err
                        \<longrightarrow> createOrUpdateRole cl role config w = (Some err, a5))
                   \<and> (GetRole cl (om_Namespace role) (om_Name role) a4 = (Inr x3, a5)
                       \<and> UpdateRole cl
                            (sent_role config (sent_role config (sent_role config role x1) x2) x3)
                            a5 = (e3, a6)
                      \<longrightarrow> (\<not> conflicted e3 \<longrightarrow> createOrUpdateRole cl role config w = (e3, a6))
                        \<and> (conflicted e3 \<longrightarrow>
                             createOrUpdateRole cl role config w =
                               (Some (Errorf ''failed to update role after 3 retries due to conflicts''),
                                a6)))))))"
proof -
  let ?r1 = "sent_role config role x1"
  let ?r2 = "sent_role config ?r1 x2"
  let ?r3 = "sent_role config ?r2 x3"
  let ?S = "mergeStrategyOf config = MergeStrategyReplace \<or> mergeStrategyOf config = MergeStrategyMerge"
  have settle: "createOrUpdateRole_loop cl 3 i r config v = (e, v2)"
    if "i < 3" "GetRole cl (om_Namespace r) (om_Name r) v = (Inr x, v1)" ?S
      "UpdateRole cl (sent_role config r x) v1 = (e, v2)" "\<not> conflicted e"
    for i r v x v1 e v2
    using that by (intro createOrUpdateRole_loop_settled) (auto simp: conflicted_def)
  have again: "createOrUpdateRole_loop cl 3 i r config v
                 = createOrUpdateRole_loop cl 3 (Suc i) (sent_role config r x) config v2"
    if "i < 3" "GetRole cl (om_Namespace r) (om_Name r) v = (Inr x, v1)" ?S
      "UpdateRole cl (sent_role config r x) v1 = (e, v2)" "conflicted e"
    for i r v x v1 e v2
  proof -
    from that(5) obtain c where "e = Some c" "IsConflict c"
      by (auto simp: conflicted_def split: option.splits)
    then show ?thesis using that by (intro createOrUpdateRole_loop_conflict) auto
  qed
  have f1: "createOrUpdateRole cl role config w = (Some err, a1)"
    if "GetRole cl (om_Namespace role) (om_Name role) w = (Inl err, a1)" "\<not> IsNotFound err"
    using that by (simp add: createOrUpdateRole_def createOrUpdateRole_loop_fetch_error)
  have rest: "(\<not> conflicted e1 \<longrightarrow> createOrUpdateRole cl role config w = (e1, a2))
        \<and> (conflicted e1 \<longrightarrow>
             (GetRole cl (om_Namespace role) (om_Name role) a2 = (Inl err, a3) \<and> \<not> IsNotFound err
                \<longrightarrow> createOrUpdateRole cl role config w = (Some err, a3))
           \<and> (GetRole cl (om_Namespace role) (om_Name role) a2 = (Inr x2, a3)
               \<and> UpdateRole cl ?r2 a3 = (e2, a4)
              \<longrightarrow> (\<not> conflicted e2 \<longrightarrow> createOrUpdateRole cl role config w = (e2, a4))
                \<and> (conflicted e2 \<longrightarrow>
                     (GetRole cl (om_Namespace role) (om_Name role) a4 = (Inl err, a5)
                       \<and> \<not> IsNotFound err
                        \<longrightarrow> createOrUpdateRole cl role config w = (Some err, a5))
                   \<and> (GetRole cl (om_Namespace role) (om_Name role) a4 = (Inr x3, a5)
                       \<and> UpdateRole cl ?r3 a5 = (e3, a6)
                      \<longrightarrow> (\<not> conflicted e3 \<longrightarrow> createOrUpdateRole cl role config w = (e3, a6))
                        \<and> (conflicted e3 \<longrightarrow>
                             createOrUpdateRole cl role config w =
                               (Some (Errorf ''failed to update role after 3 retries due to conflicts''),
                                a6))))))"
    if S: ?S and g1: "GetRole cl (om_Namespace role) (om_Name role) w = (Inr x1, a1)"
      and u1: "UpdateRole cl ?r1 a1 = (e1, a2)"
  proof (intro conjI impI; (elim conjE)?)
    assume "\<not> conflicted e1"
    then show "createOrUpdateRole cl role config w = (e1, a2)"
      using settle [of 0, OF _ g1 S u1] by (simp add: createOrUpdateRole_def)
  next
    assume c1: "conflicted e1"
    have s1: "createOrUpdateRole cl role config w = createOrUpdateRole_loop cl 3 1 ?r1 config a2"
      using again [of 0, OF _ g1 S u1 c1] by (simp add: createOrUpdateRole_def)
    {
      assume "GetRole cl (om_Namespace role) (om_Name role) a2 = (Inl err, a3)" "\<not> IsNotFound err"
      then show "createOrUpdateRole cl role config w = (Some err, a3)"
        using s1 by (simp add: createOrUpdateRole_loop_fetch_error sent_role_meta)
    }
    {
      assume g2: "GetRole cl (om_Namespace role) (om_Name role) a2 = (Inr x2, a3)"
        and u2: "UpdateRole cl ?r2 a3 = (e2, a4)"
      have g2': "GetRole cl (om_Namespace ?r1) (om_Name ?r1) a2 = (Inr x2, a3)"
        using g2 by (simp add: sent_role_meta)
      {
        assume "\<not> conflicted e2"
        then show "createOrUpdateRole cl role config w = (e2, a4)"
          using s1 settle [of 1, OF _ g2' S u2] by simp
      }
      assume c2: "conflicted e2"
      have s2: "createOrUpdateRole cl role config w = createOrUpdateRole_loop cl 3 2 ?r2 config a4"
        using s1 again [of 1, OF _ g2' S u2 c2] by (simp add: numeral_2_eq_2)
      {
        assume "GetRole cl (om_Namespace role) (om_Name role) a4 = (Inl err, a5)" "\<not> IsNotFound err"
        then show "createOrUpdateRole cl role config w = (Some err, a5)"
          using s2 by (simp add: createOrUpdateRole_loop_fetch_error sent_role_meta)
      }
      assume g3: "GetRole cl (om_Namespace role) (om_Name role) a4 = (Inr x3, a5)"
        and u3: "UpdateRole cl ?r3 a5 = (e3, a6)"
      have g3': "GetRole cl (om_Namespace ?r2) (om_Name ?r2) a4 = (Inr x3, a5)"
        using g3 by (simp add: sent_role_meta)
      {
        assume "\<not> conflicted e3"
        then show "createOrUpdateRole cl role config w = (e3, a6)"
          using s2 settle [of 2, OF _ g3' S u3] by simp
      }
      assume c3: "conflicted e3"
      have "Suc 2 = (3::nat)" by simp
      then show "createOrUpdateRole cl role config w =
          (Some (Errorf ''failed to update role after 3 retries due to conflicts''), a6)"
        using s2 again [of 2, OF _ g3' S u3 c3] by (simp add: createOrUpdateRole_loop_exhausted)
    }
  qed
  show ?thesis using f1 rest by blast
qed

lemma createOrUpdateRoleBinding_attempts:
  "(GetRoleBinding cl (om_Namespace roleBinding) (om_Name roleBinding) w = (Inl err, a1) \<and> \<not> IsNotFound err
      \<longrightarrow> createOrUpdateRoleBinding cl roleBinding config w = (Some err, a1))
   \<and> ((mergeStrategyOf config = MergeStrategyReplace \<or> mergeStrategyOf config = MergeStrategyMerge)
       \<and> GetRoleBinding cl (om_Namespace roleBinding) (om_Name roleBinding) w = (Inr y1, a1)
       \<and> UpdateRoleBinding cl (sent_role_binding config roleBinding y1) a1 = (e1, a2)
      \<longrightarrow> (\<not> conflicted e1 \<longrightarrow> createOrUpdateRoleBinding cl roleBinding config w = (e1, a2))
        \<and> (conflicted e1 \<longrightarrow>
             (GetRoleBinding cl (om_Namespace roleBinding) (om_Name roleBinding) a2 = (Inl err, a3) \<and> \<not> IsNotFound err
                \<longrightarrow> createOrUpdateRoleBinding cl roleBinding config w = (Some err, a3))
           \<and> (GetRoleBinding cl (om_Namespace roleBinding) (om_Name roleBinding) a2 = (Inr y2, a3)
               \<and> UpdateRoleBinding cl (sent_role_binding config (sent_role_binding config roleBinding y1) y2) a3 = (e2, a4)
              \<longrightarrow> (\<not> conflicted e2 \<longrightarrow> createOrUpdateRoleBinding cl roleBinding config w = (e2, a4))
                \<and> (conflicted e2 \<longrightarrow>
                     (GetRoleBinding cl (om_Namespace roleBinding) (om_Name roleBinding) a4 = (Inl err, a5)
                       \<and> \<not> IsNotFound err
                        \<longrightarrow> createOrUpdateRoleBinding cl roleBinding config w = (Some err, a5))
                   \<and> (GetRoleBinding cl (om_Namespace roleBinding) (om_Name roleBinding) a4 = (Inr y3, a5)
                       \<and> UpdateRoleBinding cl
                            (sent_role_binding config (sent_role_binding config (sent_role_binding config roleBinding y1) y2) y3)
                            a5 = (e3, a6)
                      \<longrightarrow> (\<not> conflicted e3 \<longrightarrow> createOrUpdateRoleBinding cl roleBinding config w = (e3, a6))
                        \<and> (conflicted e3 \<longrightarrow>
                             createOrUpdateRoleBinding cl roleBinding config w =
                               (Some (Errorf ''failed to update rolebinding after 3 retries due to conflicts''),
                                a6)))))))"
proof -
  let ?r1 = "sent_role_binding config roleBinding y1"
  let ?r2 = "sent_role_binding config ?r1 y2"
  let ?r3 = "sent_role_binding config ?r2 y3"
  let ?S = "mergeStrategyOf config = MergeStrategyReplace \<or> mergeStrategyOf config = MergeStrategyMerge"
  have settle: "createOrUpdateRoleBinding_loop cl 3 i r config v = (e, v2)"
    if "i < 3" "GetRoleBinding cl (om_Namespace r) (om_Name r) v = (Inr x, v1)" ?S
      "UpdateRoleBinding cl (sent_role_binding config r x) v1 = (e, v2)" "\<not> conflicted e"
    for i r v x v1 e v2
    using that by (intro createOrUpdateRoleBinding_loop_settled) (auto simp: conflicted_def)
  have again: "createOrUpdateRoleBinding_loop cl 3 i r config v
                 = createOrUpdateRoleBinding_loop cl 3 (Suc i) (sent_role_binding config r x) config v2"
    if "i < 3" "GetRoleBinding cl (om_Namespace r) (om_Name r) v = (Inr x, v1)" ?S
      "UpdateRoleBinding cl (sent_role_binding config r x) v1 = (e, v2)" "conflicted e"
    for i r v x v1 e v2
  proof -
    from that(5) obtain c where "e = Some c" "IsConflict c"
      by (auto simp: conflicted_def split: option.splits)
    then show ?thesis using that by (intro createOrUpdateRoleBinding_loop_conflict) auto
  qed
  have f1: "createOrUpdateRoleBinding cl roleBinding config w = (Some err, a1)"
    if "GetRoleBinding cl (om_Namespace roleBinding) (om_Name roleBinding) w = (Inl err, a1)" "\<not> IsNotFound err"
    using that by (simp add: createOrUpdateRoleBinding_def createOrUpdateRoleBinding_loop_fetch_error)
  have rest: "(\<not> conflicted e1 \<longrightarrow> createOrUpdateRoleBinding cl roleBinding config w = (e1, a2))
        \<and> (conflicted e1 \<longrightarrow>
             (GetRoleBinding cl (om_Namespace roleBinding) (om_Name roleBinding) a2 = (Inl err, a3) \<and> \<not> IsNotFound err
                \<longrightarrow> createOrUpdateRoleBinding cl roleBinding config w = (Some err, a3))
           \<and> (GetRoleBinding cl (om_Namespace roleBinding) (om_Name roleBinding) a2 = (Inr y2, a3)
               \<and> UpdateRoleBinding cl ?r2 a3 = (e2, a4)
              \<longrightarrow> (\<not> conflicted e2 \<longrightarrow> createOrUpdateRoleBinding cl roleBinding config w = (e2, a4))
                \<and> (conflicted e2 \<longrightarrow>
                     (GetRoleBinding cl (om_Namespace roleBinding) (om_Name roleBinding) a4 = (Inl err, a5)
                       \<and> \<not> IsNotFound err
                        \<longrightarrow> createOrUpdateRoleBinding cl roleBinding config w = (Some err, a5))
                   \<and> (GetRoleBinding cl (om_Namespace roleBinding) (om_Name roleBinding) a4 = (Inr y3, a5)
                       \<and> UpdateRoleBinding cl ?r3 a5 = (e3, a6)
                      \<longrightarrow> (\<not> conflicted e3 \<longrightarrow> createOrUpdateRoleBinding cl roleBinding config w = (e3, a6))
                        \<and> (conflicted e3 \<longrightarrow>
                             createOrUpdateRoleBinding cl roleBinding config w =
                               (Some (Errorf ''failed to update rolebinding after 3 retries due to conflicts''),
                                a6))))))"
    if S: ?S and g1: "GetRoleBinding cl (om_Namespace roleBinding) (om_Name roleBinding) w = (Inr y1, a1)"
      and u1: "UpdateRoleBinding cl ?r1 a1 = (e1, a2)"
  proof (intro conjI impI; (elim conjE)?)
    assume "\<not> conflicted e1"
    then show "createOrUpdateRoleBinding cl roleBinding config w = (e1, a2)"
      using settle [of 0, OF _ g1 S u1] by (simp add: createOrUpdateRoleBinding_def)
  next
    assume c1: "conflicted e1"
    have s1: "createOrUpdateRoleBinding cl roleBinding config w = createOrUpdateRoleBinding_loop cl 3 1 ?r1 config a2"
      using again [of 0, OF _ g1 S u1 c1] by (simp add: createOrUpdateRoleBinding_def)
    {
      assume "GetRoleBinding cl (om_Namespace roleBinding) (om_Name roleBinding) a2 = (Inl err, a3)" "\<not> IsNotFound err"
      then show "createOrUpdateRoleBinding cl roleBinding config w = (Some err, a3)"
        using s1 by (simp add: createOrUpdateRoleBinding_loop_fetch_error sent_role_binding_meta)
    }
    {
      assume g2: "GetRoleBinding cl (om_Namespace roleBinding) (om_Name roleBinding) a2 = (Inr y2, a3)"
        and u2: "UpdateRoleBinding cl ?r2 a3 = (e2, a4)"
      have g2': "GetRoleBinding cl (om_Namespace ?r1) (om_Name ?r1) a2 = (Inr y2, a3)"
        using g2 by (simp add: sent_role_binding_meta)
      {
        assume "\<not> conflicted e2"
        then show "createOrUpdateRoleBinding cl roleBinding config w = (e2, a4)"
          using s1 settle [of 1, OF _ g2' S u2] by simp
      }
      assume c2: "conflicted e2"
      have s2: "createOrUpdateRoleBinding cl roleBinding config w = createOrUpdateRoleBinding_loop cl 3 2 ?r2 config a4"
        using s1 again [of 1, OF _ g2' S u2 c2] by (simp add: numeral_2_eq_2)
      {
        assume "GetRoleBinding cl (om_Namespace roleBinding) (om_Name roleBinding) a4 = (Inl err, a5)" "\<not> IsNotFound err"
        then show "createOrUpdateRoleBinding cl roleBinding config w = (Some err, a5)"
          using s2 by (simp add: createOrUpdateRoleBinding_loop_fetch_error sent_role_binding_meta)
      }
      assume g3: "GetRoleBinding cl (om_Namespace roleBinding) (om_Name roleBinding) a4 = (Inr y3, a5)"
        and u3: "UpdateRoleBinding cl ?r3 a5 = (e3, a6)"
      have g3': "GetRoleBinding cl (om_Namespace ?r2) (om_Name ?r2) a4 = (Inr y3, a5)"
        using g3 by (simp add: sent_role_binding_meta)
      {
        assume "\<not> conflicted e3"
        then show "createOrUpdateRoleBinding cl roleBinding config w = (e3, a6)"
          using s2 settle [of 2, OF _ g3' S u3] by simp
      }
      assume c3: "conflicted e3"
      have "Suc 2 = (3::nat)" by simp
      then show "createOrUpdateRoleBinding cl roleBinding config w =
          (Some (Errorf ''failed to update rolebinding after 3 retries due to conflicts''), a6)"
        using s2 again [of 2, OF _ g3' S u3 c3] by (simp add: createOrUpdateRoleBinding_loop_exhausted)
    }
  qed
  show ?thesis using f1 rest by blast
qed

text \<open>
  C5. The create-or-update of a Role or of a RoleBinding makes at most three attempts, each a
  fetch followed by at most one write. At each attempt a fetch error other than not-found is
  returned at once, and the result of the update is returned unless it is a version
  conflict; after a conflict the next attempt starts again from the fetch, with the object
  as just sent; after the third conflict the terminal error is returned. The
  create-or-update of a ClusterRole or of a ClusterRoleBinding makes one attempt: it returns
  a fetch error other than not-found, and otherwise the result of its update whatever it
  is, a conflict included.
\<close>

theorem bounded_conflict_retry:
  "(GetRole cl (om_Namespace role) (om_Name role) w = (Inl err, a1) \<and> \<not> IsNotFound err
      \<longrightarrow> createOrUpdateRole cl role config w = (Some err, a1))
   \<and> ((mergeStrategyOf config = MergeStrategyReplace \<or> mergeStrategyOf config = MergeStrategyMerge)
       \<and> GetRole cl (om_Namespace role) (om_Name role) w = (Inr x1, a1)
       \<and> UpdateRole cl (sent_role config role x1) a1 = (e1, a2)
      \<longrightarrow> (\<not> conflicted e1 \<longrightarrow> createOrUpdateRole cl role config w = (e1, a2))
        \<and> (conflicted e1 \<longrightarrow>
             (GetRole cl (om_Namespace role) (om_Name role) a2 = (Inl err, a3) \<and> \<not> IsNotFound err
                \<longrightarrow> createOrUpdateRole cl role config w = (Some err, a3))
           \<and> (GetRole cl (om_Namespace role) (om_Name role) a2 = (Inr x2, a3)
               \<and> UpdateRole cl (sent_role config (sent_role config role x1) x2) a3 = (e2, a4)
              \<longrightarrow> (\<not> conflicted e2 \<longrightarrow> createOrUpdateRole cl role config w = (e2, a4))
                \<and> (conflicted e2 \<longrightarrow>
                     (GetRole cl (om_Namespace role) (om_Name role) a4 = (Inl err, a5)
                       \<and> \<not> IsNotFound err
                        \<longrightarrow> createOrUpdateRole cl role config w = (Some err, a5))
                   \<and> (GetRole cl (om_Namespace role) (om_Name role) a4 = (Inr x3, a5)
                       \<and> UpdateRole cl
                            (sent_role config (sent_role config (sent_role config role x1) x2) x3)
                            a5 = (e3, a6)
                      \<longrightarrow> (\<not> conflicted e3 \<longrightarrow> createOrUpdateRole cl role config w = (e3, a6))
                        \<and> (conflicted e3 \<longrightarrow>
                             createOrUpdateRole cl role config w =
                               (Some (Errorf ''failed to update role after 3 retries due to conflicts''),
                                a6)))))))
   \<and> length (filter is_fetch (issued w (snd (createOrUpdateRole cl role config w)))) \<le> 3
   \<and> length (filter is_write (issued w (snd (createOrUpdateRole cl role config w)))) \<le> 3
   \<and> (GetRoleBinding cl (om_Namespace rb) (om_Name rb) w = (Inl err, a1) \<and> \<not> IsNotFound err
      \<longrightarrow> createOrUpdateRoleBinding cl rb config w = (Some err, a1))
   \<and> ((mergeStrategyOf config = MergeStrategyReplace \<or> mergeStrategyOf config = MergeStrategyMerge)
       \<and> GetRoleBinding cl (om_Namespace rb) (om_Name rb) w = (Inr y1, a1)
       \<and> UpdateRoleBinding cl (sent_role_binding config rb y1) a1 = (e1, a2)
      \<longrightarrow> (\<not> conflicted e1 \<longrightarrow> createOrUpdateRoleBinding cl rb config w = (e1, a2))
        \<and> (conflicted e1 \<longrightarrow>
             (GetRoleBinding cl (om_Namespace rb) (om_Name rb) a2 = (Inl err, a3)
               \<and> \<not> IsNotFound err
                \<longrightarrow> createOrUpdateRoleBinding cl rb config w = (Some err, a3))
           \<and> (GetRoleBinding cl (om_Namespace rb) (om_Name rb) a2 = (Inr y2, a3)
               \<and> UpdateRoleBinding cl
                    (sent_role_binding config (sent_role_binding config rb y1) y2) a3 = (e2, a4)
              \<longrightarrow> (\<not> conflicted e2 \<longrightarrow> createOrUpdateRoleBinding cl rb config w = (e2, a4))
                \<and> (conflicted e2 \<longrightarrow>
                     (GetRoleBinding cl (om_Namespace rb) (om_Name rb) a4 = (Inl err, a5)
                       \<and> \<not> IsNotFound err
                        \<longrightarrow> createOrUpdateRoleBinding cl rb config w = (Some err, a5))
                   \<and> (GetRoleBinding cl (om_Namespace rb) (om_Name rb) a4 = (Inr y3, a5)
                       \<and> UpdateRoleBinding cl
                            (sent_role_binding config
                               (sent_role_binding config (sent_role_binding config rb y1) y2) y3)
                            a5 = (e3, a6)
                      \<longrightarrow> (\<not> conflicted e3
                            \<longrightarrow> createOrUpdateRoleBinding cl rb config w = (e3, a6))
                        \<and> (conflicted e3 \<longrightarrow>
                             createOrUpdateRoleBinding cl rb config w =
                               (Some (Errorf
                                  ''failed to update rolebinding after 3 retries due to conflicts''),
                                a6)))))))
   \<and> length (filter is_fetch (issued w (snd (createOrUpdateRoleBinding cl rb config w)))) \<le> 3
   \<and> length (filter is_write (issued w (snd (createOrUpdateRoleBinding cl rb config w)))) \<le> 3
   \<and> (GetClusterRole cl (om_Name cr) w = (Inl err, a1) \<and> \<not> IsNotFound err
      \<longrightarrow> createOrUpdateClusterRole cl cr config w = (Some err, a1))
   \<and> (GetClusterRole cl (om_Name cr) w = (Inr existingC, a1)
        \<and> (mergeStrategyOf config = MergeStrategyReplace \<or> mergeStrategyOf config = MergeStrategyMerge)
      \<longrightarrow> createOrUpdateClusterRole cl cr config w
            = UpdateClusterRole cl (sent_cluster_role config cr existingC) a1)
   \<and> length (filter is_fetch (issued w (snd (createOrUpdateClusterRole cl cr config w)))) \<le> 1
   \<and> length (filter is_write (issued w (snd (createOrUpdateClusterRole cl cr config w)))) \<le> 1
   \<and> (GetClusterRoleBinding cl (om_Name crb) w = (Inl err, a1) \<and> \<not> IsNotFound err
      \<longrightarrow> createOrUpdateClusterRoleBinding cl crb config w = (Some err, a1))
   \<and> (GetClusterRoleBinding cl (om_Name crb) w = (Inr existingD, a1)
        \<and> (mergeStrategyOf config = MergeStrategyReplace \<or> mergeStrategyOf config = MergeStrategyMerge)
      \<longrightarrow> createOrUpdateClusterRoleBinding cl crb config w
            = UpdateClusterRoleBinding cl (sent_cluster_role_binding config crb existingD) a1)
   \<and> length (filter is_fetch (issued w (snd (createOrUpdateClusterRoleBinding cl crb config w)))) \<le> 1
   \<and> length (filter is_write (issued w (snd (createOrUpdateClusterRoleBinding cl crb config w)))) \<le> 1"
proof -
  note r = createOrUpdateRole_attempts [of cl role w err a1 config x1 e1 a2 a3 x2 e2 a4 a5 x3 e3 a6]
  note b = createOrUpdateRoleBinding_attempts
             [of cl rb w err a1 config y1 e1 a2 a3 y2 e2 a4 a5 y3 e3 a6]
  have r4: "length (filter is_fetch (issued w (snd (createOrUpdateRole cl role config w)))) \<le> 3
    \<and> length (filter is_write (issued w (snd (createOrUpdateRole cl role config w)))) \<le> 3"
    using createOrUpdateRole_loop_within [of cl 3 0 role config w, OF surjective_pairing]
    by (simp add: createOrUpdateRole_def within_issued)
  have b4: "length (filter is_fetch (issued w (snd (createOrUpdateRoleBinding cl rb config w)))) \<le> 3
    \<and> length (filter is_write (issued w (snd (createOrUpdateRoleBinding cl rb config w)))) \<le> 3"
    using createOrUpdateRoleBinding_loop_within [of cl 3 0 rb config w, OF surjective_pairing]
    by (simp add: createOrUpdateRoleBinding_def within_issued)
  have c1: "GetClusterRole cl (om_Name cr) w = (Inl err, a1) \<and> \<not> IsNotFound err
      \<longrightarrow> createOrUpdateClusterRole cl cr config w = (Some err, a1)"
    by (simp add: createOrUpdateClusterRole_def)
  have c2: "GetClusterRole cl (om_Name cr) w = (Inr existingC, a1)
        \<and> (mergeStrategyOf config = MergeStrategyReplace \<or> mergeStrategyOf config = MergeStrategyMerge)
      \<longrightarrow> createOrUpdateClusterRole cl cr config w
            = UpdateClusterRole cl (sent_cluster_role config cr existingC) a1"
    by (auto simp: createOrUpdateClusterRole_def sent_cluster_role_def Let_def)
  have c3: "length (filter is_fetch (issued w (snd (createOrUpdateClusterRole cl cr config w)))) \<le> 1
   \<and> length (filter is_write (issued w (snd (createOrUpdateClusterRole cl cr config w)))) \<le> 1"
    using createOrUpdateClusterRole_within [of cl cr config w, OF surjective_pairing]
    by (simp add: within_issued)
  have d1: "GetClusterRoleBinding cl (om_Name crb) w = (Inl err, a1) \<and> \<not> IsNotFound err
      \<longrightarrow> createOrUpdateClusterRoleBinding cl crb config w = (Some err, a1)"
    by (simp add: createOrUpdateClusterRoleBinding_def)
  have d2: "GetClusterRoleBinding cl (om_Name crb) w = (Inr existingD, a1)
        \<and> (mergeStrategyOf config = MergeStrategyReplace \<or> mergeStrategyOf config = MergeStrategyMerge)
      \<longrightarrow> createOrUpdateClusterRoleBinding cl crb config w
            = UpdateClusterRoleBinding cl (sent_cluster_role_binding config crb existingD) a1"
    by (auto simp: createOrUpdateClusterRoleBinding_def sent_cluster_role_binding_def Let_def)
  have d3: "length (filter is_fetch (issued w (snd (createOrUpdateClusterRoleBinding cl crb config w)))) \<le> 1
   \<and> length (filter is_write (issued w (snd (createOrUpdateClusterRoleBinding cl crb config w)))) \<le> 1"
    using createOrUpdateClusterRoleBinding_within [of cl crb config w, OF surjective_pairing]
    by (simp add: within_issued)
  show ?thesis
    by (intro conjI r [THEN conjunct1] r [THEN conjunct2] r4 [THEN conjunct1] r4 [THEN conjunct2]
        b [THEN conjunct1] b [THEN conjunct2] b4 [THEN conjunct1] b4 [THEN conjunct2]
        c1 c2 c3 [THEN conjunct1] c3 [THEN conjunct2]
        d1 d2 d3 [THEN conjunct1] d3 [THEN conjunct2])
qed

lemmas binding_defs =
  once_contended_def held_role_binding_def new_role_binding_def held_cluster_role_binding_def
  new_cluster_role_binding_def contended_bindings_def refused_bindings_def conflicted_def

theorem bounded_conflict_retry_witness:
  "createOrUpdateRole contended_cluster new_role merge_declaration world0
     = (Some (Errorf ''failed to update role after 3 retries due to conflicts''),
        world0\<lparr>calls :=
          [CallGetRole ''test-ns'' ''test-role'',
           CallUpdateRole (sent_role merge_declaration new_role held_role),
           CallGetRole ''test-ns'' ''test-role'',
           CallUpdateRole
             (sent_role merge_declaration (sent_role merge_declaration new_role held_role)
                held_role),
           CallGetRole ''test-ns'' ''test-role'',
           CallUpdateRole
             (sent_role merge_declaration
                (sent_role merge_declaration (sent_role merge_declaration new_role held_role)
                   held_role)
                held_role)]\<rparr>)
   \<and> createOrUpdateRole once_contended new_role merge_declaration world0
     = (None,
        world0\<lparr>api := 2, calls :=
          [CallGetRole ''test-ns'' ''test-role'',
           CallUpdateRole (sent_role merge_declaration new_role held_role),
           CallGetRole ''test-ns'' ''test-role'',
           CallUpdateRole
             (sent_role merge_declaration (sent_role merge_declaration new_role held_role)
                held_role)]\<rparr>)
   \<and> role_Rules (sent_role merge_declaration (sent_role merge_declaration new_role held_role)
                    held_role)
       = [pods_get, pods_get, deployments_create]
   \<and> createOrUpdateRole forbidden_cluster new_role merge_declaration world0
     = (Some forbidden, world0\<lparr>calls := [CallGetRole ''test-ns'' ''test-role'']\<rparr>)
   \<and> createOrUpdateRoleBinding contended_bindings new_role_binding merge_declaration world0
     = (Some (Errorf ''failed to update rolebinding after 3 retries due to conflicts''),
        world0\<lparr>calls :=
          [CallGetRoleBinding ''test-ns'' ''test-binding'',
           CallUpdateRoleBinding
             (sent_role_binding merge_declaration new_role_binding held_role_binding),
           CallGetRoleBinding ''test-ns'' ''test-binding'',
           CallUpdateRoleBinding
             (sent_role_binding merge_declaration
                (sent_role_binding merge_declaration new_role_binding held_role_binding)
                held_role_binding),
           CallGetRoleBinding ''test-ns'' ''test-binding'',
           CallUpdateRoleBinding
             (sent_role_binding merge_declaration
                (sent_role_binding merge_declaration
                   (sent_role_binding merge_declaration new_role_binding held_role_binding)
                   held_role_binding)
                held_role_binding)]\<rparr>)
   \<and> createOrUpdateRoleBinding refused_bindings new_role_binding merge_declaration world0
     = (Some forbidden,
        world0\<lparr>calls :=
          [CallGetRoleBinding ''test-ns'' ''test-binding'',
           CallUpdateRoleBinding
             (sent_role_binding merge_declaration new_role_binding held_role_binding)]\<rparr>)
   \<and> createOrUpdateClusterRole contended_cluster new_cluster_role merge_declaration world0
     = (Some conflict,
        world0\<lparr>calls :=
          [CallGetClusterRole ''test-role'',
           CallUpdateClusterRole
             (sent_cluster_role merge_declaration new_cluster_role held_cluster_role)]\<rparr>)
   \<and> createOrUpdateClusterRoleBinding contended_bindings new_cluster_role_binding
        merge_declaration world0
     = (Some conflict,
        world0\<lparr>calls :=
          [CallGetClusterRoleBinding ''test-binding'',
           CallUpdateClusterRoleBinding
             (sent_cluster_role_binding merge_declaration new_cluster_role_binding
                held_cluster_role_binding)]\<rparr>)"
proof -
  let ?G = "CallGetRole ''test-ns'' ''test-role''"
  let ?r1 = "sent_role merge_declaration new_role held_role"
  let ?r2 = "sent_role merge_declaration ?r1 held_role"
  let ?r3 = "sent_role merge_declaration ?r2 held_role"
  let ?B = "CallGetRoleBinding ''test-ns'' ''test-binding''"
  let ?b1 = "sent_role_binding merge_declaration new_role_binding held_role_binding"
  let ?b2 = "sent_role_binding merge_declaration ?b1 held_role_binding"
  let ?b3 = "sent_role_binding merge_declaration ?b2 held_role_binding"
  let ?c = "sent_cluster_role merge_declaration new_cluster_role held_cluster_role"
  let ?d = "sent_cluster_role_binding merge_declaration new_cluster_role_binding
              held_cluster_role_binding"
  have w1: "createOrUpdateRole contended_cluster new_role merge_declaration world0
     = (Some (Errorf ''failed to update role after 3 retries due to conflicts''),
        world0\<lparr>calls := [?G, CallUpdateRole ?r1, ?G, CallUpdateRole ?r2, ?G, CallUpdateRole ?r3]\<rparr>)"
    using bounded_conflict_retry [where cl = contended_cluster and role = new_role
        and config = merge_declaration and w = world0
        and ?x1.0 = held_role and ?a1.0 = "world0\<lparr>calls := [?G]\<rparr>"
        and ?e1.0 = "Some conflict" and ?a2.0 = "world0\<lparr>calls := [?G, CallUpdateRole ?r1]\<rparr>"
        and ?x2.0 = held_role and ?a3.0 = "world0\<lparr>calls := [?G, CallUpdateRole ?r1, ?G]\<rparr>"
        and ?e2.0 = "Some conflict"
        and ?a4.0 = "world0\<lparr>calls := [?G, CallUpdateRole ?r1, ?G, CallUpdateRole ?r2]\<rparr>"
        and ?x3.0 = held_role
        and ?a5.0 = "world0\<lparr>calls := [?G, CallUpdateRole ?r1, ?G, CallUpdateRole ?r2, ?G]\<rparr>"
        and ?e3.0 = "Some conflict"
        and ?a6.0 = "world0\<lparr>calls := [?G, CallUpdateRole ?r1, ?G, CallUpdateRole ?r2, ?G,
                                        CallUpdateRole ?r3]\<rparr>"]
    by (simp add: call_defs example_defs binding_defs sent_role_meta sent_role_binding_meta)
  have w2: "createOrUpdateRole once_contended new_role merge_declaration world0
     = (None, world0\<lparr>api := 2, calls := [?G, CallUpdateRole ?r1, ?G, CallUpdateRole ?r2]\<rparr>)"
    using bounded_conflict_retry [where cl = once_contended and role = new_role
        and config = merge_declaration and w = world0
        and ?x1.0 = held_role and ?a1.0 = "world0\<lparr>calls := [?G]\<rparr>"
        and ?e1.0 = "Some conflict"
        and ?a2.0 = "world0\<lparr>api := 1, calls := [?G, CallUpdateRole ?r1]\<rparr>"
        and ?x2.0 = held_role
        and ?a3.0 = "world0\<lparr>api := 1, calls := [?G, CallUpdateRole ?r1, ?G]\<rparr>"
        and ?e2.0 = None
        and ?a4.0 = "world0\<lparr>api := 2, calls := [?G, CallUpdateRole ?r1, ?G, CallUpdateRole ?r2]\<rparr>"]
    by (simp add: call_defs example_defs binding_defs sent_role_meta sent_role_binding_meta)
  have w3: "role_Rules ?r2 = [pods_get, pods_get, deployments_create]"
    by (simp add: sent_role_def mergeRules_def example_defs)
  have w4: "createOrUpdateRole forbidden_cluster new_role merge_declaration world0
     = (Some forbidden, world0\<lparr>calls := [?G]\<rparr>)"
    using bounded_conflict_retry [where cl = forbidden_cluster and role = new_role
        and config = merge_declaration and w = world0 and err = forbidden
        and ?a1.0 = "world0\<lparr>calls := [?G]\<rparr>"]
    by (simp add: call_defs example_defs binding_defs sent_role_meta sent_role_binding_meta)
  have w5: "createOrUpdateRoleBinding contended_bindings new_role_binding merge_declaration world0
     = (Some (Errorf ''failed to update rolebinding after 3 retries due to conflicts''),
        world0\<lparr>calls := [?B, CallUpdateRoleBinding ?b1, ?B, CallUpdateRoleBinding ?b2, ?B,
                           CallUpdateRoleBinding ?b3]\<rparr>)"
    using bounded_conflict_retry [where cl = contended_bindings and rb = new_role_binding
        and config = merge_declaration and w = world0
        and ?y1.0 = held_role_binding and ?a1.0 = "world0\<lparr>calls := [?B]\<rparr>"
        and ?e1.0 = "Some conflict"
        and ?a2.0 = "world0\<lparr>calls := [?B, CallUpdateRoleBinding ?b1]\<rparr>"
        and ?y2.0 = held_role_binding
        and ?a3.0 = "world0\<lparr>calls := [?B, CallUpdateRoleBinding ?b1, ?B]\<rparr>"
        and ?e2.0 = "Some conflict"
        and ?a4.0 = "world0\<lparr>calls := [?B, CallUpdateRoleBinding ?b1, ?B,
                                        CallUpdateRoleBinding ?b2]\<rparr>"
        and ?y3.0 = held_role_binding
        and ?a5.0 = "world0\<lparr>calls := [?B, CallUpdateRoleBinding ?b1, ?B,
                                        CallUpdateRoleBinding ?b2, ?B]\<rparr>"
        and ?e3.0 = "Some conflict"
        and ?a6.0 = "world0\<lparr>calls := [?B, CallUpdateRoleBinding ?b1, ?B,
                                        CallUpdateRoleBinding ?b2, ?B,
                                        CallUpdateRoleBinding ?b3]\<rparr>"]
    by (simp add: call_defs example_defs binding_defs sent_role_meta sent_role_binding_meta)
  have w6: "createOrUpdateRoleBinding refused_bindings new_role_binding merge_declaration world0
     = (Some forbidden, world0\<lparr>calls := [?B, CallUpdateRoleBinding ?b1]\<rparr>)"
    using bounded_conflict_retry [where cl = refused_bindings and rb = new_role_binding
        and config = merge_declaration and w = world0
        and ?y1.0 = held_role_binding and ?a1.0 = "world0\<lparr>calls := [?B]\<rparr>"
        and ?e1.0 = "Some forbidden"
        and ?a2.0 = "world0\<lparr>calls := [?B, CallUpdateRoleBinding ?b1]\<rparr>"]
    by (simp add: call_defs example_defs binding_defs sent_role_meta sent_role_binding_meta)
  have w7: "createOrUpdateClusterRole contended_cluster new_cluster_role merge_declaration world0
     = (Some conflict,
        world0\<lparr>calls := [CallGetClusterRole ''test-role'', CallUpdateClusterRole ?c]\<rparr>)"
    using bounded_conflict_retry [where cl = contended_cluster and cr = new_cluster_role
        and config = merge_declaration and w = world0 and existingC = held_cluster_role
        and ?a1.0 = "world0\<lparr>calls := [CallGetClusterRole ''test-role'']\<rparr>"]
    by (simp add: call_defs example_defs binding_defs sent_role_meta sent_role_binding_meta)
  have w8: "createOrUpdateClusterRoleBinding contended_bindings new_cluster_role_binding
        merge_declaration world0
     = (Some conflict,
        world0\<lparr>calls := [CallGetClusterRoleBinding ''test-binding'',
                           CallUpdateClusterRoleBinding ?d]\<rparr>)"
    using bounded_conflict_retry [where cl = contended_bindings and crb = new_cluster_role_binding
        and config = merge_declaration and w = world0 and existingD = held_cluster_role_binding
        and ?a1.0 = "world0\<lparr>calls := [CallGetClusterRoleBinding ''test-binding'']\<rparr>"]
    by (simp add: call_defs example_defs binding_defs sent_role_meta sent_role_binding_meta)
  show ?thesis
    by (intro conjI w1 w2 w3 w4 w5 w6 w7 w8)
qed

lemma handleNamespaceCreateOrUpdate_loop_append:
  "handleNamespaceCreateOrUpdate_loop re engine cl namespace (xs @ ys) w
     = handleNamespaceCreateOrUpdate_loop re engine cl namespace ys
         (handleNamespaceCreateOrUpdate_loop re engine cl namespace xs w)"
  by (induction xs arbitrary: w) (auto split: prod.splits option.splits bool.splits)

lemma invoke_frame: "invoke c f w = (r, w') \<Longrightarrow> logs w' = logs w \<and> health w' = health w"
  by (auto simp: invoke_def split: prod.splits)

lemma NamespaceReconciler_Reconcile_world:
  assumes "GetNamespace cl req w = (Inr namespace, w0)"
    and "ListConfigs cl (logInfo ''Processing namespace create/update event'' w0) = (Inr items, w1)"
  shows "NamespaceReconciler_Reconcile re engine cl req w
           = ((Result_empty, None),
              RecordReconcile cl (handleNamespaceCreateOrUpdate_loop re engine cl namespace items w1))"
    and "logs w1 = logs w @ [LogInfo ''Processing namespace create/update event'']"
  using assms invoke_frame [of "CallGetNamespace req" "api_GetNamespace cl req" w "Inr namespace" w0]
    invoke_frame [of CallListConfigs "api_ListConfigs cl"
      "logInfo ''Processing namespace create/update event'' w0" "Inr items" w1]
  by (simp_all add: NamespaceReconciler_Reconcile_def handleNamespaceCreateOrUpdate_def
      GetNamespace_def ListConfigs_def logInfo_def)

lemma RecordReconcile_simps:
  "logs (RecordReconcile cl w) = logs w"
  "api (RecordReconcile cl w) = api w"
  "calls (RecordReconcile cl w) = calls w"
  "healthy (health (RecordReconcile cl w)) = 1"
  "lastReconcile (health (RecordReconcile cl w)) = api_Now cl (api w)"
  "ready (health (RecordReconcile cl w)) = ready (health w)"
  by (simp_all add: RecordReconcile_def)

text \<open>
  C10. On a namespace create or update event, once the namespace is fetched and the
  declarations are listed, the namespace's reconcile returns the empty result and no
  error, whatever applying or cleaning up does for any declaration. Its run logs the event
  and then visits every declaration; it ends by recording the reconcile in the health
  checker: healthy, with the time of the reconcile. When applying a declaration fails, at
  whatever place in the list, the error is logged as the next record and the loop visits
  every declaration that is left. A failed match is logged with its error and the loop
  goes on as well; the cleanup returns no error on any path.
\<close>

theorem namespace_reconcile_never_fails_on_apply:
  "(GetNamespace cl req w = (Inr namespace, w0)
     \<and> ListConfigs cl (logInfo ''Processing namespace create/update event'' w0) = (Inr items, w1)
    \<longrightarrow> fst (NamespaceReconciler_Reconcile re engine cl req w) = (Result_empty, None)
        \<and> snd (NamespaceReconciler_Reconcile re engine cl req w)
            = RecordReconcile cl
                (handleNamespaceCreateOrUpdate_loop re engine cl namespace items w1)
        \<and> healthy (health (snd (NamespaceReconciler_Reconcile re engine cl req w))) = 1
        \<and> lastReconcile (health (snd (NamespaceReconciler_Reconcile re engine cl req w)))
            = api_Now cl (api (snd (NamespaceReconciler_Reconcile re engine cl req w)))
        \<and> (\<exists>new. logs (snd (NamespaceReconciler_Reconcile re engine cl req w))
                    = logs w @ LogInfo ''Processing namespace create/update event'' # new
                  \<and> length (filter visit new) = length items))
   \<and> (GetNamespace cl req w = (Inr namespace, w0)
       \<and> ListConfigs cl (logInfo ''Processing namespace create/update event'' w0)
           = (Inr (before @ config # rest), w1)
       \<and> NamespaceMatches re namespace (spec_NamespaceSelector (Spec config)) = (True, None)
       \<and> ApplyRBACForNamespace engine cl namespace config
            (logInfo ''Applying RBAC for namespace''
               (handleNamespaceCreateOrUpdate_loop re engine cl namespace before w1))
           = (Some err, w2)
      \<longrightarrow> fst (NamespaceReconciler_Reconcile re engine cl req w) = (Result_empty, None)
          \<and> (\<exists>new. logs (snd (NamespaceReconciler_Reconcile re engine cl req w))
                      = logs w2 @ LogError err ''Failed to apply RBAC'' # new
                    \<and> length (filter visit new) = length rest))
   \<and> (GetNamespace cl req w = (Inr namespace, w0)
       \<and> ListConfigs cl (logInfo ''Processing namespace create/update event'' w0)
           = (Inr (before @ config # rest), w1)
       \<and> NamespaceMatches re namespace (spec_NamespaceSelector (Spec config)) = (b, Some err)
      \<longrightarrow> fst (NamespaceReconciler_Reconcile re engine cl req w) = (Result_empty, None)
          \<and> (\<exists>new. logs (snd (NamespaceReconciler_Reconcile re engine cl req w))
                      = logs (handleNamespaceCreateOrUpdate_loop re engine cl namespace before w1)
                        @ LogError err ''Failed to check namespace match'' # new
                    \<and> length (filter visit new) = length rest))
   \<and> CleanupRBACForNamespace namespaceName config w = (None, w)
   \<and> (NamespaceMatches re namespace (spec_NamespaceSelector (Spec config)) = (False, None)
      \<longrightarrow> handleNamespaceCreateOrUpdate_loop re engine cl namespace (config # rest) w
          = handleNamespaceCreateOrUpdate_loop re engine cl namespace rest
              (logInfo ''Namespace no longer matches config, cleaning up'' w))"
proof -
  let ?R = "NamespaceReconciler_Reconcile re engine cl req w"
  let ?loop = "handleNamespaceCreateOrUpdate_loop re engine cl namespace"
  have p1: "fst ?R = (Result_empty, None)
        \<and> snd ?R = RecordReconcile cl (?loop items w1)
        \<and> healthy (health (snd ?R)) = 1
        \<and> lastReconcile (health (snd ?R)) = api_Now cl (api (snd ?R))
        \<and> (\<exists>new. logs (snd ?R) = logs w @ LogInfo ''Processing namespace create/update event'' # new
                  \<and> length (filter visit new) = length items)"
    if g: "GetNamespace cl req w = (Inr namespace, w0)"
      and l: "ListConfigs cl (logInfo ''Processing namespace create/update event'' w0)
                = (Inr items, w1)"
    for items
  proof -
    note R = NamespaceReconciler_Reconcile_world(1) [OF g l, of re engine]
      NamespaceReconciler_Reconcile_world(2) [OF g l]
    from handleNamespaceCreateOrUpdate_loop_visits [of re engine cl namespace items w1]
    obtain new where n: "logs (?loop items w1) = logs w1 @ new"
      "length (filter visit new) = length items"
      by blast
    have "logs (snd ?R) = logs w @ LogInfo ''Processing namespace create/update event'' # new"
      using R n by (simp add: RecordReconcile_simps)
    then show ?thesis using R n(2) by (simp add: RecordReconcile_simps)
  qed
  have p2: "fst ?R = (Result_empty, None)
          \<and> (\<exists>new. logs (snd ?R) = logs w2 @ LogError err ''Failed to apply RBAC'' # new
                    \<and> length (filter visit new) = length rest)"
    if g: "GetNamespace cl req w = (Inr namespace, w0)"
      and l: "ListConfigs cl (logInfo ''Processing namespace create/update event'' w0)
                = (Inr (before @ config # rest), w1)"
      and m: "NamespaceMatches re namespace (spec_NamespaceSelector (Spec config)) = (True, None)"
      and a: "ApplyRBACForNamespace engine cl namespace config
                (logInfo ''Applying RBAC for namespace'' (?loop before w1)) = (Some err, w2)"
  proof -
    note R = NamespaceReconciler_Reconcile_world(1) [OF g l, of re engine]
      NamespaceReconciler_Reconcile_world(2) [OF g l]
    have s: "?loop (before @ config # rest) w1
               = ?loop rest (logError err ''Failed to apply RBAC'' w2)"
      using m a by (simp add: handleNamespaceCreateOrUpdate_loop_append)
    from handleNamespaceCreateOrUpdate_loop_visits
      [of re engine cl namespace rest "logError err ''Failed to apply RBAC'' w2"]
    obtain new where n:
      "logs (?loop rest (logError err ''Failed to apply RBAC'' w2))
         = logs (logError err ''Failed to apply RBAC'' w2) @ new"
      "length (filter visit new) = length rest"
      by blast
    have "logs (snd ?R) = logs w2 @ LogError err ''Failed to apply RBAC'' # new"
      using R s n by (simp add: logError_def RecordReconcile_simps)
    then show ?thesis using R n(2) by (simp add: RecordReconcile_simps)
  qed
  have p3: "fst ?R = (Result_empty, None)
          \<and> (\<exists>new. logs (snd ?R) = logs (?loop before w1)
                        @ LogError err ''Failed to check namespace match'' # new
                    \<and> length (filter visit new) = length rest)"
    if g: "GetNamespace cl req w = (Inr namespace, w0)"
      and l: "ListConfigs cl (logInfo ''Processing namespace create/update event'' w0)
                = (Inr (before @ config # rest), w1)"
      and m: "NamespaceMatches re namespace (spec_NamespaceSelector (Spec config)) = (b, Some err)"
  proof -
    note R = NamespaceReconciler_Reconcile_world(1) [OF g l, of re engine]
      NamespaceReconciler_Reconcile_world(2) [OF g l]
    let ?v = "logError err ''Failed to check namespace match'' (?loop before w1)"
    have s: "?loop (before @ config # rest) w1 = ?loop rest ?v"
      using m by (cases b) (simp_all add: handleNamespaceCreateOrUpdate_loop_append)
    from handleNamespaceCreateOrUpdate_loop_visits [of re engine cl namespace rest ?v]
    obtain new where n: "logs (?loop rest ?v) = logs ?v @ new"
      "length (filter visit new) = length rest"
      by blast
    have "logs (snd ?R) = logs (?loop before w1)
            @ LogError err ''Failed to check namespace match'' # new"
      using R s n by (simp add: logError_def RecordReconcile_simps)
    then show ?thesis using R n(2) by (simp add: RecordReconcile_simps)
  qed
  have p4: "NamespaceMatches re namespace (spec_NamespaceSelector (Spec config)) = (False, None)
      \<longrightarrow> handleNamespaceCreateOrUpdate_loop re engine cl namespace (config # rest) w
          = handleNamespaceCreateOrUpdate_loop re engine cl namespace rest
              (logInfo ''Namespace no longer matches config, cleaning up'' w)"
    by (simp add: CleanupRBACForNamespace_noop)
  show ?thesis
    using p1 p2 p3 p4 CleanupRBACForNamespace_noop [of namespaceName config w]
    by (intro conjI impI) blast+
qed

lemmas crowded_defs =
  crowded_cluster_def refusing_cluster_def empty_cluster_def world0_def role_declaration_def
  bad_regex_declaration_def away_declaration_def a_declaration_def no_selector_def
  including_selector_def no_templates_def admin_template_def ns_dev_def dev_request_def
  forbidden_def stub_regexp_def

lemma crowded_apply:
  "ApplyRBACForNamespace fragment_engine crowded_cluster ns_dev role_declaration
     \<lparr>api = a, calls = c, logs = l, health = h\<rparr>
   = (Some (Wrap ''failed to apply role admin-{{.Namespace.Name}}'' forbidden),
      \<lparr>api = a, calls = c @ [CallGetRole ''dev'' ''admin-dev''], logs = l, health = h\<rparr>)"
  by (simp add: ApplyRBACForNamespace_def applyRole_def createOrUpdateRole_def
        createOrUpdateRole_loop.simps GetRole_def invoke_def crowded_defs BuildContext_def
        ProcessTemplate_def ProcessMap_def fragment_engine_def well_formed_def funcMap_def
        Let_def)

lemma crowded_matches:
  "NamespaceMatches stub_regexp ns_dev (spec_NamespaceSelector (Spec role_declaration))
     = (True, None)"
  "NamespaceMatches stub_regexp ns_dev (spec_NamespaceSelector (Spec bad_regex_declaration))
     = (False, Some (LibError ''error parsing regexp: missing closing ]''))"
  "NamespaceMatches stub_regexp ns_dev (spec_NamespaceSelector (Spec away_declaration))
     = (False, None)"
  by (simp_all add: NamespaceMatches_def crowded_defs)

theorem namespace_reconcile_never_fails_on_apply_witness:
  "GetNamespace crowded_cluster dev_request world0
     = (Inr ns_dev, world0\<lparr>calls := [CallGetNamespace dev_request]\<rparr>)
   \<and> ListConfigs crowded_cluster
         (logInfo ''Processing namespace create/update event''
            (world0\<lparr>calls := [CallGetNamespace dev_request]\<rparr>))
       = (Inr [role_declaration, bad_regex_declaration, away_declaration, role_declaration],
          world0\<lparr>calls := [CallGetNamespace dev_request, CallListConfigs],
                  logs := [LogInfo ''Processing namespace create/update event'']\<rparr>)
   \<and> NamespaceMatches stub_regexp ns_dev (spec_NamespaceSelector (Spec role_declaration))
       = (True, None)
   \<and> ApplyRBACForNamespace fragment_engine crowded_cluster ns_dev role_declaration
         (logInfo ''Applying RBAC for namespace''
            (world0\<lparr>calls := [CallGetNamespace dev_request, CallListConfigs],
                    logs := [LogInfo ''Processing namespace create/update event'']\<rparr>))
       = (Some (Wrap ''failed to apply role admin-{{.Namespace.Name}}'' forbidden),
          world0\<lparr>calls := [CallGetNamespace dev_request, CallListConfigs,
                             CallGetRole ''dev'' ''admin-dev''],
                  logs := [LogInfo ''Processing namespace create/update event'',
                           LogInfo ''Applying RBAC for namespace'']\<rparr>)
   \<and> NamespaceReconciler_Reconcile stub_regexp fragment_engine crowded_cluster dev_request world0
       = ((Result_empty, None),
          \<lparr>api = 0,
           calls = [CallGetNamespace dev_request, CallListConfigs,
                    CallGetRole ''dev'' ''admin-dev'', CallGetRole ''dev'' ''admin-dev''],
           logs = [LogInfo ''Processing namespace create/update event'',
                   LogInfo ''Applying RBAC for namespace'',
                   LogError (Wrap ''failed to apply role admin-{{.Namespace.Name}}'' forbidden)
                     ''Failed to apply RBAC'',
                   LogError (LibError ''error parsing regexp: missing closing ]'')
                     ''Failed to check namespace match'',
                   LogInfo ''Namespace no longer matches config, cleaning up'',
                   LogInfo ''Applying RBAC for namespace'',
                   LogError (Wrap ''failed to apply role admin-{{.Namespace.Name}}'' forbidden)
                     ''Failed to apply RBAC''],
           health = \<lparr>ready = 0, healthy = 1, lastReconcile = 1700000000\<rparr>\<rparr>)
   \<and> (\<exists>new. logs (snd (NamespaceReconciler_Reconcile stub_regexp fragment_engine
                           crowded_cluster dev_request world0))
              = [LogInfo ''Processing namespace create/update event'',
                 LogInfo ''Applying RBAC for namespace'',
                 LogError (Wrap ''failed to apply role admin-{{.Namespace.Name}}'' forbidden)
                   ''Failed to apply RBAC''] @ new
            \<and> length (filter visit new) = 3)"
proof -
  let ?wA = "world0\<lparr>calls := [CallGetNamespace dev_request]\<rparr>"
  let ?wB = "world0\<lparr>calls := [CallGetNamespace dev_request, CallListConfigs],
                    logs := [LogInfo ''Processing namespace create/update event'']\<rparr>"
  let ?wC = "world0\<lparr>calls := [CallGetNamespace dev_request, CallListConfigs,
                               CallGetRole ''dev'' ''admin-dev''],
                    logs := [LogInfo ''Processing namespace create/update event'',
                             LogInfo ''Applying RBAC for namespace'']\<rparr>"
  let ?err = "Wrap ''failed to apply role admin-{{.Namespace.Name}}'' forbidden"
  let ?items = "[role_declaration, bad_regex_declaration, away_declaration, role_declaration]"
  let ?R = "NamespaceReconciler_Reconcile stub_regexp fragment_engine crowded_cluster dev_request
              world0"
  have g: "GetNamespace crowded_cluster dev_request world0 = (Inr ns_dev, ?wA)"
    by (simp add: GetNamespace_def invoke_def crowded_cluster_def refusing_cluster_def
        empty_cluster_def world0_def)
  have l: "ListConfigs crowded_cluster
             (logInfo ''Processing namespace create/update event'' ?wA) = (Inr ?items, ?wB)"
    by (simp add: ListConfigs_def invoke_def crowded_cluster_def refusing_cluster_def
        empty_cluster_def world0_def logInfo_def)
  have a: "ApplyRBACForNamespace fragment_engine crowded_cluster ns_dev role_declaration
             (logInfo ''Applying RBAC for namespace'' ?wB) = (Some ?err, ?wC)"
    by (simp add: logInfo_def world0_def crowded_apply)
  note t = namespace_reconcile_never_fails_on_apply [where cl = crowded_cluster
      and req = dev_request and w = world0 and namespace = ns_dev and ?w0.0 = ?wA
      and ?w1.0 = ?wB and re = stub_regexp and engine = fragment_engine]
  from t [where items = ?items] g l
  have r: "fst ?R = (Result_empty, None)
      \<and> snd ?R = RecordReconcile crowded_cluster
          (handleNamespaceCreateOrUpdate_loop stub_regexp fragment_engine crowded_cluster ns_dev
             ?items ?wB)"
    by blast
  have loop: "handleNamespaceCreateOrUpdate_loop stub_regexp fragment_engine crowded_cluster
                ns_dev ?items ?wB
      = world0\<lparr>calls := [CallGetNamespace dev_request, CallListConfigs,
                          CallGetRole ''dev'' ''admin-dev'', CallGetRole ''dev'' ''admin-dev''],
                logs := [LogInfo ''Processing namespace create/update event'',
                   LogInfo ''Applying RBAC for namespace'',
                   LogError ?err ''Failed to apply RBAC'',
                   LogError (LibError ''error parsing regexp: missing closing ]'')
                     ''Failed to check namespace match'',
                   LogInfo ''Namespace no longer matches config, cleaning up'',
                   LogInfo ''Applying RBAC for namespace'',
                   LogError ?err ''Failed to apply RBAC'']\<rparr>"
    by (simp add: crowded_matches crowded_apply CleanupRBACForNamespace_noop logInfo_def
        logError_def world0_def)
  have world: "?R = ((Result_empty, None),
          \<lparr>api = 0,
           calls = [CallGetNamespace dev_request, CallListConfigs,
                    CallGetRole ''dev'' ''admin-dev'', CallGetRole ''dev'' ''admin-dev''],
           logs = [LogInfo ''Processing namespace create/update event'',
                   LogInfo ''Applying RBAC for namespace'',
                   LogError ?err ''Failed to apply RBAC'',
                   LogError (LibError ''error parsing regexp: missing closing ]'')
                     ''Failed to check namespace match'',
                   LogInfo ''Namespace no longer matches config, cleaning up'',
                   LogInfo ''Applying RBAC for namespace'',
                   LogError ?err ''Failed to apply RBAC''],
           health = \<lparr>ready = 0, healthy = 1, lastReconcile = 1700000000\<rparr>\<rparr>)"
    using r loop
    by (simp add: prod_eq_iff RecordReconcile_def world0_def crowded_cluster_def
        refusing_cluster_def empty_cluster_def)
  have l': "ListConfigs crowded_cluster
             (logInfo ''Processing namespace create/update event'' ?wA)
           = (Inr ([] @ role_declaration
                     # [bad_regex_declaration, away_declaration, role_declaration]), ?wB)"
    using l by simp
  have a': "ApplyRBACForNamespace fragment_engine crowded_cluster ns_dev role_declaration
             (logInfo ''Applying RBAC for namespace''
                (handleNamespaceCreateOrUpdate_loop stub_regexp fragment_engine crowded_cluster
                   ns_dev [] ?wB)) = (Some ?err, ?wC)"
    using a by simp
  from t [where before = "[]" and config = role_declaration
      and rest = "[bad_regex_declaration, away_declaration, role_declaration]"
      and err = ?err and ?w2.0 = ?wC] g l' crowded_matches(1) a'
  have e: "\<exists>new. logs (snd ?R) = logs ?wC @ LogError ?err ''Failed to apply RBAC'' # new
            \<and> length (filter visit new)
                = length [bad_regex_declaration, away_declaration, role_declaration]"
    by blast
  then have e': "\<exists>new. logs (snd ?R)
              = [LogInfo ''Processing namespace create/update event'',
                 LogInfo ''Applying RBAC for namespace'',
                 LogError ?err ''Failed to apply RBAC''] @ new
            \<and> length (filter visit new) = 3"
    by (simp add: world0_def numeral_3_eq_3)
  show ?thesis
    using g l crowded_matches(1) a world e' by (intro conjI) assumption+
qed

lemma access_undefined:
  "child v n = None \<Longrightarrow> \<exists>err. access True v n = Inl err"
  by (cases v) (simp_all add: access_def)

lemma eval_field_undefined:
  "\<not> defined v path \<Longrightarrow> \<exists>err. eval_field True v path = Inl err"
proof (induction path arbitrary: v)
  case Nil
  then show ?case by simp
next
  case (Cons n ns)
  show ?case
  proof (cases "child v n")
    case None
    then show ?thesis using access_undefined [of v n] by auto
  next
    case (Some c)
    then have "\<not> defined c ns" using Cons.prems by simp
    from Cons.IH [OF this] Some show ?thesis by (simp add: access_def)
  qed
qed

lemma eval_operand_undefined:
  "path \<in> set (operand_refs x) \<Longrightarrow> \<not> defined v path \<Longrightarrow> \<exists>err. eval_operand True v x = Inl err"
  by (cases x) (auto dest: eval_field_undefined)

lemma eval_operands_undefined:
  "path \<in> set (concat (map operand_refs xs)) \<Longrightarrow> \<not> defined v path
     \<Longrightarrow> \<exists>err. eval_operands True v xs = Inl err"
proof (induction xs)
  case Nil
  then show ?case by simp
next
  case (Cons x xs)
  show ?case
  proof (cases "path \<in> set (operand_refs x)")
    case True
    then obtain err where "eval_operand True v x = Inl err"
      using eval_operand_undefined Cons.prems(2) by blast
    then show ?thesis by simp
  next
    case False
    then have "path \<in> set (concat (map operand_refs xs))" using Cons.prems(1) by simp
    from Cons.IH [OF this Cons.prems(2)] show ?thesis by (auto split: sum.splits)
  qed
qed

lemma eval_expr_undefined:
  "path \<in> set (expr_refs e) \<Longrightarrow> \<not> defined v path \<Longrightarrow> \<exists>err. eval_expr True v e = Inl err"
proof (cases e)
  case (Value x)
  then show "path \<in> set (expr_refs e) \<Longrightarrow> \<not> defined v path \<Longrightarrow> ?thesis"
    using eval_operand_undefined [of path x v] by simp
next
  case (Call f xs)
  then show "path \<in> set (expr_refs e) \<Longrightarrow> \<not> defined v path \<Longrightarrow> ?thesis"
    using eval_operands_undefined [of path xs v] by auto
qed

lemma run_pieces_undefined:
  "path \<in> set (refs ps) \<Longrightarrow> \<not> defined v path \<Longrightarrow> \<exists>err. run_pieces sprint True v ps = Inl err"
proof (induction ps)
  case Nil
  then show ?case by (simp add: refs_def)
next
  case (Cons p ps)
  show ?case
  proof (cases "path \<in> set (piece_refs p)")
    case True
    then obtain e where p: "p = Placeholder e" and "path \<in> set (expr_refs e)"
      by (cases p) auto
    then obtain err where "eval_expr True v e = Inl err"
      using eval_expr_undefined Cons.prems(2) by blast
    then show ?thesis using p by simp
  next
    case False
    then have "path \<in> set (refs ps)" using Cons.prems(1) by (simp add: refs_def)
    from Cons.IH [OF this Cons.prems(2)] show ?thesis by (auto split: sum.splits piece.splits)
  qed
qed

text \<open>
  C6. With the template library as the spec describes it, \<^verbatim>\<open>ProcessTemplate\<close> returns an
  execution error, and so no substitution at all, for every syntactically valid template
  that holds an access to a field the context does not define, whether the access is a
  placeholder of its own or an argument of a function, and wherever it stands in the
  template. \<^verbatim>\<open>ValidateTemplate\<close> accepts every syntactically valid template, whatever
  fields it names, and returns an error exactly for the templates that do not parse; those
  \<^verbatim>\<open>ProcessTemplate\<close> rejects as well. For every library, \<^verbatim>\<open>ProcessTemplate\<close> parses
  with the option \<^verbatim>\<open>missingkey=error\<close> and returns what the execution returns: its text,
  or its error wrapped.
\<close>

theorem strict_processing_syntax_only_validation:
  "(parse_template funcMap templateStr = Some pieces \<and> path \<in> set (refs pieces)
      \<and> \<not> defined (reflect ctx) path
      \<longrightarrow> (\<exists>err. ProcessTemplate (text_template sprint) templateStr ctx
                   = Inl (Wrap ''failed to execute template'' err)))
   \<and> (parse_template funcMap templateStr = Some pieces
      \<longrightarrow> ValidateTemplate (text_template sprint) templateStr = None)
   \<and> (parse_template funcMap templateStr = None
      \<longrightarrow> (\<exists>err. ValidateTemplate (text_template sprint) templateStr = Some err)
        \<and> (\<exists>err. ProcessTemplate (text_template sprint) templateStr ctx
                   = Inl (Wrap ''failed to parse template'' err)))
   \<and> (Parse engine ''resource'' funcMap [''missingkey=error''] templateStr = Inr tmpl
      \<longrightarrow> ProcessTemplate engine templateStr ctx
          = (case Execute engine tmpl ctx of
               Inl err \<Rightarrow> Inl (Wrap ''failed to execute template'' err)
             | Inr s \<Rightarrow> Inr s))
   \<and> (Parse engine ''resource'' funcMap [''missingkey=error''] templateStr = Inl err
      \<longrightarrow> ProcessTemplate engine templateStr ctx = Inl (Wrap ''failed to parse template'' err))
   \<and> (Parse engine ''validation'' funcMap [] templateStr = Inr tmpl'
      \<longrightarrow> ValidateTemplate engine templateStr = None)
   \<and> (Parse engine ''validation'' funcMap [] templateStr = Inl err
      \<longrightarrow> ValidateTemplate engine templateStr = Some err)"
proof -
  have a: "\<exists>err. ProcessTemplate (text_template sprint) templateStr ctx
                   = Inl (Wrap ''failed to execute template'' err)"
    if "parse_template funcMap templateStr = Some pieces" "path \<in> set (refs pieces)"
      "\<not> defined (reflect ctx) path"
  proof -
    from run_pieces_undefined [OF that(2,3)]
    obtain err where "run_pieces sprint True (reflect ctx) pieces = Inl err"
      by blast
    then show ?thesis using that(1) by (simp add: ProcessTemplate_def text_template_def)
  qed
  have b: "parse_template funcMap templateStr = Some pieces
      \<longrightarrow> ValidateTemplate (text_template sprint) templateStr = None"
    by (simp add: ValidateTemplate_def text_template_def)
  have c: "parse_template funcMap templateStr = None
      \<longrightarrow> (\<exists>err. ValidateTemplate (text_template sprint) templateStr = Some err)
        \<and> (\<exists>err. ProcessTemplate (text_template sprint) templateStr ctx
                   = Inl (Wrap ''failed to parse template'' err))"
    by (simp add: ValidateTemplate_def ProcessTemplate_def text_template_def)
  have d: "Parse engine ''resource'' funcMap [''missingkey=error''] templateStr = Inr tmpl
      \<longrightarrow> ProcessTemplate engine templateStr ctx
          = (case Execute engine tmpl ctx of
               Inl err \<Rightarrow> Inl (Wrap ''failed to execute template'' err)
             | Inr s \<Rightarrow> Inr s)"
    by (simp add: ProcessTemplate_def)
  have e: "Parse engine ''resource'' funcMap [''missingkey=error''] templateStr = Inl err
      \<longrightarrow> ProcessTemplate engine templateStr ctx = Inl (Wrap ''failed to parse template'' err)"
    by (simp add: ProcessTemplate_def)
  have f: "Parse engine ''validation'' funcMap [] templateStr = Inr tmpl'
      \<longrightarrow> ValidateTemplate engine templateStr = None"
    by (simp add: ValidateTemplate_def)
  have g: "Parse engine ''validation'' funcMap [] templateStr = Inl err
      \<longrightarrow> ValidateTemplate engine templateStr = Some err"
    by (simp add: ValidateTemplate_def)
  show ?thesis using a b c d e f g by (intro conjI impI) blast+
qed

lemmas template_defs =
  parse_template_def parse_piece_def parse_expr_def parse_operand_def funcMap_def quoted_def
  refs_def reflect_def dev_context_def BuildContext_def ns_dev_def a_declaration_def
  no_selector_def no_templates_def lookup_def entries_def access_def render_def
  default_fn_def hasKey_def getOrDefault_def text_template_def ProcessTemplate_def
  ValidateTemplate_def Let_def

theorem strict_processing_syntax_only_validation_witness:
  "parse_template funcMap ''{{.Namespace.Labels.nonexistent}}''
     = Some [Literal '''',
             Placeholder (Value (Access [''Namespace'', ''Labels'', ''nonexistent''])),
             Literal '''']
   \<and> \<not> defined (reflect dev_context) [''Namespace'', ''Labels'', ''nonexistent'']
   \<and> ProcessTemplate (text_template (\<lambda>v. '''')) ''{{.Namespace.Labels.nonexistent}}'' dev_context
       = Inl (Wrap ''failed to execute template''
                (LibError ''map has no entry for key nonexistent''))
   \<and> Execute (text_template (\<lambda>v. ''''))
         (False, [Literal '''',
                  Placeholder (Value (Access [''Namespace'', ''Labels'', ''nonexistent''])),
                  Literal ''''])
         dev_context
       = Inr ''''
   \<and> parse_template funcMap
         (''{{default '' @ quoted ''fallback'' @ '' .Namespace.Annotations.env}}'')
       = Some [Literal '''',
               Placeholder (Call ''default''
                              [Lit ''fallback'', Access [''Namespace'', ''Annotations'', ''env'']]),
               Literal '''']
   \<and> (\<exists>err. ProcessTemplate (text_template (\<lambda>v. ''''))
                 (''{{default '' @ quoted ''fallback'' @ '' .Namespace.Annotations.env}}'')
                 dev_context
               = Inl (Wrap ''failed to execute template'' err))
   \<and> ProcessTemplate (text_template (\<lambda>v. ''''))
         (''team-{{getOrDefault .Namespace.Labels '' @ quoted ''team'' @ '' ''
            @ quoted ''unknown'' @ ''}}'')
         dev_context
       = Inr ''team-unknown''
   \<and> ProcessTemplate (text_template (\<lambda>v. '''')) ''role-{{.Namespace.Name}}'' dev_context
       = Inr ''role-dev''
   \<and> parse_template funcMap ''{{.Invalid}}''
       = Some [Literal '''', Placeholder (Value (Access [''Invalid''])), Literal '''']
   \<and> ValidateTemplate (text_template (\<lambda>v. '''')) ''{{.Invalid}}'' = None
   \<and> ProcessTemplate (text_template (\<lambda>v. '''')) ''{{.Invalid}}'' dev_context
       = Inl (Wrap ''failed to execute template'' (LibError ''can not evaluate field Invalid''))
   \<and> parse_template funcMap ''{{.Namespace.Name'' = None
   \<and> ValidateTemplate (text_template (\<lambda>v. '''')) ''{{.Namespace.Name''
       = Some (LibError ''template: validation: syntax error'')"
proof -
  let ?lib = "text_template (\<lambda>v. '''')"
  let ?missing = "[Literal '''',
                   Placeholder (Value (Access [''Namespace'', ''Labels'', ''nonexistent''])),
                   Literal '''']"
  let ?fallback = "[Literal '''',
                    Placeholder (Call ''default''
                       [Lit ''fallback'', Access [''Namespace'', ''Annotations'', ''env'']]),
                    Literal '''']"
  have p1: "parse_template funcMap ''{{.Namespace.Labels.nonexistent}}'' = Some ?missing"
    by (simp add: template_defs)
  have m1: "[''Namespace'', ''Labels'', ''nonexistent''] \<in> set (refs ?missing)"
    by (simp add: refs_def)
  have u1: "\<not> defined (reflect dev_context) [''Namespace'', ''Labels'', ''nonexistent'']"
    by (simp add: template_defs)
  from strict_processing_syntax_only_validation [where sprint = "\<lambda>v. ''''"
      and templateStr = "''{{.Namespace.Labels.nonexistent}}''" and pieces = ?missing
      and path = "[''Namespace'', ''Labels'', ''nonexistent'']" and ctx = dev_context, THEN conjunct1] p1 m1 u1
  have "\<exists>err. ProcessTemplate ?lib ''{{.Namespace.Labels.nonexistent}}'' dev_context
               = Inl (Wrap ''failed to execute template'' err)"
    by blast
  moreover have "Execute ?lib (True, ?missing) dev_context
                   = Inl (LibError ''map has no entry for key nonexistent'')"
    by (simp add: template_defs)
  ultimately have r1: "ProcessTemplate ?lib ''{{.Namespace.Labels.nonexistent}}'' dev_context
       = Inl (Wrap ''failed to execute template''
                (LibError ''map has no entry for key nonexistent''))"
    using p1 by (simp add: ProcessTemplate_def text_template_def)
  have n1: "Execute ?lib (False, ?missing) dev_context = Inr ''''"
    by (simp add: template_defs)
  have p2: "parse_template funcMap
              (''{{default '' @ quoted ''fallback'' @ '' .Namespace.Annotations.env}}'')
            = Some ?fallback"
    by (simp add: template_defs)
  have m2: "[''Namespace'', ''Annotations'', ''env''] \<in> set (refs ?fallback)"
    by (simp add: refs_def)
  have u2: "\<not> defined (reflect dev_context) [''Namespace'', ''Annotations'', ''env'']"
    by (simp add: template_defs)
  from strict_processing_syntax_only_validation [where sprint = "\<lambda>v. ''''"
      and templateStr = "''{{default '' @ quoted ''fallback'' @ '' .Namespace.Annotations.env}}''"
      and pieces = ?fallback and path = "[''Namespace'', ''Annotations'', ''env'']"
      and ctx = dev_context, THEN conjunct1] p2 m2 u2
  have r2: "\<exists>err. ProcessTemplate ?lib
                 (''{{default '' @ quoted ''fallback'' @ '' .Namespace.Annotations.env}}'')
                 dev_context
               = Inl (Wrap ''failed to execute template'' err)"
    by blast
  have r3: "ProcessTemplate ?lib
         (''team-{{getOrDefault .Namespace.Labels '' @ quoted ''team'' @ '' ''
            @ quoted ''unknown'' @ ''}}'')
         dev_context
       = Inr ''team-unknown''"
    by (simp add: template_defs)
  have r4: "ProcessTemplate ?lib ''role-{{.Namespace.Name}}'' dev_context = Inr ''role-dev''"
    by (simp add: template_defs)
  have p3: "parse_template funcMap ''{{.Invalid}}''
       = Some [Literal '''', Placeholder (Value (Access [''Invalid''])), Literal '''']"
    by (simp add: template_defs)
  from strict_processing_syntax_only_validation [where sprint = "\<lambda>v. ''''"
      and templateStr = "''{{.Invalid}}''"
      and pieces = "[Literal '''', Placeholder (Value (Access [''Invalid''])), Literal '''']",
      THEN conjunct2, THEN conjunct1] p3
  have v1: "ValidateTemplate ?lib ''{{.Invalid}}'' = None"
    by blast
  have r5: "ProcessTemplate ?lib ''{{.Invalid}}'' dev_context
       = Inl (Wrap ''failed to execute template'' (LibError ''can not evaluate field Invalid''))"
    by (simp add: template_defs)
  have p4: "parse_template funcMap ''{{.Namespace.Name'' = None"
    by (simp add: template_defs)
  from strict_processing_syntax_only_validation [where sprint = "\<lambda>v. ''''"
      and templateStr = "''{{.Namespace.Name''", THEN conjunct2, THEN conjunct2, THEN conjunct1]
    p4
  have "\<exists>err. ValidateTemplate ?lib ''{{.Namespace.Name'' = Some err"
    by blast
  then have v2: "ValidateTemplate ?lib ''{{.Namespace.Name''
                   = Some (LibError ''template: validation: syntax error'')"
    using p4 by (simp add: ValidateTemplate_def text_template_def)
  show ?thesis
    by (intro conjI p1 u1 r1 n1 p2 r2 r3 r4 p3 v1 r5 p4 v2)
qed

end
